theory Spec2Isabelle
  imports Complex_Main
begin

section \<open>Numbers and arrays\<close>

text \<open>
  The program computes with numpy and TensorFlow arrays of floating point numbers.  The
  model reads a finite float as a real number (rounding is not modelled) and keeps the
  three special values a float division can produce, so that a division by zero is a
  value of the model as it is a value (and no exception) in numpy and TensorFlow.
  A 2D array is the list of its rows.
\<close>

type_synonym vec = "real list"
type_synonym matrix = "real list list"

datatype npfloat = Finite real | PosInf | NegInf | NaN

definition np_div :: "real \<Rightarrow> real \<Rightarrow> npfloat" where
  "np_div a b =
     (if b = 0 then (if a = 0 then NaN else if 0 < a then PosInf else NegInf)
      else Finite (a / b))"

fun one_minus :: "npfloat \<Rightarrow> npfloat" where
  "one_minus (Finite r) = Finite (1 - r)"
| "one_minus PosInf = NegInf"
| "one_minus NegInf = PosInf"
| "one_minus NaN = NaN"

definition square :: "matrix \<Rightarrow> matrix" where
  "square x = map (map (\<lambda>v. v * v)) x"

definition reduce_sum :: "matrix \<Rightarrow> real" where
  "reduce_sum x = sum_list (map sum_list x)"


text \<open>\<open>y - pred\<close> of numpy, elementwise on arrays of one shape.\<close>

definition np_sub :: "matrix \<Rightarrow> matrix \<Rightarrow> matrix" where
  "np_sub y pred = map2 (map2 (\<lambda>a b. a - b)) y pred"

text \<open>\<open>tf.norm(x, ord=2, axis=1)\<close> and \<open>np.linalg.norm(x, ord=2, axis=1)\<close>: the
  Euclidean norm of every row.\<close>

definition row_norm :: "vec \<Rightarrow> real" where
  "row_norm r = sqrt (sum_list (map (\<lambda>v. v * v) r))"

definition norm_axis1 :: "matrix \<Rightarrow> vec" where
  "norm_axis1 x = map row_norm x"

section \<open>r2_score\<close>


text \<open>The expression \<open>1-np.sum((y - pred)**2) / np.sum(y**2)\<close> that the train methods
  write out for every reported \<open>r2_*\<close> value.\<close>

definition np_r2 :: "matrix \<Rightarrow> matrix \<Rightarrow> npfloat" where
  "np_r2 y pred =
     one_minus (np_div (reduce_sum (square (np_sub y pred))) (reduce_sum (square y)))"

section \<open>ElasticNet\<close>

datatype ElasticNet = ElasticNet (en_l1: real) (en_l2: real)

text \<open>\<open>__init__(self, l1=1e-8, l2=1.0)\<close>: an argument left out takes its default.\<close>

definition ElasticNet_init :: "real option \<Rightarrow> real option \<Rightarrow> ElasticNet" where
  "ElasticNet_init l1 l2 =
     ElasticNet (case l1 of None \<Rightarrow> 1 / 10 ^ 8 | Some v \<Rightarrow> v)
                (case l2 of None \<Rightarrow> 1 | Some v \<Rightarrow> v)"

definition ElasticNet_call :: "ElasticNet \<Rightarrow> matrix \<Rightarrow> real" where
  "ElasticNet_call self x =
     en_l2 self * reduce_sum (square x) + en_l1 self * sum_list (norm_axis1 x)"

definition ElasticNet_get_config :: "ElasticNet \<Rightarrow> (string \<times> real) list" where
  "ElasticNet_get_config self = [(''l1'', en_l1 self), (''l2'', en_l2 self)]"

text \<open>Rebuilding a regularizer from a config is \<open>ElasticNet(**config)\<close>: the keys are
  passed as keyword arguments.\<close>

definition ElasticNet_from_config :: "(string \<times> real) list \<Rightarrow> ElasticNet" where
  "ElasticNet_from_config config =
     ElasticNet_init (map_of config ''l1'') (map_of config ''l2'')"

section \<open>Python values and errors\<close>

text \<open>Every exception the modelled code can raise is a value \<open>Inl e\<close> of the result.\<close>

datatype error = TypeError | IndexError | KeyError string | ValueError | OSError string

definition bnd :: "error + 'a \<Rightarrow> ('a \<Rightarrow> error + 'b) \<Rightarrow> error + 'b" where
  "bnd r f = (case r of Inl e \<Rightarrow> Inl e | Inr v \<Rightarrow> f v)"

text \<open>\<open>str\<close> of an integer, and the file names
  \<open>'...{}_{}_{}.h5'.format(cvfold_id, l1_id, l2_id)\<close>.\<close>

function str_nat :: "nat \<Rightarrow> string" where
  "str_nat n =
     (if n < 10 then [''0123456789'' ! n]
      else str_nat (n div 10) @ [''0123456789'' ! (n mod 10)])"
  by pat_completeness auto
termination
  by (relation "measure (\<lambda>n. n)") auto

definition str_int :: "int \<Rightarrow> string" where
  "str_int i = (if i < 0 then CHR ''-'' # str_nat (nat (- i)) else str_nat (nat i))"

definition format3 :: "string \<Rightarrow> int \<Rightarrow> int \<Rightarrow> int \<Rightarrow> string" where
  "format3 prefix a b c =
     prefix @ str_int a @ ''_'' @ str_int b @ ''_'' @ str_int c @ ''.h5''"

text \<open>Indexing an array with an array of indices (\<open>a[ind]\<close>): IndexError when an index
  is out of bounds.  \<open>x[:, ind]\<close> does so in every row.\<close>

definition np_take :: "'a list \<Rightarrow> nat list \<Rightarrow> error + 'a list" where
  "np_take a ind =
     (if list_all (\<lambda>i. i < length a) ind then Inr (map (\<lambda>i. a ! i) ind) else Inl IndexError)"

fun take_cols :: "matrix \<Rightarrow> nat list \<Rightarrow> error + matrix" where
  "take_cols [] ind = Inr []"
| "take_cols (r # rs) ind =
     bnd (np_take r ind) (\<lambda>r'. bnd (take_cols rs ind) (\<lambda>rs'. Inr (r' # rs')))"

text \<open>\<open>np.argsort\<close>: the indices of an array in the order that sorts it (equal keys are
  kept in index order here; numpy leaves their order open).  \<open>a[-n:]\<close> are the last
  \<open>n\<close> entries, all of them when there are fewer.\<close>

definition argsort :: "real list \<Rightarrow> nat list" where
  "argsort ks = sort_key (\<lambda>i. ks ! i) [0..<length ks]"

definition last_n :: "nat \<Rightarrow> 'a list \<Rightarrow> 'a list" where
  "last_n n a = drop (length a - n) a"

text \<open>\<open>geneNames[ind_genes]\<close> inside the print of the selected genes: \<open>geneNames\<close> is
  \<open>None\<close> by default, and subscripting \<open>None\<close> is a TypeError.\<close>

definition print_genes :: "string list option \<Rightarrow> nat list \<Rightarrow> error + unit" where
  "print_genes geneNames ind_genes =
     (case geneNames of
        None \<Rightarrow> Inl TypeError
      | Some names \<Rightarrow> bnd (np_take names ind_genes) (\<lambda>_. Inr ()))"

section \<open>The Keras interface\<close>

text \<open>
  The program drives Keras; what Keras computes (initial weights, the weights after
  training, the training history, the files the callbacks write, predictions and
  evaluations) is not part of the program.  The model takes it as a parameter \<open>K\<close> and
  everything proved holds for every \<open>K\<close>.  What the program itself decides is modelled
  in full: the layers it declares, the order of the calls, their arguments, the files
  it saves and loads, and the values it computes from the results.
\<close>

datatype regularizer = Elastic ElasticNet | L2 real

record dense =
  units :: nat
  activation :: string
  input_width :: nat
  kernel_regularizer :: "regularizer option"
  bias_regularizer :: "regularizer option"
  trainable :: bool
  name :: string
  kernel :: matrix
  bias :: vec

record compile_args =
  loss :: string
  optimizer_lr :: real
  metrics :: "string list"

record model =
  layers :: "dense list"
  compiled :: "compile_args option"

datatype callback =
    EarlyStopping (es_monitor: string) (es_mode: string) (es_patience: int)
  | ModelCheckpoint (mc_filepath: string) (mc_monitor: string) (mc_mode: string)
      (mc_save_best_only: bool)

record fit_call =
  f_model :: model
  f_x :: matrix
  f_y :: matrix
  f_batch_size :: int
  f_validation_data :: "(matrix \<times> matrix) option"
  f_epochs :: int
  f_callbacks :: "callback list"

type_synonym files = "string \<Rightarrow> model option"
type_synonym history = "string \<Rightarrow> real list option"

text \<open>What one call of \<open>fit\<close> leaves behind: the entries of every layer's kernel and
  bias (layer, row, column), the files, and the history.\<close>

record fit_out =
  fo_kernel :: "nat \<Rightarrow> nat \<Rightarrow> nat \<Rightarrow> real"
  fo_bias :: "nat \<Rightarrow> nat \<Rightarrow> real"
  fo_files :: files
  fo_history :: history

text \<open>The library.  The first argument of the initializers and of \<open>fit_result\<close> counts
  the library calls made so far, so that two calls with equal arguments need not give
  equal results (initial weights are random, and so is training).\<close>

record keras =
  init_kernel :: "nat \<Rightarrow> string \<Rightarrow> nat \<Rightarrow> nat \<Rightarrow> real"
  init_bias :: "nat \<Rightarrow> string \<Rightarrow> nat \<Rightarrow> real"
  fit_result :: "nat \<Rightarrow> fit_call \<Rightarrow> files \<Rightarrow> fit_out"
  predict :: "model \<Rightarrow> matrix \<Rightarrow> matrix"
  evaluate :: "model \<Rightarrow> matrix \<Rightarrow> matrix \<Rightarrow> real list"
  to_categorical :: "int list \<Rightarrow> matrix"

text \<open>The world outside the objects: the files under \<open>KerasSavedModels/\<close> and the log
  of the calls of \<open>fit\<close>, \<open>load_model\<close> and \<open>save\<close> made so far.\<close>

datatype event = Fit fit_call | Load string model | Save string model

record world =
  files :: files
  trace :: "event list"

definition Sequential :: model where
  "Sequential = \<lparr>layers = [], compiled = None\<rparr>"

text \<open>\<open>Dense(units, activation=..., input_shape=..., kernel_regularizer=...,
  bias_regularizer=..., trainable=..., name=...)\<close> added to a model: the layer is built
  with fresh weights of shape (input width, units) and (units); the input width is the
  given \<open>input_shape\<close> or the width of the layer before.\<close>

definition new_layer ::
  "keras \<Rightarrow> nat \<Rightarrow> nat \<Rightarrow> string \<Rightarrow> nat \<Rightarrow> regularizer option \<Rightarrow> regularizer option \<Rightarrow> bool \<Rightarrow>
   string \<Rightarrow> dense" where
  "new_layer K tick n act w kreg breg tr nm =
     \<lparr>units = n, activation = act, input_width = w,
      kernel_regularizer = kreg, bias_regularizer = breg, trainable = tr, name = nm,
      kernel = map (\<lambda>i. map (\<lambda>j. init_kernel K tick nm i j) [0..<n]) [0..<w],
      bias = map (\<lambda>j. init_bias K tick nm j) [0..<n]\<rparr>"

definition Dense ::
  "keras \<Rightarrow> nat \<Rightarrow> nat \<Rightarrow> string \<Rightarrow> nat option \<Rightarrow> regularizer option \<Rightarrow>
   regularizer option \<Rightarrow> bool \<Rightarrow> string \<Rightarrow> model \<Rightarrow> model" where
  "Dense K tick n act input_shape kreg breg tr nm mdl =
     (let w = (case input_shape of
                 Some d \<Rightarrow> d
               | None \<Rightarrow> (case layers mdl of [] \<Rightarrow> 0 | _ \<Rightarrow> units (last (layers mdl))))
      in mdl\<lparr>layers := layers mdl @ [new_layer K tick n act w kreg breg tr nm]\<rparr>)"

definition compile :: "string \<Rightarrow> real \<Rightarrow> string list \<Rightarrow> model \<Rightarrow> model" where
  "compile ls rate ms mdl =
     mdl\<lparr>compiled := Some \<lparr>loss = ls, optimizer_lr = rate, metrics = ms\<rparr>\<rparr>"

definition shape_ok :: "dense \<Rightarrow> matrix \<Rightarrow> vec \<Rightarrow> bool" where
  "shape_ok l k b \<longleftrightarrow>
     length k = input_width l \<and> list_all (\<lambda>r. length r = units l) k \<and> length b = units l"

text \<open>\<open>layer.set_weights([kernel, bias])\<close>: ValueError when a shape is not the layer's.\<close>

definition set_weights :: "dense \<Rightarrow> matrix \<Rightarrow> vec \<Rightarrow> error + dense" where
  "set_weights l k b =
     (if shape_ok l k b then Inr (l\<lparr>kernel := k, bias := b\<rparr>) else Inl ValueError)"

definition get_layer :: "model \<Rightarrow> string \<Rightarrow> error + dense" where
  "get_layer mdl nm =
     (case find (\<lambda>l. name l = nm) (layers mdl) of None \<Rightarrow> Inl ValueError | Some l \<Rightarrow> Inr l)"

text \<open>A layer changed in place is the same layer of the model afterwards.\<close>

definition put_layer :: "model \<Rightarrow> dense \<Rightarrow> model" where
  "put_layer mdl l' =
     mdl\<lparr>layers := map (\<lambda>l. if name l = name l' then l' else l) (layers mdl)\<rparr>"

text \<open>\<open>model.load_weights(path, by_name=True)\<close>: a layer takes the weights of the saved
  layer of its name; a layer whose name the file does not have keeps its weights.\<close>

definition load_layer_by_name :: "dense list \<Rightarrow> dense \<Rightarrow> error + dense" where
  "load_layer_by_name saved l =
     (case find (\<lambda>s. name s = name l) saved of
        None \<Rightarrow> Inr l
      | Some s \<Rightarrow> set_weights l (kernel s) (bias s))"

fun load_layers_by_name :: "dense list \<Rightarrow> dense list \<Rightarrow> error + dense list" where
  "load_layers_by_name saved [] = Inr []"
| "load_layers_by_name saved (l # ls) =
     bnd (load_layer_by_name saved l) (\<lambda>l'.
     bnd (load_layers_by_name saved ls) (\<lambda>ls'. Inr (l' # ls')))"

definition load_weights :: "string option \<Rightarrow> world \<Rightarrow> model \<Rightarrow> error + model" where
  "load_weights path w mdl =
     (case path of
        None \<Rightarrow> Inl TypeError
      | Some p \<Rightarrow>
          (case files w p of
             None \<Rightarrow> Inl (OSError p)
           | Some saved \<Rightarrow>
               bnd (load_layers_by_name (layers saved) (layers mdl))
                 (\<lambda>ls. Inr (mdl\<lparr>layers := ls\<rparr>))))"

definition save :: "model \<Rightarrow> string \<Rightarrow> world \<Rightarrow> world" where
  "save mdl p w = w\<lparr>files := (files w)(p \<mapsto> mdl), trace := trace w @ [Save p mdl]\<rparr>"

definition load_model :: "string \<Rightarrow> world \<Rightarrow> error + (model \<times> world)" where
  "load_model p w =
     (case files w p of
        None \<Rightarrow> Inl (OSError p)
      | Some saved \<Rightarrow> Inr (saved, w\<lparr>trace := trace w @ [Load p saved]\<rparr>))"

text \<open>\<open>model.get_weights()[0]\<close> and \<open>model.get_weights()[1]\<close>: kernel and bias of the
  first layer.\<close>

definition first_weights :: "model \<Rightarrow> error + (matrix \<times> vec)" where
  "first_weights mdl =
     (case layers mdl of [] \<Rightarrow> Inl IndexError | l # _ \<Rightarrow> Inr (kernel l, bias l))"

text \<open>\<open>model.fit(x, y, batch_size=..., validation_data=..., epochs=..., callbacks=...)\<close>:
  the call is logged with the model as it stands; the library's answer gives every layer
  its new weights (in the layer's shape), the files and the history.\<close>

definition trained_layer :: "fit_out \<Rightarrow> nat \<Rightarrow> dense \<Rightarrow> dense" where
  "trained_layer out i l =
     l\<lparr>kernel := map (\<lambda>r. map (\<lambda>c. fo_kernel out i r c) [0..<units l]) [0..<input_width l],
        bias := map (\<lambda>c. fo_bias out i c) [0..<units l]\<rparr>"

definition fit ::
  "keras \<Rightarrow> world \<Rightarrow> model \<Rightarrow> matrix \<Rightarrow> matrix \<Rightarrow> int \<Rightarrow> (matrix \<times> matrix) option \<Rightarrow> int \<Rightarrow>
   callback list \<Rightarrow> model \<times> history \<times> world" where
  "fit K w mdl x y batch_size validation_data n callbacks =
     (let c = \<lparr>f_model = mdl, f_x = x, f_y = y, f_batch_size = batch_size,
               f_validation_data = validation_data, f_epochs = n, f_callbacks = callbacks\<rparr>;
          out = fit_result K (length (trace w)) c (files w)
      in (mdl\<lparr>layers := map (\<lambda>(i, l). trained_layer out i l) (enumerate 0 (layers mdl))\<rparr>,
          fo_history out,
          \<lparr>files = fo_files out, trace = trace w @ [Fit c]\<rparr>))"

definition history_get :: "history \<Rightarrow> string \<Rightarrow> error + real list" where
  "history_get H k = (case H k of None \<Rightarrow> Inl (KeyError k) | Some v \<Rightarrow> Inr v)"

definition py_index :: "'a list \<Rightarrow> nat \<Rightarrow> error + 'a" where
  "py_index a i = (if i < length a then Inr (a ! i) else Inl IndexError)"

definition unfreeze_all :: "model \<Rightarrow> model" where
  "unfreeze_all mdl = mdl\<lparr>layers := map (\<lambda>l. l\<lparr>trainable := True\<rparr>) (layers mdl)\<rparr>"

section \<open>The three classes\<close>

text \<open>The fields the constructors set.  \<open>StraightRegression\<close> adds
  \<open>pre_trained_weights\<close> and \<open>FreezeUnfreeze\<close> adds \<open>unfreeze\<close> to the fields of
  \<open>ClassificationPreTrain\<close>.  The printing (\<open>verbose\<close>, the \<open>print\<close> calls) is left out,
  but for the exception a \<open>print\<close> argument can raise.\<close>

record ClassificationPreTrain =
  l1 :: real
  l2 :: real
  lr :: real
  act :: string
  input_dim :: nat
  output_dim :: nat
  m :: model

record StraightRegression = ClassificationPreTrain +
  pre_trained_weights :: bool

record FreezeUnfreeze = StraightRegression +
  unfreeze :: "bool list"

subsection \<open>ClassificationPreTrain\<close>

definition ClassificationPreTrain_init ::
  "keras \<Rightarrow> world \<Rightarrow> real \<Rightarrow> real \<Rightarrow> real \<Rightarrow> string \<Rightarrow> nat \<Rightarrow> nat \<Rightarrow> ClassificationPreTrain" where
  "ClassificationPreTrain_init K w l1' l2' lr' act' input_dim' output_dim' =
     (let t = length (trace w);
          m0 = Sequential;
          m1 = Dense K t 512 act' (Some input_dim')
                 (Some (Elastic (ElasticNet_init (Some l1') (Some l2')))) (Some (L2 l2'))
                 True ''W1'' m0;
          m2 = Dense K t 128 act' None (Some (L2 l2')) (Some (L2 l2')) True ''W2'' m1;
          m3 = Dense K t 2 ''linear'' None (Some (L2 l2')) (Some (L2 l2')) True
                 ''bottleneck'' m2;
          m4 = Dense K t 128 act' None (Some (L2 l2')) (Some (L2 l2')) True ''W4'' m3;
          m5 = Dense K t 512 act' None (Some (L2 l2')) (Some (L2 l2')) True ''W5'' m4;
          m6 = Dense K t output_dim' ''softmax'' None (Some (L2 l2')) (Some (L2 l2')) True
                 ''W6_class'' m5;
          m7 = compile ''categorical_crossentropy'' lr' [''categorical_crossentropy''] m6
      in \<lparr>l1 = l1', l2 = l2', lr = lr', act = act', input_dim = input_dim',
          output_dim = output_dim', m = m7\<rparr>)"

definition ClassificationPreTrain_train ::
  "keras \<Rightarrow> ClassificationPreTrain \<Rightarrow> matrix \<Rightarrow> int list \<Rightarrow> matrix \<Rightarrow> int list \<Rightarrow> int \<Rightarrow> int \<Rightarrow>
   int \<Rightarrow> int \<Rightarrow> int \<Rightarrow> int \<Rightarrow> world \<Rightarrow>
   error + ((real \<times> real \<times> real list \<times> real list) \<times> ClassificationPreTrain \<times> world)" where
  "ClassificationPreTrain_train K self x_train' cluster_train x_test' cluster_test epochs' bs'
       patience' cvfold_id' l1_id' l2_id' w =
     (let es = EarlyStopping ''val_loss'' ''min'' patience';
          mc = ModelCheckpoint
                 (format3 ''KerasSavedModels/Classification_weights_'' cvfold_id' l1_id' l2_id')
                 ''val_categorical_crossentropy'' ''min'' True;
          (m1, H, w1) = fit K w (m self) x_train' (to_categorical K cluster_train) bs'
                          (Some (x_test', to_categorical K cluster_test)) epochs' [es, mc]
      in bnd (load_model
                (format3 ''KerasSavedModels/Classification_weights_'' cvfold_id' l1_id' l2_id')
                w1) (\<lambda>(saved_model0, w2).
         bnd (load_model
                (format3 ''KerasSavedModels/Classification_weights_'' cvfold_id' l1_id' l2_id')
                w2) (\<lambda>(saved_model, w3).
         bnd (py_index (evaluate K saved_model x_train' (to_categorical K cluster_train)) 0)
           (\<lambda>CE_train.
         bnd (py_index (evaluate K saved_model x_test' (to_categorical K cluster_test)) 0)
           (\<lambda>CE_test.
         bnd (history_get H ''categorical_crossentropy'') (\<lambda>h.
         bnd (history_get H ''val_categorical_crossentropy'') (\<lambda>val_h.
         Inr ((CE_train, CE_test, h, val_h), self\<lparr>m := m1\<rparr>, w3))))))))"

subsection \<open>The arguments of the regression train methods\<close>

record full_args =
  x_train :: matrix
  y_train :: matrix
  epochs :: int
  bs :: int
  patience :: int
  cvfold_id :: int
  l1_id :: int
  l2_id :: int
  prune :: bool
  geneNames :: "string list option"

record train_args = full_args +
  x_test :: matrix
  y_test :: matrix

subsection \<open>Pruning\<close>

text \<open>The row indices of the 25 largest row norms of the first kernel.\<close>

definition select_genes :: "matrix \<Rightarrow> nat list" where
  "select_genes weight = last_n 25 (argsort (norm_axis1 weight))"

text \<open>The block that the three prune branches share word for word, but for the path of
  the file read: it reads the saved model, selects the genes, prints them, builds the
  architecture of input width 25, loads the saved weights by name, sets the first layer
  by hand and compiles.\<close>

definition prune_rebuild ::
  "keras \<Rightarrow> 'a ClassificationPreTrain_scheme \<Rightarrow> string \<Rightarrow> string list option \<Rightarrow> world \<Rightarrow>
   error + (nat list \<times> model \<times> world)" where
  "prune_rebuild K self path names w =
     bnd (load_model path w) (\<lambda>(saved_model', w1).
     bnd (first_weights saved_model') (\<lambda>(weight, bias').
     let ind_genes = select_genes weight
     in bnd (print_genes names ind_genes) (\<lambda>_.
        let t = length (trace w1);
            m0 = Sequential;
            m1 = Dense K t 512 (act self) (Some 25)
                   (Some (Elastic (ElasticNet_init (Some 0) (Some (l2 self)))))
                   (Some (L2 (l2 self))) True ''W1_25'' m0;
            m2 = Dense K t 128 (act self) None (Some (L2 (l2 self))) (Some (L2 (l2 self)))
                   True ''W2'' m1;
            m3 = Dense K t 2 ''linear'' None (Some (L2 (l2 self))) (Some (L2 (l2 self)))
                   True ''bottleneck'' m2;
            m4 = Dense K t 128 (act self) None (Some (L2 (l2 self))) (Some (L2 (l2 self)))
                   True ''W4'' m3;
            m5 = Dense K t 512 (act self) None (Some (L2 (l2 self))) (Some (L2 (l2 self)))
                   True ''W5'' m4;
            m6 = Dense K t (output_dim self) ''linear'' None (Some (L2 (l2 self))) None
                   True ''W6_regr'' m5
        in bnd (load_weights (Some path) w1 m6) (\<lambda>m7.
           bnd (get_layer m7 ''W1_25'') (\<lambda>layer.
           bnd (np_take weight ind_genes) (\<lambda>rows.
           bnd (set_weights layer rows bias') (\<lambda>layer'.
           Inr (ind_genes,
                compile ''mse'' (lr self / 2) [''r2_score'', ''mse''] (put_layer m7 layer'),
                w1))))))))"

subsection \<open>StraightRegression\<close>

definition StraightRegression_init ::
  "keras \<Rightarrow> world \<Rightarrow> real \<Rightarrow> real \<Rightarrow> real \<Rightarrow> string \<Rightarrow> nat \<Rightarrow> nat \<Rightarrow> bool \<Rightarrow> string option \<Rightarrow>
   error + StraightRegression" where
  "StraightRegression_init K w l1' l2' lr' act' input_dim' output_dim' pre_trained_weights'
       pre_trained_weights_h5 =
     (let t = length (trace w);
          m0 = Sequential;
          m1 = Dense K t 512 act' (Some input_dim')
                 (Some (Elastic (ElasticNet_init (Some l1') (Some l2')))) (Some (L2 l2'))
                 True ''W1'' m0;
          m2 = Dense K t 128 act' None (Some (L2 l2')) (Some (L2 l2')) True ''W2'' m1;
          m3 = Dense K t 2 ''linear'' None (Some (L2 l2')) (Some (L2 l2')) True
                 ''bottleneck'' m2;
          m4 = Dense K t 128 act' None (Some (L2 l2')) (Some (L2 l2')) True ''W4'' m3;
          m5 = Dense K t 512 act' None (Some (L2 l2')) (Some (L2 l2')) True ''W5'' m4;
          m6 = Dense K t output_dim' ''linear'' None (Some (L2 l2')) None True ''W6_regr'' m5
      in bnd (if pre_trained_weights' then load_weights pre_trained_weights_h5 w m6
              else Inr m6) (\<lambda>m7.
         Inr \<lparr>l1 = l1', l2 = l2', lr = lr', act = act', input_dim = input_dim',
              output_dim = output_dim',
              m = compile ''mean_squared_error'' lr' [''r2_score'', ''mse''] m7,
              pre_trained_weights = pre_trained_weights'\<rparr>))"

datatype sr_result =
    SR_plain npfloat npfloat "real list" "real list"
  | SR_pruned npfloat npfloat npfloat npfloat "real list" "real list"

definition StraightRegression_train ::
  "keras \<Rightarrow> StraightRegression \<Rightarrow> train_args \<Rightarrow> world \<Rightarrow>
   error + (sr_result \<times> StraightRegression \<times> world)" where
  "StraightRegression_train K self a w =
     (let es = (if \<not> prune a
                then EarlyStopping ''val_mean_squared_error'' ''min'' (patience a)
                else EarlyStopping ''val_mean_squared_error'' ''min'' (2 * patience a));
          mc = (if \<not> pre_trained_weights self
                then ModelCheckpoint (format3 ''KerasSavedModels/StraightRegression_weights_'' (cvfold_id a) (l1_id a) (l2_id a)) ''val_mean_squared_error'' ''min'' True
                else ModelCheckpoint (format3 ''KerasSavedModels/PreTrRegression_weights_'' (cvfold_id a) (l1_id a) (l2_id a)) ''val_mean_squared_error'' ''min'' True);
          (m1, H, w1) =
            (if \<not> prune a
             then fit K w (m self) (x_train a) (y_train a) (bs a)
                    (Some (x_test a, y_test a)) (epochs a) [es, mc]
             else fit K w (m self) (x_train a) (y_train a) (bs a)
                    (Some (x_test a, y_test a)) (2 * epochs a) [es, mc])
      in bnd (history_get H ''r2_score'') (\<lambda>train_loss_straight_regr.
         bnd (history_get H ''val_r2_score'') (\<lambda>val_loss_straight_regr.
         bnd (if \<not> pre_trained_weights self
              then load_model (format3 ''KerasSavedModels/StraightRegression_weights_'' (cvfold_id a) (l1_id a) (l2_id a)) w1
              else load_model (format3 ''KerasSavedModels/PreTrRegression_weights_'' (cvfold_id a) (l1_id a) (l2_id a)) w1) (\<lambda>(saved_model, w2).
         let r2_train = np_r2 (y_train a) (predict K saved_model (x_train a));
             r2_test = np_r2 (y_test a) (predict K saved_model (x_test a));
             w3 = save m1 (format3 ''KerasSavedModels/Regression_last_weights_'' (cvfold_id a) (l1_id a) (l2_id a)) w2
         in if prune a
            then
              bnd (prune_rebuild K self (format3 ''KerasSavedModels/Regression_last_weights_'' (cvfold_id a) (l1_id a) (l2_id a)) (geneNames a) w3) (\<lambda>(ind_genes, mp, w4).
              let es2 = EarlyStopping ''val_mean_squared_error'' ''min'' (2 * patience a);
                  mc2 = (if \<not> pre_trained_weights self
                         then ModelCheckpoint (format3 ''KerasSavedModels/StraightRegression_weights_after_pruning_'' (cvfold_id a) (l1_id a) (l2_id a)) ''val_mean_squared_error'' ''min'' True
                         else ModelCheckpoint (format3 ''KerasSavedModels/PreTrRegression_weights_after_pruning_'' (cvfold_id a) (l1_id a) (l2_id a)) ''val_mean_squared_error'' ''min'' True)
              in bnd (take_cols (x_train a) ind_genes) (\<lambda>x_train_25.
                 bnd (take_cols (x_test a) ind_genes) (\<lambda>x_test_25.
                 let (m2, H2, w5) = fit K w4 mp x_train_25 (y_train a) (bs a)
                                      (Some (x_test_25, y_test a)) (2 * epochs a) [es2, mc2]
                 in bnd (history_get H2 ''r2_score'') (\<lambda>h.
                    bnd (history_get H2 ''val_r2_score'') (\<lambda>val_h.
                    bnd (if \<not> pre_trained_weights self
                         then load_model (format3 ''KerasSavedModels/StraightRegression_weights_after_pruning_'' (cvfold_id a) (l1_id a) (l2_id a)) w5
                         else load_model (format3 ''KerasSavedModels/PreTrRegression_weights_after_pruning_'' (cvfold_id a) (l1_id a) (l2_id a)) w5) (\<lambda>(saved_model_2, w6).
                    let r2_after_pruning_train =
                          np_r2 (y_train a) (predict K saved_model_2 x_train_25);
                        r2_after_pruning_test =
                          np_r2 (y_test a) (predict K saved_model_2 x_test_25)
                    in Inr (SR_pruned r2_train r2_test r2_after_pruning_train
                              r2_after_pruning_test (train_loss_straight_regr @ h)
                              (val_loss_straight_regr @ val_h),
                            self\<lparr>m := m2\<rparr>, w6)))))))
            else Inr (SR_plain r2_train r2_test train_loss_straight_regr
                        val_loss_straight_regr,
                      self\<lparr>m := m1\<rparr>, w3)))))"

subsection \<open>FreezeUnfreeze\<close>

definition FreezeUnfreeze_init ::
  "keras \<Rightarrow> world \<Rightarrow> real \<Rightarrow> real \<Rightarrow> real \<Rightarrow> string \<Rightarrow> nat \<Rightarrow> nat \<Rightarrow> bool list \<Rightarrow> bool \<Rightarrow>
   string option \<Rightarrow> error + FreezeUnfreeze" where
  "FreezeUnfreeze_init K w l1' l2' lr' act' input_dim' output_dim' unfreeze'
       pre_trained_weights' pre_trained_weights_h5 =
     (let t = length (trace w);
          m0 = Sequential
      in bnd (py_index unfreeze' 0) (\<lambda>u0.
         let m1 = Dense K t 512 act' (Some input_dim')
                    (Some (Elastic (ElasticNet_init (Some l1') (Some l2')))) (Some (L2 l2'))
                    u0 ''W1'' m0
         in bnd (py_index unfreeze' 1) (\<lambda>u1.
         let m2 = Dense K t 128 act' None (Some (L2 l2')) (Some (L2 l2')) u1 ''W2'' m1
         in bnd (py_index unfreeze' 2) (\<lambda>u2.
         let m3 = Dense K t 2 ''linear'' None (Some (L2 l2')) (Some (L2 l2')) u2
                    ''bottleneck'' m2
         in bnd (py_index unfreeze' 3) (\<lambda>u3.
         let m4 = Dense K t 128 act' None (Some (L2 l2')) (Some (L2 l2')) u3 ''W4'' m3
         in bnd (py_index unfreeze' 4) (\<lambda>u4.
         let m5 = Dense K t 512 act' None (Some (L2 l2')) (Some (L2 l2')) u4 ''W5'' m4
         in bnd (py_index unfreeze' 5) (\<lambda>u5.
         let m6 = Dense K t output_dim' ''linear'' None (Some (L2 l2')) None u5 ''W6_regr'' m5
         in bnd (if pre_trained_weights' then load_weights pre_trained_weights_h5 w m6
                 else Inr m6) (\<lambda>m7.
            Inr \<lparr>l1 = l1', l2 = l2', lr = lr', act = act', input_dim = input_dim',
                 output_dim = output_dim',
                 m = compile ''mean_squared_error'' lr' [''r2_score'', ''mse''] m7,
                 pre_trained_weights = pre_trained_weights',
                 unfreeze = unfreeze'\<rparr>))))))))"

datatype fu_result =
    FU_plain npfloat npfloat npfloat npfloat "real list" "real list"
  | FU_pruned npfloat npfloat npfloat npfloat npfloat npfloat "real list" "real list"

definition FreezeUnfreeze_train ::
  "keras \<Rightarrow> FreezeUnfreeze \<Rightarrow> train_args \<Rightarrow> world \<Rightarrow>
   error + (fu_result \<times> FreezeUnfreeze \<times> world)" where
  "FreezeUnfreeze_train K self a w =
     (let es = EarlyStopping ''val_mean_squared_error'' ''min'' (patience a);
          mc = (if \<not> pre_trained_weights self
                then ModelCheckpoint
                  (format3 ''KerasSavedModels/FreezeUnfreeze_weights_before_unfreezing_'' (cvfold_id a) (l1_id a) (l2_id a))
                  ''val_mean_squared_error'' ''min'' True
                else ModelCheckpoint
                  (format3 ''KerasSavedModels/PreTrFreezeUnfreeze_weights_before_unfreezing_'' (cvfold_id a) (l1_id a) (l2_id a))
                  ''val_mean_squared_error'' ''min'' True);
          (m1, H, w1) = fit K w (m self) (x_train a) (y_train a) (bs a)
                          (Some (x_test a, y_test a)) (epochs a) [es, mc]
      in bnd (history_get H ''r2_score'') (\<lambda>h1.
         bnd (history_get H ''val_r2_score'') (\<lambda>val_h1.
         let m2 = compile ''mean_squared_error'' (lr self / 2) [''r2_score'', ''mse'']
                    (unfreeze_all m1);
             es' = EarlyStopping ''val_mean_squared_error'' ''min'' (patience a);
             mc' = (if \<not> pre_trained_weights self
                    then ModelCheckpoint
                  (format3 ''KerasSavedModels/FreezeUnfreeze_weights_after_unfreezing_'' (cvfold_id a) (l1_id a) (l2_id a))
                  ''val_mean_squared_error'' ''min'' True
                    else ModelCheckpoint
                  (format3 ''KerasSavedModels/PreTrFreezeUnfreeze_weights_after_unfreezing_'' (cvfold_id a) (l1_id a) (l2_id a))
                  ''val_mean_squared_error'' ''min'' True);
             (m3, H', w2) = fit K w1 m2 (x_train a) (y_train a) (bs a)
                              (Some (x_test a, y_test a)) (epochs a) [es', mc']
         in bnd (history_get H' ''r2_score'') (\<lambda>h2.
            bnd (history_get H' ''val_r2_score'') (\<lambda>val_h2.
            let train_loss_freeze_unfreeze = h1 @ h2;
                val_loss_freeze_unfreeze = val_h1 @ val_h2
            in bnd (if \<not> pre_trained_weights self
                    then bnd (load_model (format3 ''KerasSavedModels/FreezeUnfreeze_weights_before_unfreezing_'' (cvfold_id a) (l1_id a) (l2_id a)) w2) (\<lambda>(saved_model, w3).
                         bnd (load_model (format3 ''KerasSavedModels/FreezeUnfreeze_weights_after_unfreezing_'' (cvfold_id a) (l1_id a) (l2_id a)) w3) (\<lambda>(saved_model_2, w4).
                         Inr (saved_model, saved_model_2, w4)))
                    else bnd (load_model (format3 ''KerasSavedModels/PreTrFreezeUnfreeze_weights_before_unfreezing_'' (cvfold_id a) (l1_id a) (l2_id a)) w2) (\<lambda>(saved_model, w3).
                         bnd (load_model (format3 ''KerasSavedModels/PreTrFreezeUnfreeze_weights_after_unfreezing_'' (cvfold_id a) (l1_id a) (l2_id a)) w3) (\<lambda>(saved_model_2, w4).
                         Inr (saved_model, saved_model_2, w4))))
                 (\<lambda>(saved_model, saved_model_2, w4).
               let r2_before_unfreezing_train =
                     np_r2 (y_train a) (predict K saved_model (x_train a));
                   r2_before_unfreezing_test =
                     np_r2 (y_test a) (predict K saved_model (x_test a));
                   r2_after_unfreezing_train =
                     np_r2 (y_train a) (predict K saved_model_2 (x_train a));
                   r2_after_unfreezing_test =
                     np_r2 (y_test a) (predict K saved_model_2 (x_test a));
                   w5 = save m3 (format3 ''KerasSavedModels/FreezeUnfreeze_last_weights_'' (cvfold_id a) (l1_id a) (l2_id a)) w4
               in if prune a
                  then
                    bnd (prune_rebuild K self (format3 ''KerasSavedModels/FreezeUnfreeze_last_weights_'' (cvfold_id a) (l1_id a) (l2_id a)) (geneNames a) w5)
                      (\<lambda>(ind_genes, mp, w6).
                    let es2 = EarlyStopping ''val_mean_squared_error'' ''min''
                                (2 * patience a);
                        mc2 = (if \<not> pre_trained_weights self
                               then ModelCheckpoint
                  (format3 ''KerasSavedModels/FreezeUnfreeze_weights_after_unfreezing_and_pruning_'' (cvfold_id a) (l1_id a) (l2_id a))
                  ''val_mean_squared_error'' ''min'' True
                               else ModelCheckpoint
                  (format3 ''KerasSavedModels/PreTrFreezeUnfreeze_weights_after_unfreezing_and_pruning_'' (cvfold_id a) (l1_id a) (l2_id a))
                  ''val_mean_squared_error'' ''min'' True)
                    in bnd (take_cols (x_train a) ind_genes) (\<lambda>x_train_25.
                       bnd (take_cols (x_test a) ind_genes) (\<lambda>x_test_25.
                       let (m4, H2, w7) = fit K w6 mp x_train_25 (y_train a) (bs a)
                                            (Some (x_test_25, y_test a)) (2 * epochs a)
                                            [es2, mc2]
                       in bnd (history_get H2 ''r2_score'') (\<lambda>h3.
                          bnd (history_get H2 ''val_r2_score'') (\<lambda>val_h3.
                          bnd (if \<not> pre_trained_weights self
                               then load_model (format3 ''KerasSavedModels/FreezeUnfreeze_weights_after_unfreezing_and_pruning_'' (cvfold_id a) (l1_id a) (l2_id a)) w7
                               else load_model (format3 ''KerasSavedModels/PreTrFreezeUnfreeze_weights_after_unfreezing_and_pruning_'' (cvfold_id a) (l1_id a) (l2_id a)) w7) (\<lambda>(saved_model_3, w8).
                          let r2_after_unfreezing_and_pruning_train =
                                np_r2 (y_train a) (predict K saved_model_3 x_train_25);
                              r2_after_unfreezing_and_pruning_test =
                                np_r2 (y_test a) (predict K saved_model_3 x_test_25)
                          in Inr (FU_pruned r2_before_unfreezing_train
                                    r2_before_unfreezing_test r2_after_unfreezing_train
                                    r2_after_unfreezing_test
                                    r2_after_unfreezing_and_pruning_train
                                    r2_after_unfreezing_and_pruning_test
                                    (train_loss_freeze_unfreeze @ h3)
                                    (val_loss_freeze_unfreeze @ val_h3),
                                  self\<lparr>m := m4\<rparr>, w8)))))))
                  else Inr (FU_plain r2_before_unfreezing_train r2_before_unfreezing_test
                              r2_after_unfreezing_train r2_after_unfreezing_test
                              train_loss_freeze_unfreeze val_loss_freeze_unfreeze,
                            self\<lparr>m := m3\<rparr>, w5)))))))"

text \<open>\<open>train_full_dataset\<close> returns the history inside the prune branch only; a call
  that falls off the end of the method returns \<open>None\<close>.\<close>

definition FreezeUnfreeze_train_full_dataset ::
  "keras \<Rightarrow> FreezeUnfreeze \<Rightarrow> full_args \<Rightarrow> world \<Rightarrow>
   error + (real list option \<times> FreezeUnfreeze \<times> world)" where
  "FreezeUnfreeze_train_full_dataset K self a w =
     (let (m1, H, w1) = fit K w (m self) (x_train a) (y_train a) (bs a) None (epochs a) []
      in bnd (history_get H ''r2_score'') (\<lambda>h1.
         let m2 = compile ''mean_squared_error'' (lr self / 2) [''r2_score'', ''mse'']
                    (unfreeze_all m1);
             w2 = save m2 (format3 ''KerasSavedModels/FreezeUnfreeze_before_unfreezing_full_dataset_'' (cvfold_id a) (l1_id a) (l2_id a)) w1;
             (m3, H', w3) = fit K w2 m2 (x_train a) (y_train a) (bs a) None (epochs a) []
         in bnd (history_get H' ''r2_score'') (\<lambda>h2.
            let train_loss_freeze_unfreeze = h1 @ h2;
                w4 = save m3 (format3 ''KerasSavedModels/FreezeUnfreeze_after_unfreezing_full_dataset_'' (cvfold_id a) (l1_id a) (l2_id a)) w3
            in if prune a
               then
                 bnd (prune_rebuild K self (format3 ''KerasSavedModels/FreezeUnfreeze_after_unfreezing_full_dataset_'' (cvfold_id a) (l1_id a) (l2_id a)) (geneNames a) w4) (\<lambda>(ind_genes, mp, w5).
                 let w6 = save mp (format3 ''KerasSavedModels/FreezeUnfreeze_after_unfreezing_ap_full_dataset_'' (cvfold_id a) (l1_id a) (l2_id a)) w5
                 in bnd (take_cols (x_train a) ind_genes) (\<lambda>x_train_25.
                    let (m4, H2, w7) = fit K w6 mp x_train_25 (y_train a) (bs a) None
                                         (2 * epochs a) []
                    in bnd (history_get H2 ''r2_score'') (\<lambda>h3.
                       Inr (Some (train_loss_freeze_unfreeze @ h3), self\<lparr>m := m4\<rparr>, w7))))
               else Inr (None, self\<lparr>m := m3\<rparr>, w4))))"

section \<open>Reading the log\<close>

text \<open>The calls of \<open>fit\<close> in a log, and the patience of the early stopping among the
  callbacks of a call.\<close>

fun fit_calls :: "event list \<Rightarrow> fit_call list" where
  "fit_calls [] = []"
| "fit_calls (Fit c # es) = c # fit_calls es"
| "fit_calls (Load p mdl # es) = fit_calls es"
| "fit_calls (Save p mdl # es) = fit_calls es"

fun early_stopping_patience :: "callback list \<Rightarrow> int list" where
  "early_stopping_patience [] = []"
| "early_stopping_patience (EarlyStopping mon mode p # cs) = p # early_stopping_patience cs"
| "early_stopping_patience (ModelCheckpoint f mon mode b # cs) = early_stopping_patience cs"

section \<open>A library to run the program on\<close>

text \<open>
  One library among the many the theorems range over, small enough to evaluate: weights
  start at zero, training sets every kernel entry to the index of its row, every
  checkpoint callback writes the model it was given, every history key is present, and a
  file once written stays.  With it the train methods return, so the theorems about
  runs that return are not about nothing.
\<close>

fun checkpoint_files :: "callback list \<Rightarrow> string list" where
  "checkpoint_files [] = []"
| "checkpoint_files (EarlyStopping mon mode p # cs) = checkpoint_files cs"
| "checkpoint_files (ModelCheckpoint f mon mode b # cs) = f # checkpoint_files cs"

definition demo_keras :: keras where
  "demo_keras =
     \<lparr>init_kernel = (\<lambda>t nm i j. 0),
      init_bias = (\<lambda>t nm j. 0),
      fit_result = (\<lambda>t c fs.
        \<lparr>fo_kernel = (\<lambda>l i j. real i),
         fo_bias = (\<lambda>l j. 0),
         fo_files = (\<lambda>p. if p \<in> set (checkpoint_files (f_callbacks c))
                          then Some (f_model c) else fs p),
         fo_history = (\<lambda>k. Some [1])\<rparr>),
      predict = (\<lambda>mdl x. map (\<lambda>r. [0]) x),
      evaluate = (\<lambda>mdl x y. [0]),
      to_categorical = map (\<lambda>c. [1])\<rparr>"

definition demo_world :: world where
  "demo_world = \<lparr>files = (\<lambda>p. None), trace = []\<rparr>"

definition demo_args :: "bool \<Rightarrow> train_args" where
  "demo_args pr =
     \<lparr>x_train = [map real [0..<26]], y_train = [[1]], epochs = 10, bs = 1, patience = 3,
      cvfold_id = 0, l1_id = 0, l2_id = 0, prune = pr,
      geneNames = Some (map (\<lambda>i. ''gene'') [0..<26::nat]),
      x_test = [map real [0..<26]], y_test = [[2]]\<rparr>"

definition demo_full_args :: "bool \<Rightarrow> full_args" where
  "demo_full_args pr =
     \<lparr>x_train = [map real [0..<26]], y_train = [[1]], epochs = 10, bs = 1, patience = 3,
      cvfold_id = 0, l1_id = 0, l2_id = 0, prune = pr,
      geneNames = Some (map (\<lambda>i. ''gene'') [0..<26::nat])\<rparr>"

definition demo_pretrained :: world where
  "demo_pretrained =
     \<lparr>files = (\<lambda>p. if p = ''pretrained.h5''
                   then Some (m (ClassificationPreTrain_init demo_keras demo_world 0 1 1
                                   ''relu'' 26 3))
                   else None),
      trace = []\<rparr>"

definition demo_saved :: "model \<Rightarrow> world" where
  "demo_saved mdl =
     \<lparr>files = (\<lambda>p. if p = ''last.h5''
                   then Some (fst (fit demo_keras demo_world mdl [] [] 1 None 1 []))
                   else None),
      trace = []\<rparr>"

section \<open>Basic facts\<close>


lemma bnd_Inr_iff: "bnd r f = Inr y \<longleftrightarrow> (\<exists>v. r = Inr v \<and> f v = Inr y)"
  by (cases r) (auto simp: bnd_def)

lemma load_model_Inr_iff:
  "load_model p w = Inr (sm, w') \<longleftrightarrow> files w p = Some sm \<and> w' = w\<lparr>trace := trace w @ [Load p sm]\<rparr>"
  by (auto simp: load_model_def split: option.splits)

lemma history_get_Inr_iff: "history_get H k = Inr v \<longleftrightarrow> H k = Some v"
  by (auto simp: history_get_def split: option.splits)

lemma first_weights_Inr_iff:
  "first_weights mdl = Inr (k, b) \<longleftrightarrow> (\<exists>l ls. layers mdl = l # ls \<and> k = kernel l \<and> b = bias l)"
  by (auto simp: first_weights_def split: list.splits)

lemma print_genes_Inr_iff:
  "print_genes names ind = Inr u \<longleftrightarrow> (\<exists>g. names = Some g \<and> list_all (\<lambda>i. i < length g) ind)"
  by (auto simp: print_genes_def np_take_def bnd_def split: option.splits)

lemma np_take_Inr_iff:
  "np_take a ind = Inr r \<longleftrightarrow> list_all (\<lambda>i. i < length a) ind \<and> r = map (\<lambda>i. a ! i) ind"
  by (auto simp: np_take_def)

lemma set_weights_Inr_iff:
  "set_weights l k b = Inr l' \<longleftrightarrow> shape_ok l k b \<and> l' = l\<lparr>kernel := k, bias := b\<rparr>"
  by (auto simp: set_weights_def)

lemma load_weights_Inr_iff:
  "load_weights (Some p) w mdl = Inr mdl' \<longleftrightarrow>
     (\<exists>saved ls. files w p = Some saved \<and> load_layers_by_name (layers saved) (layers mdl) = Inr ls \<and>
        mdl' = mdl\<lparr>layers := ls\<rparr>)"
  by (auto simp: load_weights_def bnd_Inr_iff split: option.splits)

lemma load_layer_by_name_Inr:
  assumes "load_layer_by_name saved l = Inr l'"
  shows "l' = l\<lparr>kernel := kernel l', bias := bias l'\<rparr>"
  using assms
  by (auto simp: load_layer_by_name_def set_weights_def split: option.splits if_splits)

lemma load_layer_by_name_name:
  "load_layer_by_name saved l = Inr l' \<Longrightarrow> name l' = name l"
  by (auto simp: load_layer_by_name_def set_weights_def split: option.splits if_splits)

lemma load_layer_by_name_fields:
  assumes "load_layer_by_name saved l = Inr l'"
  shows "units l' = units l" "input_width l' = input_width l" "activation l' = activation l"
    "kernel_regularizer l' = kernel_regularizer l" "bias_regularizer l' = bias_regularizer l"
    "trainable l' = trainable l"
  using assms
  by (auto simp: load_layer_by_name_def set_weights_def split: option.splits if_splits)

lemma prune_rebuild_unfold:
  assumes "prune_rebuild K self path names w = Inr (ind_genes, mp, w')"
  shows "\<exists>saved l0 ls g m7 layer.
    files w path = Some saved \<and> layers saved = l0 # ls \<and> names = Some g
    \<and> w' = w\<lparr>trace := trace w @ [Load path saved]\<rparr>
    \<and> ind_genes = select_genes (kernel l0)
    \<and> list_all (\<lambda>i. i < length g) ind_genes
    \<and> load_weights (Some path) (w\<lparr>trace := trace w @ [Load path saved]\<rparr>)
        \<lparr>layers =
           [new_layer K (Suc (length (trace w))) 512 (act self) 25
              (Some (Elastic (ElasticNet 0 (l2 self)))) (Some (L2 (l2 self))) True ''W1_25'',
            new_layer K (Suc (length (trace w))) 128 (act self) 512 (Some (L2 (l2 self)))
              (Some (L2 (l2 self))) True ''W2'',
            new_layer K (Suc (length (trace w))) 2 ''linear'' 128 (Some (L2 (l2 self)))
              (Some (L2 (l2 self))) True ''bottleneck'',
            new_layer K (Suc (length (trace w))) 128 (act self) 2 (Some (L2 (l2 self)))
              (Some (L2 (l2 self))) True ''W4'',
            new_layer K (Suc (length (trace w))) 512 (act self) 128 (Some (L2 (l2 self)))
              (Some (L2 (l2 self))) True ''W5'',
            new_layer K (Suc (length (trace w))) (output_dim self) ''linear'' 512
              (Some (L2 (l2 self))) None True ''W6_regr''],
         compiled = None\<rparr> = Inr m7
    \<and> get_layer m7 ''W1_25'' = Inr layer
    \<and> list_all (\<lambda>i. i < length (kernel l0)) ind_genes
    \<and> shape_ok layer (map (\<lambda>i. kernel l0 ! i) ind_genes) (bias l0)
    \<and> mp = compile ''mse'' (lr self / 2) [''r2_score'', ''mse'']
               (put_layer m7 (layer\<lparr>kernel := map (\<lambda>i. kernel l0 ! i) ind_genes, bias := bias l0\<rparr>))"
  using assms
  unfolding prune_rebuild_def Let_def Dense_def Sequential_def ElasticNet_init_def
  apply (simp add: bnd_Inr_iff load_model_Inr_iff first_weights_Inr_iff print_genes_Inr_iff
       np_take_Inr_iff set_weights_Inr_iff new_layer_def del: upt_rec_numeral)
  apply (elim exE conjE)
  apply simp
  done

lemma prune_rebuild_Inr:
  assumes "prune_rebuild K self path names w = Inr (ind_genes, mp, w')"
  shows "\<exists>saved l0 ls g L2' L3' L4' L5' L6' t.
     files w path = Some saved \<and> layers saved = l0 # ls \<and> names = Some g \<and>
     w' = w\<lparr>trace := trace w @ [Load path saved]\<rparr> \<and>
     ind_genes = select_genes (kernel l0) \<and>
     list_all (\<lambda>i. i < length g) ind_genes \<and>
     list_all (\<lambda>i. i < length (kernel l0)) ind_genes \<and>
     length ind_genes = 25 \<and>
     load_layer_by_name (layers saved)
       (new_layer K t 128 (act self) 512 (Some (L2 (l2 self))) (Some (L2 (l2 self))) True ''W2'') = Inr L2' \<and>
     load_layer_by_name (layers saved)
       (new_layer K t 2 ''linear'' 128 (Some (L2 (l2 self))) (Some (L2 (l2 self))) True ''bottleneck'') = Inr L3' \<and>
     load_layer_by_name (layers saved)
       (new_layer K t 128 (act self) 2 (Some (L2 (l2 self))) (Some (L2 (l2 self))) True ''W4'') = Inr L4' \<and>
     load_layer_by_name (layers saved)
       (new_layer K t 512 (act self) 128 (Some (L2 (l2 self))) (Some (L2 (l2 self))) True ''W5'') = Inr L5' \<and>
     load_layer_by_name (layers saved)
       (new_layer K t (output_dim self) ''linear'' 512 (Some (L2 (l2 self))) None True ''W6_regr'') = Inr L6' \<and>
     mp = \<lparr>layers =
            [\<lparr>units = 512, activation = act self, input_width = 25,
              kernel_regularizer = Some (Elastic (ElasticNet 0 (l2 self))),
              bias_regularizer = Some (L2 (l2 self)), trainable = True, name = ''W1_25'',
              kernel = map (\<lambda>i. kernel l0 ! i) ind_genes, bias = bias l0\<rparr>,
             L2', L3', L4', L5', L6'],
           compiled = Some \<lparr>loss = ''mse'', optimizer_lr = lr self / 2,
                            metrics = [''r2_score'', ''mse'']\<rparr>\<rparr>"
proof -
  let ?t = "Suc (length (trace w))"
  from prune_rebuild_unfold[OF assms] obtain saved l0 ls g m7 layer where
    f: "files w path = Some saved" and l: "layers saved = l0 # ls" and n: "names = Some g"
    and w': "w' = w\<lparr>trace := trace w @ [Load path saved]\<rparr>"
    and ind: "ind_genes = select_genes (kernel l0)"
    and g: "list_all (\<lambda>i. i < length g) ind_genes"
    and lw: "load_weights (Some path) (w\<lparr>trace := trace w @ [Load path saved]\<rparr>)
        \<lparr>layers =
           [new_layer K ?t 512 (act self) 25
              (Some (Elastic (ElasticNet 0 (l2 self)))) (Some (L2 (l2 self))) True ''W1_25'',
            new_layer K ?t 128 (act self) 512 (Some (L2 (l2 self)))
              (Some (L2 (l2 self))) True ''W2'',
            new_layer K ?t 2 ''linear'' 128 (Some (L2 (l2 self)))
              (Some (L2 (l2 self))) True ''bottleneck'',
            new_layer K ?t 128 (act self) 2 (Some (L2 (l2 self)))
              (Some (L2 (l2 self))) True ''W4'',
            new_layer K ?t 512 (act self) 128 (Some (L2 (l2 self)))
              (Some (L2 (l2 self))) True ''W5'',
            new_layer K ?t (output_dim self) ''linear'' 512
              (Some (L2 (l2 self))) None True ''W6_regr''],
         compiled = None\<rparr> = Inr m7"
    and gl: "get_layer m7 ''W1_25'' = Inr layer"
    and rows: "list_all (\<lambda>i. i < length (kernel l0)) ind_genes"
    and sh: "shape_ok layer (map (\<lambda>i. kernel l0 ! i) ind_genes) (bias l0)"
    and mp: "mp = compile ''mse'' (lr self / 2) [''r2_score'', ''mse'']
               (put_layer m7 (layer\<lparr>kernel := map (\<lambda>i. kernel l0 ! i) ind_genes, bias := bias l0\<rparr>))"
    by blast
  from lw f obtain L1' L2' L3' L4' L5' L6' where
    L1: "load_layer_by_name (layers saved) (new_layer K ?t 512 (act self) 25
              (Some (Elastic (ElasticNet 0 (l2 self)))) (Some (L2 (l2 self))) True ''W1_25'') = Inr L1'"
    and L2: "load_layer_by_name (layers saved) (new_layer K ?t 128 (act self) 512 (Some (L2 (l2 self)))
              (Some (L2 (l2 self))) True ''W2'') = Inr L2'"
    and L3: "load_layer_by_name (layers saved) (new_layer K ?t 2 ''linear'' 128 (Some (L2 (l2 self)))
              (Some (L2 (l2 self))) True ''bottleneck'') = Inr L3'"
    and L4: "load_layer_by_name (layers saved) (new_layer K ?t 128 (act self) 2 (Some (L2 (l2 self)))
              (Some (L2 (l2 self))) True ''W4'') = Inr L4'"
    and L5: "load_layer_by_name (layers saved) (new_layer K ?t 512 (act self) 128 (Some (L2 (l2 self)))
              (Some (L2 (l2 self))) True ''W5'') = Inr L5'"
    and L6: "load_layer_by_name (layers saved) (new_layer K ?t (output_dim self) ''linear'' 512
              (Some (L2 (l2 self))) None True ''W6_regr'') = Inr L6'"
    and m7: "m7 = \<lparr>layers = [L1', L2', L3', L4', L5', L6'], compiled = None\<rparr>"
    apply (simp add: load_weights_Inr_iff bnd_Inr_iff)
    apply (elim exE conjE)
    apply simp
    done
  have names: "name L1' = ''W1_25''" "name L2' = ''W2''" "name L3' = ''bottleneck''"
    "name L4' = ''W4''" "name L5' = ''W5''" "name L6' = ''W6_regr''"
    using L1 L2 L3 L4 L5 L6 by (auto dest!: load_layer_by_name_name simp: new_layer_def)
  have layer: "layer = L1'"
    using gl by (simp add: get_layer_def m7 names)
  have L1f: "units L1' = 512" "input_width L1' = 25" "activation L1' = act self"
    "kernel_regularizer L1' = Some (Elastic (ElasticNet 0 (l2 self)))"
    "bias_regularizer L1' = Some (L2 (l2 self))" "trainable L1' = True"
    using load_layer_by_name_fields[OF L1] by (simp_all add: new_layer_def)
  have len: "length ind_genes = 25"
    using sh by (simp add: shape_ok_def layer L1f)
  have eq1: "L1'\<lparr>kernel := map (\<lambda>i. kernel l0 ! i) ind_genes, bias := bias l0\<rparr> =
     \<lparr>units = 512, activation = act self, input_width = 25,
              kernel_regularizer = Some (Elastic (ElasticNet 0 (l2 self))),
              bias_regularizer = Some (L2 (l2 self)), trainable = True, name = ''W1_25'',
              kernel = map (\<lambda>i. kernel l0 ! i) ind_genes, bias = bias l0\<rparr>"
    using L1f names(1) by (cases L1') simp
  have "mp = \<lparr>layers =
            [\<lparr>units = 512, activation = act self, input_width = 25,
              kernel_regularizer = Some (Elastic (ElasticNet 0 (l2 self))),
              bias_regularizer = Some (L2 (l2 self)), trainable = True, name = ''W1_25'',
              kernel = map (\<lambda>i. kernel l0 ! i) ind_genes, bias = bias l0\<rparr>,
             L2', L3', L4', L5', L6'],
           compiled = Some \<lparr>loss = ''mse'', optimizer_lr = lr self / 2,
                            metrics = [''r2_score'', ''mse'']\<rparr>\<rparr>"
    unfolding mp layer using eq1 by (simp add: compile_def put_layer_def m7 names)
  with f l n w' ind g rows len L2 L3 L4 L5 L6 show ?thesis by blast
qed






lemma set_argsort: "set (argsort ks) = {0..<length ks}"
  by (simp add: argsort_def)

lemma distinct_argsort: "distinct (argsort ks)"
  by (simp add: argsort_def)

lemma length_argsort: "length (argsort ks) = length ks"
  by (simp add: argsort_def)

lemma sorted_argsort: "sorted (map (\<lambda>i. ks ! i) (argsort ks))"
  by (simp add: argsort_def)

lemma sorted_take_drop_le:
  assumes "sorted (map f xs)" "a \<in> set (take k xs)" "b \<in> set (drop k xs)"
  shows "f a \<le> f b"
proof -
  have "sorted (map f (take k xs) @ map f (drop k xs))"
    using assms(1) by (simp flip: map_append)
  then show ?thesis using assms(2,3) by (auto simp: sorted_append)
qed

lemma select_genes_props:
  assumes "25 \<le> length weight"
  shows "length (select_genes weight) = 25"
    and "distinct (select_genes weight)"
    and "set (select_genes weight) \<subseteq> {0..<length weight}"
    and "\<And>i j. i \<in> set (select_genes weight) \<Longrightarrow> j < length weight \<Longrightarrow> j \<notin> set (select_genes weight)
          \<Longrightarrow> row_norm (weight ! j) \<le> row_norm (weight ! i)"
proof -
  let ?ks = "norm_axis1 weight"
  let ?p = "argsort ?ks"
  let ?k = "length ?p - 25"
  have len: "length ?ks = length weight" by (simp add: norm_axis1_def)
  have sel: "select_genes weight = drop ?k ?p"
    by (simp add: select_genes_def last_n_def)
  show "length (select_genes weight) = 25"
    using assms by (simp add: sel length_argsort len)
  show "distinct (select_genes weight)"
    by (simp add: sel distinct_argsort)
  show "set (select_genes weight) \<subseteq> {0..<length weight}"
    using set_drop_subset[of ?k ?p] by (simp add: sel set_argsort len)
  fix i j assume i: "i \<in> set (select_genes weight)" and j: "j < length weight"
    and nj: "j \<notin> set (select_genes weight)"
  have "j \<in> set ?p" using j by (simp add: set_argsort len)
  then have "j \<in> set (take ?k ?p) \<union> set (drop ?k ?p)"
    by (simp flip: set_append)
  with nj have jt: "j \<in> set (take ?k ?p)" by (simp add: sel)
  have il: "i < length weight"
    using i set_drop_subset[of ?k ?p] by (auto simp: sel set_argsort len)
  have "?ks ! j \<le> ?ks ! i"
    using sorted_take_drop_le[OF sorted_argsort jt] i by (simp add: sel)
  then show "row_norm (weight ! j) \<le> row_norm (weight ! i)"
    using il j by (simp add: norm_axis1_def)
qed

lemma select_genes_sorted:
  assumes "sorted (norm_axis1 weight)"
  shows "select_genes weight = [length weight - 25..<length weight]"
proof -
  have "map (\<lambda>i. norm_axis1 weight ! i) [0..<length (norm_axis1 weight)] = norm_axis1 weight"
    by (rule map_nth)
  then have "sorted (map (\<lambda>i. norm_axis1 weight ! i) [0..<length (norm_axis1 weight)])"
    using assms by simp
  then have "argsort (norm_axis1 weight) = [0..<length (norm_axis1 weight)]"
    unfolding argsort_def by (rule sort_key_id_if_sorted)
  then show ?thesis
    by (simp add: select_genes_def last_n_def norm_axis1_def drop_upt)
qed

lemma ElasticNet_roundtrip: "ElasticNet_from_config (ElasticNet_get_config r) = r"
  by (cases r) (simp add: ElasticNet_from_config_def ElasticNet_get_config_def ElasticNet_init_def)

section \<open>What a run that returns has done\<close>

lemma SR_train_unfold:
  fixes K self a w
  defines "lp \<equiv> format3 ''KerasSavedModels/Regression_last_weights_'' (cvfold_id a) (l1_id a) (l2_id a)"
  defines "p1 \<equiv> (if \<not> pre_trained_weights self
      then format3 ''KerasSavedModels/StraightRegression_weights_'' (cvfold_id a) (l1_id a) (l2_id a)
      else format3 ''KerasSavedModels/PreTrRegression_weights_'' (cvfold_id a) (l1_id a) (l2_id a))"
  defines "p2 \<equiv> (if \<not> pre_trained_weights self
      then format3 ''KerasSavedModels/StraightRegression_weights_after_pruning_'' (cvfold_id a) (l1_id a) (l2_id a)
      else format3 ''KerasSavedModels/PreTrRegression_weights_after_pruning_'' (cvfold_id a) (l1_id a) (l2_id a))"
  defines "c1 \<equiv> \<lparr>f_model = m self, f_x = x_train a, f_y = y_train a, f_batch_size = bs a,
      f_validation_data = Some (x_test a, y_test a),
      f_epochs = (if \<not> prune a then epochs a else 2 * epochs a),
      f_callbacks = [EarlyStopping ''val_mean_squared_error'' ''min''
                       (if \<not> prune a then patience a else 2 * patience a),
                     ModelCheckpoint p1 ''val_mean_squared_error'' ''min'' True]\<rparr>"
  defines "m1 \<equiv> fst (fit K w (m self) (x_train a) (y_train a) (bs a) (Some (x_test a, y_test a))
      (f_epochs c1) (f_callbacks c1))"
  defines "o1 \<equiv> fit_result K (length (trace w)) c1 (files w)"
  assumes run: "StraightRegression_train K self a w = Inr (res, self', w')"
  shows "\<exists>h vh sm.
     fo_history o1 ''r2_score'' = Some h \<and> fo_history o1 ''val_r2_score'' = Some vh \<and>
     fo_files o1 p1 = Some sm \<and>
     (if prune a
      then (\<exists>ind mp w4 X Xt c2 h2 vh2 sm2.
          prune_rebuild K self lp (geneNames a)
            \<lparr>files = (fo_files o1)(lp \<mapsto> m1), trace = trace w @ [Fit c1, Load p1 sm, Save lp m1]\<rparr>
            = Inr (ind, mp, w4) \<and>
          take_cols (x_train a) ind = Inr X \<and> take_cols (x_test a) ind = Inr Xt \<and>
          c2 = \<lparr>f_model = mp, f_x = X, f_y = y_train a, f_batch_size = bs a,
                f_validation_data = Some (Xt, y_test a), f_epochs = 2 * epochs a,
                f_callbacks = [EarlyStopping ''val_mean_squared_error'' ''min'' (2 * patience a),
                               ModelCheckpoint p2 ''val_mean_squared_error'' ''min'' True]\<rparr> \<and>
          fo_history (fit_result K (length (trace w4)) c2 (files w4)) ''r2_score'' = Some h2 \<and>
          fo_history (fit_result K (length (trace w4)) c2 (files w4)) ''val_r2_score'' = Some vh2 \<and>
          fo_files (fit_result K (length (trace w4)) c2 (files w4)) p2 = Some sm2 \<and>
          res = SR_pruned (np_r2 (y_train a) (predict K sm (x_train a)))
                  (np_r2 (y_test a) (predict K sm (x_test a)))
                  (np_r2 (y_train a) (predict K sm2 X)) (np_r2 (y_test a) (predict K sm2 Xt))
                  (h @ h2) (vh @ vh2) \<and>
          self' = self\<lparr>m := fst (fit K w4 mp X (y_train a) (bs a) (Some (Xt, y_test a))
                                 (2 * epochs a) (f_callbacks c2))\<rparr> \<and>
          w' = \<lparr>files = fo_files (fit_result K (length (trace w4)) c2 (files w4)),
                trace = trace w4 @ [Fit c2, Load p2 sm2]\<rparr>)
      else res = SR_plain (np_r2 (y_train a) (predict K sm (x_train a)))
                  (np_r2 (y_test a) (predict K sm (x_test a))) h vh \<and>
           self' = self\<lparr>m := m1\<rparr> \<and>
           w' = \<lparr>files = (fo_files o1)(lp \<mapsto> m1),
                 trace = trace w @ [Fit c1, Load p1 sm, Save lp m1]\<rparr>)"
proof (cases "prune a")
  case True
  show ?thesis
  proof (cases "pre_trained_weights self")
    case True
    with \<open>prune a\<close> run show ?thesis
      unfolding lp_def p1_def p2_def c1_def m1_def o1_def StraightRegression_train_def Let_def
      apply (simp add: Let_def fit_def bnd_Inr_iff load_model_Inr_iff history_get_Inr_iff save_def)
      apply ((elim exE conjE, simp)?)
      done
  next
    case False
    with \<open>prune a\<close> run show ?thesis
      unfolding lp_def p1_def p2_def c1_def m1_def o1_def StraightRegression_train_def Let_def
      apply (simp add: Let_def fit_def bnd_Inr_iff load_model_Inr_iff history_get_Inr_iff save_def)
      apply ((elim exE conjE, simp)?)
      done
  qed
next
  case False
  show ?thesis
  proof (cases "pre_trained_weights self")
    case True
    with \<open>\<not> prune a\<close> run show ?thesis
      unfolding lp_def p1_def p2_def c1_def m1_def o1_def StraightRegression_train_def Let_def
      apply (simp add: Let_def fit_def bnd_Inr_iff load_model_Inr_iff history_get_Inr_iff save_def)
      apply ((elim exE conjE, simp)?)
      done
  next
    case False
    with \<open>\<not> prune a\<close> run show ?thesis
      unfolding lp_def p1_def p2_def c1_def m1_def o1_def StraightRegression_train_def Let_def
      apply (simp add: Let_def fit_def bnd_Inr_iff load_model_Inr_iff history_get_Inr_iff save_def)
      apply ((elim exE conjE, simp)?)
      done
  qed
qed

lemma FU_train_unfold:
  fixes K self a w
  defines "lp \<equiv> format3 ''KerasSavedModels/FreezeUnfreeze_last_weights_'' (cvfold_id a) (l1_id a) (l2_id a)"
  defines "pb \<equiv> (if \<not> pre_trained_weights self
      then format3 ''KerasSavedModels/FreezeUnfreeze_weights_before_unfreezing_'' (cvfold_id a) (l1_id a) (l2_id a)
      else format3 ''KerasSavedModels/PreTrFreezeUnfreeze_weights_before_unfreezing_'' (cvfold_id a) (l1_id a) (l2_id a))"
  defines "pa \<equiv> (if \<not> pre_trained_weights self
      then format3 ''KerasSavedModels/FreezeUnfreeze_weights_after_unfreezing_'' (cvfold_id a) (l1_id a) (l2_id a)
      else format3 ''KerasSavedModels/PreTrFreezeUnfreeze_weights_after_unfreezing_'' (cvfold_id a) (l1_id a) (l2_id a))"
  defines "pp \<equiv> (if \<not> pre_trained_weights self
      then format3 ''KerasSavedModels/FreezeUnfreeze_weights_after_unfreezing_and_pruning_'' (cvfold_id a) (l1_id a) (l2_id a)
      else format3 ''KerasSavedModels/PreTrFreezeUnfreeze_weights_after_unfreezing_and_pruning_'' (cvfold_id a) (l1_id a) (l2_id a))"
  defines "c1 \<equiv> \<lparr>f_model = m self, f_x = x_train a, f_y = y_train a, f_batch_size = bs a,
      f_validation_data = Some (x_test a, y_test a), f_epochs = epochs a,
      f_callbacks = [EarlyStopping ''val_mean_squared_error'' ''min'' (patience a),
                     ModelCheckpoint pb ''val_mean_squared_error'' ''min'' True]\<rparr>"
  defines "o1 \<equiv> fit_result K (length (trace w)) c1 (files w)"
  defines "m1 \<equiv> fst (fit K w (m self) (x_train a) (y_train a) (bs a) (Some (x_test a, y_test a))
      (epochs a) (f_callbacks c1))"
  defines "m2 \<equiv> compile ''mean_squared_error'' (lr self / 2) [''r2_score'', ''mse''] (unfreeze_all m1)"
  defines "c2 \<equiv> \<lparr>f_model = m2, f_x = x_train a, f_y = y_train a, f_batch_size = bs a,
      f_validation_data = Some (x_test a, y_test a), f_epochs = epochs a,
      f_callbacks = [EarlyStopping ''val_mean_squared_error'' ''min'' (patience a),
                     ModelCheckpoint pa ''val_mean_squared_error'' ''min'' True]\<rparr>"
  defines "o2 \<equiv> fit_result K (Suc (length (trace w))) c2 (fo_files o1)"
  defines "m3 \<equiv> fst (fit K \<lparr>files = fo_files o1, trace = trace w @ [Fit c1]\<rparr> m2 (x_train a)
      (y_train a) (bs a) (Some (x_test a, y_test a)) (epochs a) (f_callbacks c2))"
  assumes run: "FreezeUnfreeze_train K self a w = Inr (res, self', w')"
  shows "\<exists>h1 vh1 h2 vh2 sm sm2.
     fo_history o1 ''r2_score'' = Some h1 \<and> fo_history o1 ''val_r2_score'' = Some vh1 \<and>
     fo_history o2 ''r2_score'' = Some h2 \<and> fo_history o2 ''val_r2_score'' = Some vh2 \<and>
     fo_files o2 pb = Some sm \<and> fo_files o2 pa = Some sm2 \<and>
     (if prune a
      then (\<exists>ind mp w6 X Xt c3 h3 vh3 sm3.
          prune_rebuild K self lp (geneNames a)
            \<lparr>files = (fo_files o2)(lp \<mapsto> m3),
             trace = trace w @ [Fit c1, Fit c2, Load pb sm, Load pa sm2, Save lp m3]\<rparr>
            = Inr (ind, mp, w6) \<and>
          take_cols (x_train a) ind = Inr X \<and> take_cols (x_test a) ind = Inr Xt \<and>
          c3 = \<lparr>f_model = mp, f_x = X, f_y = y_train a, f_batch_size = bs a,
                f_validation_data = Some (Xt, y_test a), f_epochs = 2 * epochs a,
                f_callbacks = [EarlyStopping ''val_mean_squared_error'' ''min'' (2 * patience a),
                               ModelCheckpoint pp ''val_mean_squared_error'' ''min'' True]\<rparr> \<and>
          fo_history (fit_result K (length (trace w6)) c3 (files w6)) ''r2_score'' = Some h3 \<and>
          fo_history (fit_result K (length (trace w6)) c3 (files w6)) ''val_r2_score'' = Some vh3 \<and>
          fo_files (fit_result K (length (trace w6)) c3 (files w6)) pp = Some sm3 \<and>
          res = FU_pruned (np_r2 (y_train a) (predict K sm (x_train a)))
                  (np_r2 (y_test a) (predict K sm (x_test a)))
                  (np_r2 (y_train a) (predict K sm2 (x_train a)))
                  (np_r2 (y_test a) (predict K sm2 (x_test a)))
                  (np_r2 (y_train a) (predict K sm3 X)) (np_r2 (y_test a) (predict K sm3 Xt))
                  ((h1 @ h2) @ h3) ((vh1 @ vh2) @ vh3) \<and>
          self' = self\<lparr>m := fst (fit K w6 mp X (y_train a) (bs a) (Some (Xt, y_test a))
                                 (2 * epochs a) (f_callbacks c3))\<rparr> \<and>
          w' = \<lparr>files = fo_files (fit_result K (length (trace w6)) c3 (files w6)),
                trace = trace w6 @ [Fit c3, Load pp sm3]\<rparr>)
      else res = FU_plain (np_r2 (y_train a) (predict K sm (x_train a)))
                  (np_r2 (y_test a) (predict K sm (x_test a)))
                  (np_r2 (y_train a) (predict K sm2 (x_train a)))
                  (np_r2 (y_test a) (predict K sm2 (x_test a)))
                  (h1 @ h2) (vh1 @ vh2) \<and>
           self' = self\<lparr>m := m3\<rparr> \<and>
           w' = \<lparr>files = (fo_files o2)(lp \<mapsto> m3),
                 trace = trace w @ [Fit c1, Fit c2, Load pb sm, Load pa sm2, Save lp m3]\<rparr>)"
proof (cases "prune a")
  case True
  show ?thesis
  proof (cases "pre_trained_weights self")
    case True
    with \<open>prune a\<close> run show ?thesis
      unfolding lp_def pb_def pa_def pp_def c1_def m1_def o1_def m2_def c2_def o2_def m3_def
        FreezeUnfreeze_train_def Let_def
      apply (simp add: Let_def fit_def bnd_Inr_iff load_model_Inr_iff history_get_Inr_iff save_def)
      apply ((elim exE conjE, simp)?)
      done
  next
    case False
    with \<open>prune a\<close> run show ?thesis
      unfolding lp_def pb_def pa_def pp_def c1_def m1_def o1_def m2_def c2_def o2_def m3_def
        FreezeUnfreeze_train_def Let_def
      apply (simp add: Let_def fit_def bnd_Inr_iff load_model_Inr_iff history_get_Inr_iff save_def)
      apply ((elim exE conjE, simp)?)
      done
  qed
next
  case False
  show ?thesis
  proof (cases "pre_trained_weights self")
    case True
    with \<open>\<not> prune a\<close> run show ?thesis
      unfolding lp_def pb_def pa_def pp_def c1_def m1_def o1_def m2_def c2_def o2_def m3_def
        FreezeUnfreeze_train_def Let_def
      apply (simp add: Let_def fit_def bnd_Inr_iff load_model_Inr_iff history_get_Inr_iff save_def)
      apply ((elim exE conjE, simp)?)
      done
  next
    case False
    with \<open>\<not> prune a\<close> run show ?thesis
      unfolding lp_def pb_def pa_def pp_def c1_def m1_def o1_def m2_def c2_def o2_def m3_def
        FreezeUnfreeze_train_def Let_def
      apply (simp add: Let_def fit_def bnd_Inr_iff load_model_Inr_iff history_get_Inr_iff save_def)
      apply ((elim exE conjE, simp)?)
      done
  qed
qed

lemma FU_full_unfold:
  fixes K self a w
  defines "pb \<equiv> format3 ''KerasSavedModels/FreezeUnfreeze_before_unfreezing_full_dataset_'' (cvfold_id a) (l1_id a) (l2_id a)"
  defines "pa \<equiv> format3 ''KerasSavedModels/FreezeUnfreeze_after_unfreezing_full_dataset_'' (cvfold_id a) (l1_id a) (l2_id a)"
  defines "pp \<equiv> format3 ''KerasSavedModels/FreezeUnfreeze_after_unfreezing_ap_full_dataset_'' (cvfold_id a) (l1_id a) (l2_id a)"
  defines "c1 \<equiv> \<lparr>f_model = m self, f_x = x_train a, f_y = y_train a, f_batch_size = bs a,
      f_validation_data = None, f_epochs = epochs a, f_callbacks = []\<rparr>"
  defines "o1 \<equiv> fit_result K (length (trace w)) c1 (files w)"
  defines "m1 \<equiv> fst (fit K w (m self) (x_train a) (y_train a) (bs a) None (epochs a) [])"
  defines "m2 \<equiv> compile ''mean_squared_error'' (lr self / 2) [''r2_score'', ''mse''] (unfreeze_all m1)"
  defines "c2 \<equiv> \<lparr>f_model = m2, f_x = x_train a, f_y = y_train a, f_batch_size = bs a,
      f_validation_data = None, f_epochs = epochs a, f_callbacks = []\<rparr>"
  defines "o2 \<equiv> fit_result K (Suc (Suc (length (trace w)))) c2 ((fo_files o1)(pb \<mapsto> m2))"
  defines "m3 \<equiv> fst (fit K \<lparr>files = (fo_files o1)(pb \<mapsto> m2),
                             trace = trace w @ [Fit c1, Save pb m2]\<rparr> m2 (x_train a)
      (y_train a) (bs a) None (epochs a) [])"
  assumes run: "FreezeUnfreeze_train_full_dataset K self a w = Inr (res, self', w')"
  shows "\<exists>h1 h2.
     fo_history o1 ''r2_score'' = Some h1 \<and> fo_history o2 ''r2_score'' = Some h2 \<and>
     (if prune a
      then (\<exists>ind mp w5 X c3 h3.
          prune_rebuild K self pa (geneNames a)
            \<lparr>files = (fo_files o2)(pa \<mapsto> m3),
             trace = trace w @ [Fit c1, Save pb m2, Fit c2, Save pa m3]\<rparr>
            = Inr (ind, mp, w5) \<and>
          take_cols (x_train a) ind = Inr X \<and>
          c3 = \<lparr>f_model = mp, f_x = X, f_y = y_train a, f_batch_size = bs a,
                f_validation_data = None, f_epochs = 2 * epochs a, f_callbacks = []\<rparr> \<and>
          fo_history (fit_result K (Suc (length (trace w5))) c3 ((files w5)(pp \<mapsto> mp)))
            ''r2_score'' = Some h3 \<and>
          res = Some ((h1 @ h2) @ h3) \<and>
          self' = self\<lparr>m := fst (fit K (save mp pp w5) mp X (y_train a) (bs a) None
                                 (2 * epochs a) [])\<rparr> \<and>
          w' = \<lparr>files = fo_files (fit_result K (Suc (length (trace w5))) c3
                                   ((files w5)(pp \<mapsto> mp))),
                trace = trace w5 @ [Save pp mp, Fit c3]\<rparr>)
      else res = None \<and> self' = self\<lparr>m := m3\<rparr> \<and>
           w' = \<lparr>files = (fo_files o2)(pa \<mapsto> m3),
                 trace = trace w @ [Fit c1, Save pb m2, Fit c2, Save pa m3]\<rparr>)"
proof (cases "prune a")
  case True
  with run show ?thesis
    unfolding pb_def pa_def pp_def c1_def m1_def o1_def m2_def c2_def o2_def m3_def
      FreezeUnfreeze_train_full_dataset_def Let_def
    apply (simp add: Let_def fit_def bnd_Inr_iff load_model_Inr_iff history_get_Inr_iff save_def)
    apply (elim exE conjE, simp)
    done
next
  case False
  with run show ?thesis
    unfolding pb_def pa_def pp_def c1_def m1_def o1_def m2_def c2_def o2_def m3_def
      FreezeUnfreeze_train_full_dataset_def Let_def
    by (simp add: Let_def fit_def bnd_Inr_iff load_model_Inr_iff history_get_Inr_iff save_def)
qed

lemma CPT_train_unfold:
  fixes K self w x ct xt ctt n b pat cv i1 i2
  defines "p \<equiv> format3 ''KerasSavedModels/Classification_weights_'' cv i1 i2"
  defines "c \<equiv> \<lparr>f_model = m self, f_x = x, f_y = to_categorical K ct, f_batch_size = b,
      f_validation_data = Some (xt, to_categorical K ctt), f_epochs = n,
      f_callbacks = [EarlyStopping ''val_loss'' ''min'' pat,
                     ModelCheckpoint p ''val_categorical_crossentropy'' ''min'' True]\<rparr>"
  defines "out \<equiv> fit_result K (length (trace w)) c (files w)"
  assumes run: "ClassificationPreTrain_train K self x ct xt ctt n b pat cv i1 i2 w
                  = Inr ((CE_train, CE_test, h, vh), self', w')"
  shows "\<exists>sm. fo_files out p = Some sm \<and>
     py_index (evaluate K sm x (to_categorical K ct)) 0 = Inr CE_train \<and>
     py_index (evaluate K sm xt (to_categorical K ctt)) 0 = Inr CE_test \<and>
     fo_history out ''categorical_crossentropy'' = Some h \<and>
     fo_history out ''val_categorical_crossentropy'' = Some vh \<and>
     self' = self\<lparr>m := fst (fit K w (m self) x (to_categorical K ct) b
                            (Some (xt, to_categorical K ctt)) n (f_callbacks c))\<rparr> \<and>
     w' = \<lparr>files = fo_files out, trace = trace w @ [Fit c, Load p sm, Load p sm]\<rparr>"
  using run
  unfolding p_def c_def out_def ClassificationPreTrain_train_def Let_def
  apply (simp add: Let_def fit_def bnd_Inr_iff load_model_Inr_iff history_get_Inr_iff)
  apply (elim exE conjE, simp)
  done

section \<open>Layers: names, shapes and weights\<close>

lemma name_trained_layer: "name (trained_layer out i l) = name l"
  by (simp add: trained_layer_def)

lemma map_name_enumerate_trained:
  "map name (map (\<lambda>(i, l). trained_layer out i l) (enumerate k ls)) = map name ls"
  by (induction ls arbitrary: k) (simp_all add: name_trained_layer)

lemma map_name_fit:
  "map name (layers (fst (fit K w mdl x y b v n cbs))) = map name (layers mdl)"
  using map_name_enumerate_trained by (simp add: fit_def Let_def)

lemma map_name_unfreeze_all: "map name (layers (unfreeze_all mdl)) = map name (layers mdl)"
  by (simp add: unfreeze_all_def comp_def)

lemma layers_compile: "layers (compile ls r ms mdl) = layers mdl"
  by (simp add: compile_def)

lemma map_trainable_unfreeze_all:
  "map trainable (layers (unfreeze_all mdl)) = replicate (length (layers mdl)) True"
  by (simp add: unfreeze_all_def comp_def map_replicate_const)

lemma length_layers_fit:
  "length (layers (fst (fit K w mdl x y b v n cbs))) = length (layers mdl)"
  by (simp add: fit_def Let_def)

lemma six_names:
  assumes "map name ls = [n0, n1, n2, n3, n4, n5]"
  obtains a0 a1 a2 a3 a4 a5 where "ls = [a0, a1, a2, a3, a4, a5]"
    "name a0 = n0" "name a1 = n1" "name a2 = n2" "name a3 = n3" "name a4 = n4" "name a5 = n5"
  using assms by (auto simp: map_eq_Cons_conv)

lemma load_layer_by_name_found:
  assumes "load_layer_by_name saved l = Inr l'" and "find (\<lambda>s. name s = name l) saved = Some s"
  shows "kernel l' = kernel s \<and> bias l' = bias s"
  using assms by (auto simp: load_layer_by_name_def set_weights_def split: if_splits)

lemma prune_rebuild_transplant:
  assumes pr: "prune_rebuild K self path names w = Inr (ind_genes, mp, w')"
    and nm: "\<And>saved. files w path = Some saved \<Longrightarrow>
       map name (layers saved) = [''W1'', ''W2'', ''bottleneck'', ''W4'', ''W5'', ''W6_regr'']"
  shows "\<exists>saved. files w path = Some saved \<and>
     ind_genes = select_genes (kernel (layers saved ! 0)) \<and>
     map name (layers mp) = [''W1_25'', ''W2'', ''bottleneck'', ''W4'', ''W5'', ''W6_regr''] \<and>
     kernel (layers mp ! 0) = map (\<lambda>i. kernel (layers saved ! 0) ! i) ind_genes \<and>
     bias (layers mp ! 0) = bias (layers saved ! 0) \<and>
     map (\<lambda>l. (name l, kernel l, bias l)) (tl (layers mp)) =
       map (\<lambda>l. (name l, kernel l, bias l)) (tl (layers saved))"
proof -
  from prune_rebuild_Inr[OF pr] obtain saved l0 ls L2' L3' L4' L5' L6' t where
    f: "files w path = Some saved" and l: "layers saved = l0 # ls"
    and ind: "ind_genes = select_genes (kernel l0)"
    and L2: "load_layer_by_name (layers saved)
       (new_layer K t 128 (act self) 512 (Some (L2 (l2 self))) (Some (L2 (l2 self))) True ''W2'') = Inr L2'"
    and L3: "load_layer_by_name (layers saved)
       (new_layer K t 2 ''linear'' 128 (Some (L2 (l2 self))) (Some (L2 (l2 self))) True ''bottleneck'') = Inr L3'"
    and L4: "load_layer_by_name (layers saved)
       (new_layer K t 128 (act self) 2 (Some (L2 (l2 self))) (Some (L2 (l2 self))) True ''W4'') = Inr L4'"
    and L5: "load_layer_by_name (layers saved)
       (new_layer K t 512 (act self) 128 (Some (L2 (l2 self))) (Some (L2 (l2 self))) True ''W5'') = Inr L5'"
    and L6: "load_layer_by_name (layers saved)
       (new_layer K t (output_dim self) ''linear'' 512 (Some (L2 (l2 self))) None True ''W6_regr'') = Inr L6'"
    and mp: "mp = \<lparr>layers =
            [\<lparr>units = 512, activation = act self, input_width = 25,
              kernel_regularizer = Some (Elastic (ElasticNet 0 (l2 self))),
              bias_regularizer = Some (L2 (l2 self)), trainable = True, name = ''W1_25'',
              kernel = map (\<lambda>i. kernel l0 ! i) ind_genes, bias = bias l0\<rparr>,
             L2', L3', L4', L5', L6'],
           compiled = Some \<lparr>loss = ''mse'', optimizer_lr = lr self / 2,
                            metrics = [''r2_score'', ''mse'']\<rparr>\<rparr>"
    by blast
  from nm[OF f] obtain a0 a1 a2 a3 a4 a5 where
    s: "layers saved = [a0, a1, a2, a3, a4, a5]" and
    n: "name a0 = ''W1''" "name a1 = ''W2''" "name a2 = ''bottleneck''" "name a3 = ''W4''"
       "name a4 = ''W5''" "name a5 = ''W6_regr''"
    by (rule six_names)
  have l0: "l0 = a0" using l s by simp
  have names: "name L2' = ''W2''" "name L3' = ''bottleneck''"
    "name L4' = ''W4''" "name L5' = ''W5''" "name L6' = ''W6_regr''"
    using L2 L3 L4 L5 L6 by (auto dest!: load_layer_by_name_name simp: new_layer_def)
  have k2: "kernel L2' = kernel a1 \<and> bias L2' = bias a1"
    by (rule load_layer_by_name_found[OF L2]) (simp add: s n new_layer_def)
  have k3: "kernel L3' = kernel a2 \<and> bias L3' = bias a2"
    by (rule load_layer_by_name_found[OF L3]) (simp add: s n new_layer_def)
  have k4: "kernel L4' = kernel a3 \<and> bias L4' = bias a3"
    by (rule load_layer_by_name_found[OF L4]) (simp add: s n new_layer_def)
  have k5: "kernel L5' = kernel a4 \<and> bias L5' = bias a4"
    by (rule load_layer_by_name_found[OF L5]) (simp add: s n new_layer_def)
  have k6: "kernel L6' = kernel a5 \<and> bias L6' = bias a5"
    by (rule load_layer_by_name_found[OF L6]) (simp add: s n new_layer_def)
  show ?thesis
    using f ind by (intro exI[of _ saved]) (simp add: mp s l0 n names k2 k3 k4 k5 k6)
qed

lemma prune_rebuild_arch:
  assumes pr: "prune_rebuild K self path names w = Inr (ind_genes, mp, w')"
  shows "map (\<lambda>l. (name l, input_width l, units l, activation l)) (layers mp) =
      [(''W1_25'', 25, 512, act self), (''W2'', 512, 128, act self),
       (''bottleneck'', 128, 2, ''linear''), (''W4'', 2, 128, act self),
       (''W5'', 128, 512, act self), (''W6_regr'', 512, output_dim self, ''linear'')]"
    and "kernel_regularizer (layers mp ! 0) = Some (Elastic (ElasticNet 0 (l2 self)))"
    and "list_all trainable (layers mp)"
    and "compiled mp = Some \<lparr>loss = ''mse'', optimizer_lr = lr self / 2,
                            metrics = [''r2_score'', ''mse'']\<rparr>"
proof -
  from prune_rebuild_Inr[OF pr] obtain saved l0 ls L2' L3' L4' L5' L6' t where
    f: "files w path = Some saved" and l: "layers saved = l0 # ls"
    and ind: "ind_genes = select_genes (kernel l0)"
    and L2: "load_layer_by_name (layers saved)
       (new_layer K t 128 (act self) 512 (Some (L2 (l2 self))) (Some (L2 (l2 self))) True ''W2'') = Inr L2'"
    and L3: "load_layer_by_name (layers saved)
       (new_layer K t 2 ''linear'' 128 (Some (L2 (l2 self))) (Some (L2 (l2 self))) True ''bottleneck'') = Inr L3'"
    and L4: "load_layer_by_name (layers saved)
       (new_layer K t 128 (act self) 2 (Some (L2 (l2 self))) (Some (L2 (l2 self))) True ''W4'') = Inr L4'"
    and L5: "load_layer_by_name (layers saved)
       (new_layer K t 512 (act self) 128 (Some (L2 (l2 self))) (Some (L2 (l2 self))) True ''W5'') = Inr L5'"
    and L6: "load_layer_by_name (layers saved)
       (new_layer K t (output_dim self) ''linear'' 512 (Some (L2 (l2 self))) None True ''W6_regr'') = Inr L6'"
    and mp: "mp = \<lparr>layers =
            [\<lparr>units = 512, activation = act self, input_width = 25,
              kernel_regularizer = Some (Elastic (ElasticNet 0 (l2 self))),
              bias_regularizer = Some (L2 (l2 self)), trainable = True, name = ''W1_25'',
              kernel = map (\<lambda>i. kernel l0 ! i) ind_genes, bias = bias l0\<rparr>,
             L2', L3', L4', L5', L6'],
           compiled = Some \<lparr>loss = ''mse'', optimizer_lr = lr self / 2,
                            metrics = [''r2_score'', ''mse'']\<rparr>\<rparr>"
    by blast
  note nm = load_layer_by_name_name[OF L2] load_layer_by_name_name[OF L3]
    load_layer_by_name_name[OF L4] load_layer_by_name_name[OF L5] load_layer_by_name_name[OF L6]
  note fl = load_layer_by_name_fields[OF L2] load_layer_by_name_fields[OF L3]
    load_layer_by_name_fields[OF L4] load_layer_by_name_fields[OF L5] load_layer_by_name_fields[OF L6]
  show "map (\<lambda>l. (name l, input_width l, units l, activation l)) (layers mp) =
      [(''W1_25'', 25, 512, act self), (''W2'', 512, 128, act self),
       (''bottleneck'', 128, 2, ''linear''), (''W4'', 2, 128, act self),
       (''W5'', 128, 512, act self), (''W6_regr'', 512, output_dim self, ''linear'')]"
    using nm fl by (simp add: mp new_layer_def)
  show "kernel_regularizer (layers mp ! 0) = Some (Elastic (ElasticNet 0 (l2 self)))"
    by (simp add: mp)
  show "list_all trainable (layers mp)"
    using fl by (simp add: mp new_layer_def)
  show "compiled mp = Some \<lparr>loss = ''mse'', optimizer_lr = lr self / 2,
                            metrics = [''r2_score'', ''mse'']\<rparr>"
    by (simp add: mp)
qed

lemma new_layer_fields:
  "units (new_layer K t n a wd kr br tr nm) = n"
  "activation (new_layer K t n a wd kr br tr nm) = a"
  "input_width (new_layer K t n a wd kr br tr nm) = wd"
  "kernel_regularizer (new_layer K t n a wd kr br tr nm) = kr"
  "bias_regularizer (new_layer K t n a wd kr br tr nm) = br"
  "trainable (new_layer K t n a wd kr br tr nm) = tr"
  "name (new_layer K t n a wd kr br tr nm) = nm"
  by (simp_all add: new_layer_def)

lemma CPT_init_layers:
  "layers (m (ClassificationPreTrain_init K w l1' l2' lr' act' i out)) =
     [new_layer K (length (trace w)) 512 act' i (Some (Elastic (ElasticNet l1' l2')))
        (Some (L2 l2')) True ''W1'',
      new_layer K (length (trace w)) 128 act' 512 (Some (L2 l2')) (Some (L2 l2')) True ''W2'',
      new_layer K (length (trace w)) 2 ''linear'' 128 (Some (L2 l2')) (Some (L2 l2')) True
        ''bottleneck'',
      new_layer K (length (trace w)) 128 act' 2 (Some (L2 l2')) (Some (L2 l2')) True ''W4'',
      new_layer K (length (trace w)) 512 act' 128 (Some (L2 l2')) (Some (L2 l2')) True ''W5'',
      new_layer K (length (trace w)) out ''softmax'' 512 (Some (L2 l2')) (Some (L2 l2')) True
        ''W6_class'']"
  by (simp add: ClassificationPreTrain_init_def Let_def Dense_def Sequential_def compile_def
      ElasticNet_init_def new_layer_fields)

lemma SR_init_unfold:
  assumes "StraightRegression_init K w l1' l2' lr' act' i out ptw h5 = Inr self"
  shows "\<exists>m7.
     (if ptw
      then load_weights h5 w
        \<lparr>layers =
           [new_layer K (length (trace w)) 512 act' i (Some (Elastic (ElasticNet l1' l2')))
              (Some (L2 l2')) True ''W1'',
            new_layer K (length (trace w)) 128 act' 512 (Some (L2 l2')) (Some (L2 l2')) True ''W2'',
            new_layer K (length (trace w)) 2 ''linear'' 128 (Some (L2 l2')) (Some (L2 l2')) True
              ''bottleneck'',
            new_layer K (length (trace w)) 128 act' 2 (Some (L2 l2')) (Some (L2 l2')) True ''W4'',
            new_layer K (length (trace w)) 512 act' 128 (Some (L2 l2')) (Some (L2 l2')) True ''W5'',
            new_layer K (length (trace w)) out ''linear'' 512 (Some (L2 l2')) None True
              ''W6_regr''],
         compiled = None\<rparr> = Inr m7
      else m7 =
        \<lparr>layers =
           [new_layer K (length (trace w)) 512 act' i (Some (Elastic (ElasticNet l1' l2')))
              (Some (L2 l2')) True ''W1'',
            new_layer K (length (trace w)) 128 act' 512 (Some (L2 l2')) (Some (L2 l2')) True ''W2'',
            new_layer K (length (trace w)) 2 ''linear'' 128 (Some (L2 l2')) (Some (L2 l2')) True
              ''bottleneck'',
            new_layer K (length (trace w)) 128 act' 2 (Some (L2 l2')) (Some (L2 l2')) True ''W4'',
            new_layer K (length (trace w)) 512 act' 128 (Some (L2 l2')) (Some (L2 l2')) True ''W5'',
            new_layer K (length (trace w)) out ''linear'' 512 (Some (L2 l2')) None True
              ''W6_regr''],
         compiled = None\<rparr>) \<and>
     self = \<lparr>l1 = l1', l2 = l2', lr = lr', act = act', input_dim = i, output_dim = out,
             m = compile ''mean_squared_error'' lr' [''r2_score'', ''mse''] m7,
             pre_trained_weights = ptw\<rparr>"
  using assms
  apply (simp add: StraightRegression_init_def Let_def Dense_def Sequential_def
      ElasticNet_init_def new_layer_fields bnd_Inr_iff split: if_splits)
  apply (elim exE conjE, simp)
  done

lemma py_index_Inr_iff: "py_index xs i = Inr v \<longleftrightarrow> i < length xs \<and> v = xs ! i"
  by (auto simp: py_index_def)

lemma FU_init_unfold:
  assumes "FreezeUnfreeze_init K w l1' l2' lr' act' i out u ptw h5 = Inr self"
  shows "6 \<le> length u \<and> (\<exists>m7.
     (if ptw
      then load_weights h5 w
        \<lparr>layers =
           [new_layer K (length (trace w)) 512 act' i (Some (Elastic (ElasticNet l1' l2')))
              (Some (L2 l2')) (u ! 0) ''W1'',
            new_layer K (length (trace w)) 128 act' 512 (Some (L2 l2')) (Some (L2 l2')) (u ! 1)
              ''W2'',
            new_layer K (length (trace w)) 2 ''linear'' 128 (Some (L2 l2')) (Some (L2 l2'))
              (u ! 2) ''bottleneck'',
            new_layer K (length (trace w)) 128 act' 2 (Some (L2 l2')) (Some (L2 l2')) (u ! 3)
              ''W4'',
            new_layer K (length (trace w)) 512 act' 128 (Some (L2 l2')) (Some (L2 l2')) (u ! 4)
              ''W5'',
            new_layer K (length (trace w)) out ''linear'' 512 (Some (L2 l2')) None (u ! 5)
              ''W6_regr''],
         compiled = None\<rparr> = Inr m7
      else m7 =
        \<lparr>layers =
           [new_layer K (length (trace w)) 512 act' i (Some (Elastic (ElasticNet l1' l2')))
              (Some (L2 l2')) (u ! 0) ''W1'',
            new_layer K (length (trace w)) 128 act' 512 (Some (L2 l2')) (Some (L2 l2')) (u ! 1)
              ''W2'',
            new_layer K (length (trace w)) 2 ''linear'' 128 (Some (L2 l2')) (Some (L2 l2'))
              (u ! 2) ''bottleneck'',
            new_layer K (length (trace w)) 128 act' 2 (Some (L2 l2')) (Some (L2 l2')) (u ! 3)
              ''W4'',
            new_layer K (length (trace w)) 512 act' 128 (Some (L2 l2')) (Some (L2 l2')) (u ! 4)
              ''W5'',
            new_layer K (length (trace w)) out ''linear'' 512 (Some (L2 l2')) None (u ! 5)
              ''W6_regr''],
         compiled = None\<rparr>) \<and>
     self = \<lparr>l1 = l1', l2 = l2', lr = lr', act = act', input_dim = i, output_dim = out,
             m = compile ''mean_squared_error'' lr' [''r2_score'', ''mse''] m7,
             pre_trained_weights = ptw, unfreeze = u\<rparr>)"
  using assms
  apply (simp add: FreezeUnfreeze_init_def Let_def Dense_def Sequential_def
      ElasticNet_init_def new_layer_fields bnd_Inr_iff py_index_Inr_iff split: if_splits)
  apply (elim exE conjE, simp)
  done

lemma load_layers_by_name_fields:
  assumes "load_layers_by_name saved ls = Inr ls'"
  shows "map (\<lambda>l. (name l, input_width l, units l, activation l, trainable l,
             kernel_regularizer l, bias_regularizer l)) ls' =
         map (\<lambda>l. (name l, input_width l, units l, activation l, trainable l,
             kernel_regularizer l, bias_regularizer l)) ls"
  using assms
proof (induction ls arbitrary: ls')
  case Nil
  then show ?case by simp
next
  case (Cons l ls)
  from Cons.prems obtain l' ls0 where a: "load_layer_by_name saved l = Inr l'"
    and b: "load_layers_by_name saved ls = Inr ls0" and c: "ls' = l' # ls0"
    by (auto simp: bnd_Inr_iff)
  show ?case
    using Cons.IH[OF b] load_layer_by_name_fields[OF a] load_layer_by_name_name[OF a]
    by (simp add: c)
qed

lemma load_weights_fields:
  assumes "load_weights h5 w mdl = Inr mdl'"
  shows "map (\<lambda>l. (name l, input_width l, units l, activation l, trainable l,
             kernel_regularizer l, bias_regularizer l)) (layers mdl') =
         map (\<lambda>l. (name l, input_width l, units l, activation l, trainable l,
             kernel_regularizer l, bias_regularizer l)) (layers mdl)"
    and "compiled mdl' = compiled mdl"
  using assms load_layers_by_name_fields
  by (auto simp: load_weights_def bnd_Inr_iff split: option.splits)

section \<open>Runs with pruning\<close>

lemma prune_rebuild_world:
  assumes "prune_rebuild K self path names w = Inr (ind, mp, w')" and "files w path = Some saved"
  shows "w' = w\<lparr>trace := trace w @ [Load path saved]\<rparr>"
    and "ind = select_genes (kernel (hd (layers saved)))"
    and "length ind = 25"
    and "25 \<le> length (kernel (hd (layers saved)))"
proof -
  from prune_rebuild_Inr[OF assms(1)] assms(2) obtain l0 ls where
    l: "layers saved = l0 # ls" and w': "w' = w\<lparr>trace := trace w @ [Load path saved]\<rparr>"
    and ind: "ind = select_genes (kernel l0)" and len: "length ind = 25"
    by auto
  show "w' = w\<lparr>trace := trace w @ [Load path saved]\<rparr>" by (rule w')
  show "ind = select_genes (kernel (hd (layers saved)))" by (simp add: ind l)
  show "length ind = 25" by (rule len)
  have "length ind \<le> length (kernel l0)"
    unfolding ind select_genes_def last_n_def norm_axis1_def by (simp add: length_argsort)
  then show "25 \<le> length (kernel (hd (layers saved)))" using len by (simp add: l)
qed

lemma load_layer_by_name_not_found:
  assumes "load_layer_by_name saved l = Inr l'" and "find (\<lambda>s. name s = name l) saved = None"
  shows "l' = l"
  using assms by (simp add: load_layer_by_name_def)

lemma pretrained_layers:
  assumes lw: "load_layers_by_name saved [n0, n1, n2, n3, n4, n5] = Inr ls"
    and sn: "map name saved = [''W1'', ''W2'', ''bottleneck'', ''W4'', ''W5'', ''W6_class'']"
    and nn: "map name [n0, n1, n2, n3, n4, n5] =
       [''W1'', ''W2'', ''bottleneck'', ''W4'', ''W5'', ''W6_regr'']"
  shows "map (\<lambda>l. (kernel l, bias l)) (take 5 ls) = map (\<lambda>l. (kernel l, bias l)) (take 5 saved)
     \<and> ls ! 5 = n5 \<and> length ls = 6"
proof -
  from sn obtain a0 a1 a2 a3 a4 a5 where
    s: "saved = [a0, a1, a2, a3, a4, a5]" and
    n: "name a0 = ''W1''" "name a1 = ''W2''" "name a2 = ''bottleneck''" "name a3 = ''W4''"
       "name a4 = ''W5''" "name a5 = ''W6_class''"
    by (rule six_names)
  from lw obtain b0 b1 b2 b3 b4 b5 where
    b: "load_layer_by_name saved n0 = Inr b0" "load_layer_by_name saved n1 = Inr b1"
       "load_layer_by_name saved n2 = Inr b2" "load_layer_by_name saved n3 = Inr b3"
       "load_layer_by_name saved n4 = Inr b4" "load_layer_by_name saved n5 = Inr b5"
    and ls: "ls = [b0, b1, b2, b3, b4, b5]"
    by (auto simp: bnd_Inr_iff)
  have k0: "kernel b0 = kernel a0 \<and> bias b0 = bias a0"
    by (rule load_layer_by_name_found[OF b(1)]) (use nn in \<open>simp add: s n\<close>)
  have k1: "kernel b1 = kernel a1 \<and> bias b1 = bias a1"
    by (rule load_layer_by_name_found[OF b(2)]) (use nn in \<open>simp add: s n\<close>)
  have k2: "kernel b2 = kernel a2 \<and> bias b2 = bias a2"
    by (rule load_layer_by_name_found[OF b(3)]) (use nn in \<open>simp add: s n\<close>)
  have k3: "kernel b3 = kernel a3 \<and> bias b3 = bias a3"
    by (rule load_layer_by_name_found[OF b(4)]) (use nn in \<open>simp add: s n\<close>)
  have k4: "kernel b4 = kernel a4 \<and> bias b4 = bias a4"
    by (rule load_layer_by_name_found[OF b(5)]) (use nn in \<open>simp add: s n\<close>)
  have k5: "b5 = n5"
    by (rule load_layer_by_name_not_found[OF b(6)]) (use nn in \<open>simp add: s n\<close>)
  show ?thesis by (simp add: ls s k0 k1 k2 k3 k4 k5)
qed


lemma trainable_trained_layer: "trainable (trained_layer out i l) = trainable l"
  by (simp add: trained_layer_def)

lemma map_trainable_enumerate_trained:
  "map (trainable \<circ> (\<lambda>(i, l). trained_layer out i l)) (enumerate k ls) = map trainable ls"
  by (induction ls arbitrary: k) (simp_all add: trainable_trained_layer)

lemma map_trainable_fit:
  "map trainable (layers (fst (fit K w mdl x y b v n cbs))) = map trainable (layers mdl)"
  using map_trainable_enumerate_trained by (simp add: fit_def Let_def)

lemma compiled_fit: "compiled (fst (fit K w mdl x y b v n cbs)) = compiled mdl"
  by (simp add: fit_def Let_def)

lemma compiled_compile:
  "compiled (compile ls r ms mdl) = Some \<lparr>loss = ls, optimizer_lr = r, metrics = ms\<rparr>"
  by (simp add: compile_def)

lemma FU_init_fields:
  assumes "FreezeUnfreeze_init K w l1' l2' lr' act' i out u ptw h5 = Inr self"
  shows "map name (layers (m self)) = [''W1'', ''W2'', ''bottleneck'', ''W4'', ''W5'', ''W6_regr'']"
    and "map trainable (layers (m self)) = [u ! 0, u ! 1, u ! 2, u ! 3, u ! 4, u ! 5]"
    and "compiled (m self) = Some \<lparr>loss = ''mean_squared_error'', optimizer_lr = lr',
             metrics = [''r2_score'', ''mse'']\<rparr>"
    and "lr self = lr'" and "6 \<le> length u"
proof -
  from FU_init_unfold[OF assms] obtain m7 where
    m7: "if ptw then load_weights h5 w
        \<lparr>layers =
           [new_layer K (length (trace w)) 512 act' i (Some (Elastic (ElasticNet l1' l2')))
              (Some (L2 l2')) (u ! 0) ''W1'',
            new_layer K (length (trace w)) 128 act' 512 (Some (L2 l2')) (Some (L2 l2')) (u ! 1)
              ''W2'',
            new_layer K (length (trace w)) 2 ''linear'' 128 (Some (L2 l2')) (Some (L2 l2'))
              (u ! 2) ''bottleneck'',
            new_layer K (length (trace w)) 128 act' 2 (Some (L2 l2')) (Some (L2 l2')) (u ! 3)
              ''W4'',
            new_layer K (length (trace w)) 512 act' 128 (Some (L2 l2')) (Some (L2 l2')) (u ! 4)
              ''W5'',
            new_layer K (length (trace w)) out ''linear'' 512 (Some (L2 l2')) None (u ! 5)
              ''W6_regr''],
         compiled = None\<rparr> = Inr m7
      else m7 =
        \<lparr>layers =
           [new_layer K (length (trace w)) 512 act' i (Some (Elastic (ElasticNet l1' l2')))
              (Some (L2 l2')) (u ! 0) ''W1'',
            new_layer K (length (trace w)) 128 act' 512 (Some (L2 l2')) (Some (L2 l2')) (u ! 1)
              ''W2'',
            new_layer K (length (trace w)) 2 ''linear'' 128 (Some (L2 l2')) (Some (L2 l2'))
              (u ! 2) ''bottleneck'',
            new_layer K (length (trace w)) 128 act' 2 (Some (L2 l2')) (Some (L2 l2')) (u ! 3)
              ''W4'',
            new_layer K (length (trace w)) 512 act' 128 (Some (L2 l2')) (Some (L2 l2')) (u ! 4)
              ''W5'',
            new_layer K (length (trace w)) out ''linear'' 512 (Some (L2 l2')) None (u ! 5)
              ''W6_regr''],
         compiled = None\<rparr>"
    and self: "self = \<lparr>l1 = l1', l2 = l2', lr = lr', act = act', input_dim = i, output_dim = out,
             m = compile ''mean_squared_error'' lr' [''r2_score'', ''mse''] m7,
             pre_trained_weights = ptw, unfreeze = u\<rparr>"
    and u: "6 \<le> length u"
    by auto
  have "map (\<lambda>l. (name l, input_width l, units l, activation l, trainable l,
             kernel_regularizer l, bias_regularizer l)) (layers m7) =
     [(''W1'', i, 512, act', u ! 0, Some (Elastic (ElasticNet l1' l2')), Some (L2 l2')),
      (''W2'', 512, 128, act', u ! 1, Some (L2 l2'), Some (L2 l2')),
      (''bottleneck'', 128, 2, ''linear'', u ! 2, Some (L2 l2'), Some (L2 l2')),
      (''W4'', 2, 128, act', u ! 3, Some (L2 l2'), Some (L2 l2')),
      (''W5'', 128, 512, act', u ! 4, Some (L2 l2'), Some (L2 l2')),
      (''W6_regr'', 512, out, ''linear'', u ! 5, Some (L2 l2'), None)]"
  proof (cases ptw)
    case True
    with m7 show ?thesis by (simp add: load_weights_fields(1) new_layer_fields)
  next
    case False
    with m7 show ?thesis by (simp add: new_layer_fields)
  qed
  then have "map name (layers m7) = [''W1'', ''W2'', ''bottleneck'', ''W4'', ''W5'', ''W6_regr''] \<and>
     map trainable (layers m7) = [u ! 0, u ! 1, u ! 2, u ! 3, u ! 4, u ! 5]"
    by (auto simp: map_eq_Cons_conv)
  then show "map name (layers (m self)) = [''W1'', ''W2'', ''bottleneck'', ''W4'', ''W5'', ''W6_regr'']"
    and "map trainable (layers (m self)) = [u ! 0, u ! 1, u ! 2, u ! 3, u ! 4, u ! 5]"
    by (simp_all add: self compile_def)
  show "compiled (m self) = Some \<lparr>loss = ''mean_squared_error'', optimizer_lr = lr',
             metrics = [''r2_score'', ''mse'']\<rparr>"
    by (simp add: self compile_def)
  show "lr self = lr'" by (simp add: self)
  show "6 \<le> length u" by (rule u)
qed


lemma SR_prune_run:
  assumes run: "StraightRegression_train K self a w = Inr (res, self', w')" and p: "prune a"
  shows "\<exists>c1 p1 sm saved lp ind mp X Xt c2 p2 sm2 h vh W.
     trace w' = trace w @ [Fit c1, Load p1 sm, Save lp saved, Load lp saved, Fit c2, Load p2 sm2] \<and>
     f_model c1 = m self \<and>
     f_validation_data c1 = Some (x_test a, y_test a) \<and>
     f_callbacks c1 = [EarlyStopping ''val_mean_squared_error'' ''min'' (2 * patience a), ModelCheckpoint p1 ''val_mean_squared_error'' ''min'' True] \<and>
     fo_files (fit_result K (length (trace w)) c1 (files w)) p1 = Some sm \<and>
     map name (layers saved) = map name (layers (m self)) \<and>
     prune_rebuild K self lp (geneNames a) W = Inr (ind, mp, W\<lparr>trace := trace W @ [Load lp saved]\<rparr>) \<and>
     files W lp = Some saved \<and>
     ind = select_genes (kernel (hd (layers saved))) \<and> length ind = 25 \<and>
     25 \<le> length (kernel (hd (layers saved))) \<and>
     take_cols (x_train a) ind = Inr X \<and> take_cols (x_test a) ind = Inr Xt \<and>
     c2 = \<lparr>f_model = mp, f_x = X, f_y = y_train a, f_batch_size = bs a,
           f_validation_data = Some (Xt, y_test a), f_epochs = 2 * epochs a,
           f_callbacks = [EarlyStopping ''val_mean_squared_error'' ''min'' (2 * patience a), ModelCheckpoint p2 ''val_mean_squared_error'' ''min'' True]\<rparr> \<and>
     res = SR_pruned (np_r2 (y_train a) (predict K sm (x_train a)))
             (np_r2 (y_test a) (predict K sm (x_test a)))
             (np_r2 (y_train a) (predict K sm2 X)) (np_r2 (y_test a) (predict K sm2 Xt)) h vh"
proof -
  from SR_train_unfold[OF run] p obtain sm ind mp w4 X Xt c2 sm2 h vh p1 c1 lp m1 fs p2 where
    pr: "prune_rebuild K self lp (geneNames a)
            \<lparr>files = fs(lp \<mapsto> m1), trace = trace w @ [Fit c1, Load p1 sm, Save lp m1]\<rparr>
            = Inr (ind, mp, w4)"
    and c1: "c1 = \<lparr>f_model = m self, f_x = x_train a, f_y = y_train a, f_batch_size = bs a,
      f_validation_data = Some (x_test a, y_test a), f_epochs = 2 * epochs a,
      f_callbacks = [EarlyStopping ''val_mean_squared_error'' ''min'' (2 * patience a), ModelCheckpoint p1 ''val_mean_squared_error'' ''min'' True]\<rparr>"
    and sm: "fo_files (fit_result K (length (trace w)) c1 (files w)) p1 = Some sm"
    and m1: "m1 = fst (fit K w (m self) (x_train a) (y_train a) (bs a) (Some (x_test a, y_test a))
      (f_epochs c1) (f_callbacks c1))"
    and X: "take_cols (x_train a) ind = Inr X" "take_cols (x_test a) ind = Inr Xt"
    and c2: "c2 = \<lparr>f_model = mp, f_x = X, f_y = y_train a, f_batch_size = bs a,
           f_validation_data = Some (Xt, y_test a), f_epochs = 2 * epochs a,
           f_callbacks = [EarlyStopping ''val_mean_squared_error'' ''min'' (2 * patience a), ModelCheckpoint p2 ''val_mean_squared_error'' ''min'' True]\<rparr>"
    and res: "res = SR_pruned (np_r2 (y_train a) (predict K sm (x_train a)))
             (np_r2 (y_test a) (predict K sm (x_test a)))
             (np_r2 (y_train a) (predict K sm2 X)) (np_r2 (y_test a) (predict K sm2 Xt)) h vh"
    and w': "trace w' = trace w4 @ [Fit c2, Load p2 sm2]"
    by auto
  let ?W = "\<lparr>files = fs(lp \<mapsto> m1), trace = trace w @ [Fit c1, Load p1 sm, Save lp m1]\<rparr>"
  have f: "files ?W lp = Some m1" by simp
  note pw = prune_rebuild_world[OF pr f]
  have tr: "trace w' = trace w @ [Fit c1, Load p1 sm, Save lp m1, Load lp m1, Fit c2, Load p2 sm2]"
    using w' pw(1) by simp
  have nm: "map name (layers m1) = map name (layers (m self))"
    unfolding m1 by (rule map_name_fit)
  show ?thesis
    apply (rule exI[of _ c1], rule exI[of _ p1], rule exI[of _ sm], rule exI[of _ m1], rule exI[of _ lp], rule exI[of _ ind], rule exI[of _ mp], rule exI[of _ X], rule exI[of _ Xt], rule exI[of _ c2], rule exI[of _ p2], rule exI[of _ sm2], rule exI[of _ h], rule exI[of _ vh], rule exI[of _ ?W])
    using tr sm nm pr pw X c2 res f by (simp add: c1)
qed

lemma FU_prune_run:
  assumes run: "FreezeUnfreeze_train K self a w = Inr (res, self', w')" and p: "prune a"
  shows "\<exists>c1 pb c2 pa sm sm2 saved lp ind mp X Xt c3 pp sm3 h vh W.
     trace w' = trace w @ [Fit c1, Fit c2, Load pb sm, Load pa sm2, Save lp saved, Load lp saved,
                            Fit c3, Load pp sm3] \<and>
     f_model c1 = m self \<and>
     f_validation_data c1 = Some (x_test a, y_test a) \<and>
     f_callbacks c1 = [EarlyStopping ''val_mean_squared_error'' ''min'' (patience a), ModelCheckpoint pb ''val_mean_squared_error'' ''min'' True] \<and>
     f_validation_data c2 = Some (x_test a, y_test a) \<and>
     f_callbacks c2 = [EarlyStopping ''val_mean_squared_error'' ''min'' (patience a), ModelCheckpoint pa ''val_mean_squared_error'' ''min'' True] \<and>
     map name (layers saved) = map name (layers (m self)) \<and>
     prune_rebuild K self lp (geneNames a) W = Inr (ind, mp, W\<lparr>trace := trace W @ [Load lp saved]\<rparr>) \<and>
     files W lp = Some saved \<and>
     ind = select_genes (kernel (hd (layers saved))) \<and> length ind = 25 \<and>
     25 \<le> length (kernel (hd (layers saved))) \<and>
     take_cols (x_train a) ind = Inr X \<and> take_cols (x_test a) ind = Inr Xt \<and>
     c3 = \<lparr>f_model = mp, f_x = X, f_y = y_train a, f_batch_size = bs a,
           f_validation_data = Some (Xt, y_test a), f_epochs = 2 * epochs a,
           f_callbacks = [EarlyStopping ''val_mean_squared_error'' ''min'' (2 * patience a), ModelCheckpoint pp ''val_mean_squared_error'' ''min'' True]\<rparr> \<and>
     res = FU_pruned (np_r2 (y_train a) (predict K sm (x_train a)))
             (np_r2 (y_test a) (predict K sm (x_test a)))
             (np_r2 (y_train a) (predict K sm2 (x_train a)))
             (np_r2 (y_test a) (predict K sm2 (x_test a)))
             (np_r2 (y_train a) (predict K sm3 X)) (np_r2 (y_test a) (predict K sm3 Xt)) h vh"
proof -
  from FU_train_unfold[OF run] p obtain sm sm2 ind mp w6 X Xt c3 sm3 h vh pb pa c1 c2 lp m3 fs pp
      m2 W1 where
    pr: "prune_rebuild K self lp (geneNames a)
            \<lparr>files = fs(lp \<mapsto> m3),
             trace = trace w @ [Fit c1, Fit c2, Load pb sm, Load pa sm2, Save lp m3]\<rparr>
            = Inr (ind, mp, w6)"
    and c1: "c1 = \<lparr>f_model = m self, f_x = x_train a, f_y = y_train a, f_batch_size = bs a,
      f_validation_data = Some (x_test a, y_test a), f_epochs = epochs a,
      f_callbacks = [EarlyStopping ''val_mean_squared_error'' ''min'' (patience a), ModelCheckpoint pb ''val_mean_squared_error'' ''min'' True]\<rparr>"
    and c2: "c2 = \<lparr>f_model = m2, f_x = x_train a, f_y = y_train a, f_batch_size = bs a,
      f_validation_data = Some (x_test a, y_test a), f_epochs = epochs a,
      f_callbacks = [EarlyStopping ''val_mean_squared_error'' ''min'' (patience a), ModelCheckpoint pa ''val_mean_squared_error'' ''min'' True]\<rparr>"
    and m2: "m2 = compile ''mean_squared_error'' (lr self / 2) [''r2_score'', ''mse'']
         (unfreeze_all (fst (fit K w (m self) (x_train a) (y_train a) (bs a)
            (Some (x_test a, y_test a)) (epochs a) (f_callbacks c1))))"
    and m3: "m3 = fst (fit K W1 m2 (x_train a)
      (y_train a) (bs a) (Some (x_test a, y_test a)) (epochs a) (f_callbacks c2))"
    and X: "take_cols (x_train a) ind = Inr X" "take_cols (x_test a) ind = Inr Xt"
    and c3: "c3 = \<lparr>f_model = mp, f_x = X, f_y = y_train a, f_batch_size = bs a,
           f_validation_data = Some (Xt, y_test a), f_epochs = 2 * epochs a,
           f_callbacks = [EarlyStopping ''val_mean_squared_error'' ''min'' (2 * patience a), ModelCheckpoint pp ''val_mean_squared_error'' ''min'' True]\<rparr>"
    and res: "res = FU_pruned (np_r2 (y_train a) (predict K sm (x_train a)))
             (np_r2 (y_test a) (predict K sm (x_test a)))
             (np_r2 (y_train a) (predict K sm2 (x_train a)))
             (np_r2 (y_test a) (predict K sm2 (x_test a)))
             (np_r2 (y_train a) (predict K sm3 X)) (np_r2 (y_test a) (predict K sm3 Xt)) h vh"
    and w': "trace w' = trace w6 @ [Fit c3, Load pp sm3]"
    by auto
  let ?W = "\<lparr>files = fs(lp \<mapsto> m3),
             trace = trace w @ [Fit c1, Fit c2, Load pb sm, Load pa sm2, Save lp m3]\<rparr>"
  have f: "files ?W lp = Some m3" by simp
  note pw = prune_rebuild_world[OF pr f]
  have tr: "trace w' = trace w @ [Fit c1, Fit c2, Load pb sm, Load pa sm2, Save lp m3, Load lp m3,
                            Fit c3, Load pp sm3]"
    using w' pw(1) by simp
  have nm: "map name (layers m3) = map name (layers (m self))"
    unfolding m3 m2 by (simp add: map_name_fit layers_compile map_name_unfreeze_all)
  show ?thesis
    apply (rule exI[of _ c1], rule exI[of _ pb], rule exI[of _ c2], rule exI[of _ pa], rule exI[of _ sm], rule exI[of _ sm2], rule exI[of _ m3], rule exI[of _ lp], rule exI[of _ ind], rule exI[of _ mp], rule exI[of _ X], rule exI[of _ Xt], rule exI[of _ c3], rule exI[of _ pp], rule exI[of _ sm3], rule exI[of _ h], rule exI[of _ vh], rule exI[of _ ?W])
    using tr nm pr pw X c3 res f by (simp add: c1 c2)
qed

lemma FU_full_prune_run:
  assumes run: "FreezeUnfreeze_train_full_dataset K self a w = Inr (res, self', w')"
    and p: "prune a"
  shows "\<exists>c1 pb m2 c2 saved lp ind mp pp X c3 W.
     trace w' = trace w @ [Fit c1, Save pb m2, Fit c2, Save lp saved, Load lp saved,
                            Save pp mp, Fit c3] \<and>
     f_model c1 = m self \<and>
     map name (layers saved) = map name (layers (m self)) \<and>
     prune_rebuild K self lp (geneNames a) W = Inr (ind, mp, W\<lparr>trace := trace W @ [Load lp saved]\<rparr>) \<and>
     files W lp = Some saved \<and>
     ind = select_genes (kernel (hd (layers saved))) \<and> length ind = 25 \<and>
     25 \<le> length (kernel (hd (layers saved))) \<and>
     take_cols (x_train a) ind = Inr X \<and>
     c3 = \<lparr>f_model = mp, f_x = X, f_y = y_train a, f_batch_size = bs a,
           f_validation_data = None, f_epochs = 2 * epochs a, f_callbacks = []\<rparr>"
proof -
  from FU_full_unfold[OF run] p obtain ind mp w5 X c3 pb pa c1 c2 m3 fs pp m2 W1 where
    pr: "prune_rebuild K self pa (geneNames a)
            \<lparr>files = fs(pa \<mapsto> m3),
             trace = trace w @ [Fit c1, Save pb m2, Fit c2, Save pa m3]\<rparr>
            = Inr (ind, mp, w5)"
    and c1: "c1 = \<lparr>f_model = m self, f_x = x_train a, f_y = y_train a, f_batch_size = bs a,
      f_validation_data = None, f_epochs = epochs a, f_callbacks = []\<rparr>"
    and m2: "m2 = compile ''mean_squared_error'' (lr self / 2) [''r2_score'', ''mse'']
         (unfreeze_all (fst (fit K w (m self) (x_train a) (y_train a) (bs a) None (epochs a) [])))"
    and m3: "m3 = fst (fit K W1 m2 (x_train a) (y_train a) (bs a) None (epochs a) [])"
    and X: "take_cols (x_train a) ind = Inr X"
    and c3: "c3 = \<lparr>f_model = mp, f_x = X, f_y = y_train a, f_batch_size = bs a,
           f_validation_data = None, f_epochs = 2 * epochs a, f_callbacks = []\<rparr>"
    and w': "trace w' = trace w5 @ [Save pp mp, Fit c3]"
    by auto
  let ?W = "\<lparr>files = fs(pa \<mapsto> m3),
             trace = trace w @ [Fit c1, Save pb m2, Fit c2, Save pa m3]\<rparr>"
  have f: "files ?W pa = Some m3" by simp
  note pw = prune_rebuild_world[OF pr f]
  have tr: "trace w' = trace w @ [Fit c1, Save pb m2, Fit c2, Save pa m3, Load pa m3,
                            Save pp mp, Fit c3]"
    using w' pw(1) by simp
  have nm: "map name (layers m3) = map name (layers (m self))"
    unfolding m3 m2 by (simp add: map_name_fit layers_compile map_name_unfreeze_all)
  show ?thesis
    apply (rule exI[of _ c1], rule exI[of _ pb], rule exI[of _ m2], rule exI[of _ c2], rule exI[of _ m3], rule exI[of _ pa], rule exI[of _ ind], rule exI[of _ mp], rule exI[of _ pp], rule exI[of _ X], rule exI[of _ c3], rule exI[of _ ?W])
    using tr nm pr pw X c3 f by (simp add: c1)
qed

lemma top25:
  assumes "ind = select_genes (kernel (hd (layers saved)))"
    and "25 \<le> length (kernel (hd (layers saved)))"
  shows "ind = select_genes (kernel (hd (layers saved))) \<and> length ind = 25 \<and> distinct ind \<and>
         set ind \<subseteq> {0..<length (kernel (hd (layers saved)))} \<and>
         (\<forall>i\<in>set ind. \<forall>j<length (kernel (hd (layers saved))). j \<notin> set ind \<longrightarrow>
            row_norm (kernel (hd (layers saved)) ! j) \<le> row_norm (kernel (hd (layers saved)) ! i))"
  using assms select_genes_props[of "kernel (hd (layers saved))"] by auto

section \<open>Runs that return\<close>

text \<open>
  When the library returns every history key the program reads and writes every
  checkpoint file the program then loads, and the inputs have the shapes the network
  expects, the train methods return.
\<close>

lemma shape_ok_trained_layer:
  "shape_ok (trained_layer out i l) (kernel (trained_layer out i l)) (bias (trained_layer out i l))"
  by (simp add: shape_ok_def trained_layer_def list_all_iff)

lemma widths_trained_layer:
  "input_width (trained_layer out i l) = input_width l" "units (trained_layer out i l) = units l"
  by (simp_all add: trained_layer_def)

lemma list_all_shape_enumerate_trained:
  "list_all (\<lambda>l. shape_ok l (kernel l) (bias l))
     (map (\<lambda>(i, l). trained_layer out i l) (enumerate k ls))"
  by (induction ls arbitrary: k) (simp_all add: shape_ok_trained_layer)

lemma shapes_fit:
  "list_all (\<lambda>l. shape_ok l (kernel l) (bias l)) (layers (fst (fit K w mdl x y b v n cbs)))"
  by (simp add: fit_def Let_def list_all_shape_enumerate_trained)

lemma map_widths_enumerate_trained:
  "map (\<lambda>l. (input_width l, units l)) (map (\<lambda>(i, l). trained_layer out i l) (enumerate k ls)) =
   map (\<lambda>l. (input_width l, units l)) ls"
  by (induction ls arbitrary: k) (simp_all add: widths_trained_layer)

lemma map_widths_fit:
  "map (\<lambda>l. (input_width l, units l)) (layers (fst (fit K w mdl x y b v n cbs))) =
   map (\<lambda>l. (input_width l, units l)) (layers mdl)"
  using map_widths_enumerate_trained[of _ 0 "layers mdl"] by (simp add: fit_def Let_def)

lemma map_widths_unfreeze_all:
  "map (\<lambda>l. (input_width l, units l)) (layers (unfreeze_all mdl)) =
   map (\<lambda>l. (input_width l, units l)) (layers mdl)"
  by (simp add: unfreeze_all_def comp_def)

lemma shape_ok_same_widths:
  "shape_ok l k b \<Longrightarrow> input_width l' = input_width l \<Longrightarrow> units l' = units l \<Longrightarrow> shape_ok l' k b"
  by (simp add: shape_ok_def)

lemma list_all_rows_taken:
  assumes "list_all (\<lambda>r. length r = n) k" and "list_all (\<lambda>i. i < length k) ind"
  shows "list_all (\<lambda>r. length r = n) (map (\<lambda>i. k ! i) ind)"
  using assms by (auto simp: list_all_iff)

lemma take_cols_total:
  assumes "list_all (\<lambda>r. list_all (\<lambda>i. i < length r) ind) x"
  shows "take_cols x ind = Inr (map (\<lambda>r. map (\<lambda>i. r ! i) ind) x)"
  using assms by (induction x) (simp_all add: np_take_def bnd_def)

lemma prune_rebuild_total:
  assumes f: "files w path = Some saved"
    and nm: "map name (layers saved) = [''W1'', ''W2'', ''bottleneck'', ''W4'', ''W5'', ''W6_regr'']"
    and sh: "list_all (\<lambda>l. shape_ok l (kernel l) (bias l)) (layers saved)"
    and wd: "map (\<lambda>l. (input_width l, units l)) (layers saved) =
       [(n, 512), (512, 128), (128, 2), (2, 128), (128, 512), (512, output_dim self)]"
    and n: "25 \<le> n" and g: "names = Some g" "n \<le> length g"
  shows "\<exists>mp. prune_rebuild K self path names w =
      Inr (select_genes (kernel (hd (layers saved))), mp,
           w\<lparr>trace := trace w @ [Load path saved]\<rparr>)"
proof -
  from nm obtain a0 a1 a2 a3 a4 a5 where
    s: "layers saved = [a0, a1, a2, a3, a4, a5]" and
    na: "name a0 = ''W1''" "name a1 = ''W2''" "name a2 = ''bottleneck''" "name a3 = ''W4''"
       "name a4 = ''W5''" "name a5 = ''W6_regr''"
    by (rule six_names)
  let ?W = "kernel a0"
  let ?ind = "select_genes ?W"
  let ?t = "Suc (length (trace w))"
  from wd have w0: "input_width a0 = n" "units a0 = 512"
    and w1: "input_width a1 = 512" "units a1 = 128"
    and w2: "input_width a2 = 128" "units a2 = 2"
    and w3: "input_width a3 = 2" "units a3 = 128"
    and w4: "input_width a4 = 128" "units a4 = 512"
    and w5: "input_width a5 = 512" "units a5 = output_dim self"
    by (simp_all add: s)
  from sh have s0: "shape_ok a0 (kernel a0) (bias a0)" and s1: "shape_ok a1 (kernel a1) (bias a1)"
    and s2: "shape_ok a2 (kernel a2) (bias a2)" and s3: "shape_ok a3 (kernel a3) (bias a3)"
    and s4: "shape_ok a4 (kernel a4) (bias a4)" and s5: "shape_ok a5 (kernel a5) (bias a5)"
    by (simp_all add: s)
  have lenW: "length ?W = n" using s0 w0 by (simp add: shape_ok_def)
  have W25: "25 \<le> length ?W" using n lenW by simp
  note sp = select_genes_props[OF W25]
  have ind_lt: "list_all (\<lambda>i. i < length ?W) ?ind"
    using sp(3) by (auto simp: list_all_iff)
  have ind_g: "list_all (\<lambda>i. i < length g) ?ind"
    using sp(3) g(2) lenW by (auto simp: list_all_iff)
  have pg: "print_genes names ?ind = Inr ()"
    using ind_g by (simp add: print_genes_def g(1) np_take_def bnd_def)
  have l2: "load_layer_by_name (layers saved)
      (new_layer K ?t 128 (act self) 512 (Some (L2 (l2 self))) (Some (L2 (l2 self))) True ''W2'')
      = Inr ((new_layer K ?t 128 (act self) 512 (Some (L2 (l2 self))) (Some (L2 (l2 self))) True
               ''W2'')\<lparr>kernel := kernel a1, bias := bias a1\<rparr>)"
    using shape_ok_same_widths[OF s1]
    by (simp add: load_layer_by_name_def s na new_layer_fields set_weights_def w1)
  have l3: "load_layer_by_name (layers saved)
      (new_layer K ?t 2 ''linear'' 128 (Some (L2 (l2 self))) (Some (L2 (l2 self))) True
         ''bottleneck'')
      = Inr ((new_layer K ?t 2 ''linear'' 128 (Some (L2 (l2 self))) (Some (L2 (l2 self))) True
               ''bottleneck'')\<lparr>kernel := kernel a2, bias := bias a2\<rparr>)"
    using shape_ok_same_widths[OF s2]
    by (simp add: load_layer_by_name_def s na new_layer_fields set_weights_def w2)
  have l4: "load_layer_by_name (layers saved)
      (new_layer K ?t 128 (act self) 2 (Some (L2 (l2 self))) (Some (L2 (l2 self))) True ''W4'')
      = Inr ((new_layer K ?t 128 (act self) 2 (Some (L2 (l2 self))) (Some (L2 (l2 self))) True
               ''W4'')\<lparr>kernel := kernel a3, bias := bias a3\<rparr>)"
    using shape_ok_same_widths[OF s3]
    by (simp add: load_layer_by_name_def s na new_layer_fields set_weights_def w3)
  have l5: "load_layer_by_name (layers saved)
      (new_layer K ?t 512 (act self) 128 (Some (L2 (l2 self))) (Some (L2 (l2 self))) True ''W5'')
      = Inr ((new_layer K ?t 512 (act self) 128 (Some (L2 (l2 self))) (Some (L2 (l2 self))) True
               ''W5'')\<lparr>kernel := kernel a4, bias := bias a4\<rparr>)"
    using shape_ok_same_widths[OF s4]
    by (simp add: load_layer_by_name_def s na new_layer_fields set_weights_def w4)
  have l6: "load_layer_by_name (layers saved)
      (new_layer K ?t (output_dim self) ''linear'' 512 (Some (L2 (l2 self))) None True ''W6_regr'')
      = Inr ((new_layer K ?t (output_dim self) ''linear'' 512 (Some (L2 (l2 self))) None True
               ''W6_regr'')\<lparr>kernel := kernel a5, bias := bias a5\<rparr>)"
    using shape_ok_same_widths[OF s5]
    by (simp add: load_layer_by_name_def s na new_layer_fields set_weights_def w5)
  have l1: "load_layer_by_name (layers saved)
      (new_layer K ?t 512 (act self) 25 (Some (Elastic (ElasticNet 0 (l2 self))))
         (Some (L2 (l2 self))) True ''W1_25'')
      = Inr (new_layer K ?t 512 (act self) 25 (Some (Elastic (ElasticNet 0 (l2 self))))
         (Some (L2 (l2 self))) True ''W1_25'')"
    by (simp add: load_layer_by_name_def s na new_layer_fields)
  have rows: "list_all (\<lambda>r. length r = 512) (map (\<lambda>i. ?W ! i) ?ind)"
    using s0 w0 ind_lt by (intro list_all_rows_taken) (simp_all add: shape_ok_def)
  have sw: "shape_ok (new_layer K ?t 512 (act self) 25 (Some (Elastic (ElasticNet 0 (l2 self))))
         (Some (L2 (l2 self))) True ''W1_25'') (map (\<lambda>i. ?W ! i) ?ind) (bias a0)"
    using rows sp(1) s0 w0 by (simp add: shape_ok_def new_layer_fields)
  show ?thesis
    unfolding prune_rebuild_def
    by (simp add: Let_def bnd_def load_model_def f first_weights_def s pg Dense_def
        Sequential_def ElasticNet_init_def new_layer_fields load_weights_def
        l1[unfolded s] l2[unfolded s] l3[unfolded s] l4[unfolded s] l5[unfolded s] l6[unfolded s]
        get_layer_def np_take_def ind_lt set_weights_def sw)
qed

lemma SR_train_prune_intro:
  assumes "prune a" and "\<not> pre_trained_weights self"
    and "p1 = format3 ''KerasSavedModels/StraightRegression_weights_'' (cvfold_id a) (l1_id a) (l2_id a)"
    and "lp = format3 ''KerasSavedModels/Regression_last_weights_'' (cvfold_id a) (l1_id a) (l2_id a)"
    and "p2 = format3 ''KerasSavedModels/StraightRegression_weights_after_pruning_'' (cvfold_id a) (l1_id a) (l2_id a)"
    and "c1 = \<lparr>f_model = m self, f_x = x_train a, f_y = y_train a, f_batch_size = bs a,
      f_validation_data = Some (x_test a, y_test a), f_epochs = 2 * epochs a,
      f_callbacks = [EarlyStopping ''val_mean_squared_error'' ''min'' (2 * patience a), ModelCheckpoint p1 ''val_mean_squared_error'' ''min'' True]\<rparr>"
    and "o1 = fit_result K (length (trace w)) c1 (files w)"
    and "fo_history o1 ''r2_score'' = Some h" and "fo_history o1 ''val_r2_score'' = Some vh"
    and "fo_files o1 p1 = Some sm"
    and "m1 = fst (fit K w (m self) (x_train a) (y_train a) (bs a) (Some (x_test a, y_test a))
      (2 * epochs a) (f_callbacks c1))"
    and "prune_rebuild K self lp (geneNames a)
            \<lparr>files = (fo_files o1)(lp \<mapsto> m1), trace = trace w @ [Fit c1, Load p1 sm, Save lp m1]\<rparr>
            = Inr (ind, mp, w4)"
    and "take_cols (x_train a) ind = Inr X" and "take_cols (x_test a) ind = Inr Xt"
    and "c2 = \<lparr>f_model = mp, f_x = X, f_y = y_train a, f_batch_size = bs a,
                f_validation_data = Some (Xt, y_test a), f_epochs = 2 * epochs a,
                f_callbacks = [EarlyStopping ''val_mean_squared_error'' ''min'' (2 * patience a), ModelCheckpoint p2 ''val_mean_squared_error'' ''min'' True]\<rparr>"
    and "o2 = fit_result K (length (trace w4)) c2 (files w4)"
    and "fo_history o2 ''r2_score'' = Some h2" and "fo_history o2 ''val_r2_score'' = Some vh2"
    and "fo_files o2 p2 = Some sm2"
  shows "\<exists>res self' w'. StraightRegression_train K self a w = Inr (res, self', w')"
  using assms
  unfolding StraightRegression_train_def Let_def
  by (simp add: Let_def fit_def bnd_def history_get_def load_model_def save_def)

lemma FU_train_prune_intro:
  assumes "prune a" and "\<not> pre_trained_weights self"
    and "pb = format3 ''KerasSavedModels/FreezeUnfreeze_weights_before_unfreezing_'' (cvfold_id a) (l1_id a) (l2_id a)"
    and "pa = format3 ''KerasSavedModels/FreezeUnfreeze_weights_after_unfreezing_'' (cvfold_id a) (l1_id a) (l2_id a)"
    and "lp = format3 ''KerasSavedModels/FreezeUnfreeze_last_weights_'' (cvfold_id a) (l1_id a) (l2_id a)"
    and "pp = format3 ''KerasSavedModels/FreezeUnfreeze_weights_after_unfreezing_and_pruning_'' (cvfold_id a) (l1_id a) (l2_id a)"
    and "c1 = \<lparr>f_model = m self, f_x = x_train a, f_y = y_train a, f_batch_size = bs a,
      f_validation_data = Some (x_test a, y_test a), f_epochs = epochs a,
      f_callbacks = [EarlyStopping ''val_mean_squared_error'' ''min'' (patience a), ModelCheckpoint pb ''val_mean_squared_error'' ''min'' True]\<rparr>"
    and "o1 = fit_result K (length (trace w)) c1 (files w)"
    and "fo_history o1 ''r2_score'' = Some h1" and "fo_history o1 ''val_r2_score'' = Some vh1"
    and "m1 = fst (fit K w (m self) (x_train a) (y_train a) (bs a) (Some (x_test a, y_test a))
      (epochs a) (f_callbacks c1))"
    and "m2 = compile ''mean_squared_error'' (lr self / 2) [''r2_score'', ''mse''] (unfreeze_all m1)"
    and "c2 = \<lparr>f_model = m2, f_x = x_train a, f_y = y_train a, f_batch_size = bs a,
      f_validation_data = Some (x_test a, y_test a), f_epochs = epochs a,
      f_callbacks = [EarlyStopping ''val_mean_squared_error'' ''min'' (patience a), ModelCheckpoint pa ''val_mean_squared_error'' ''min'' True]\<rparr>"
    and "o2 = fit_result K (Suc (length (trace w))) c2 (fo_files o1)"
    and "fo_history o2 ''r2_score'' = Some h2" and "fo_history o2 ''val_r2_score'' = Some vh2"
    and "fo_files o2 pb = Some sm" and "fo_files o2 pa = Some sm2"
    and "m3 = fst (fit K \<lparr>files = fo_files o1, trace = trace w @ [Fit c1]\<rparr> m2 (x_train a)
      (y_train a) (bs a) (Some (x_test a, y_test a)) (epochs a) (f_callbacks c2))"
    and "prune_rebuild K self lp (geneNames a)
            \<lparr>files = (fo_files o2)(lp \<mapsto> m3),
             trace = trace w @ [Fit c1, Fit c2, Load pb sm, Load pa sm2, Save lp m3]\<rparr>
            = Inr (ind, mp, w6)"
    and "take_cols (x_train a) ind = Inr X" and "take_cols (x_test a) ind = Inr Xt"
    and "c3 = \<lparr>f_model = mp, f_x = X, f_y = y_train a, f_batch_size = bs a,
                f_validation_data = Some (Xt, y_test a), f_epochs = 2 * epochs a,
                f_callbacks = [EarlyStopping ''val_mean_squared_error'' ''min'' (2 * patience a), ModelCheckpoint pp ''val_mean_squared_error'' ''min'' True]\<rparr>"
    and "o3 = fit_result K (length (trace w6)) c3 (files w6)"
    and "fo_history o3 ''r2_score'' = Some h3" and "fo_history o3 ''val_r2_score'' = Some vh3"
    and "fo_files o3 pp = Some sm3"
  shows "\<exists>res self' w'. FreezeUnfreeze_train K self a w = Inr (res, self', w')"
  using assms
  unfolding FreezeUnfreeze_train_def Let_def
  by (simp add: Let_def fit_def bnd_def history_get_def load_model_def save_def)

lemma FU_full_intro:
  assumes "pb = format3 ''KerasSavedModels/FreezeUnfreeze_before_unfreezing_full_dataset_'' (cvfold_id a) (l1_id a) (l2_id a)"
    and "pa = format3 ''KerasSavedModels/FreezeUnfreeze_after_unfreezing_full_dataset_'' (cvfold_id a) (l1_id a) (l2_id a)"
    and "pp = format3 ''KerasSavedModels/FreezeUnfreeze_after_unfreezing_ap_full_dataset_'' (cvfold_id a) (l1_id a) (l2_id a)"
    and "c1 = \<lparr>f_model = m self, f_x = x_train a, f_y = y_train a, f_batch_size = bs a,
      f_validation_data = None, f_epochs = epochs a, f_callbacks = []\<rparr>"
    and "o1 = fit_result K (length (trace w)) c1 (files w)"
    and "fo_history o1 ''r2_score'' = Some h1"
    and "m1 = fst (fit K w (m self) (x_train a) (y_train a) (bs a) None (epochs a) [])"
    and "m2 = compile ''mean_squared_error'' (lr self / 2) [''r2_score'', ''mse''] (unfreeze_all m1)"
    and "c2 = \<lparr>f_model = m2, f_x = x_train a, f_y = y_train a, f_batch_size = bs a,
      f_validation_data = None, f_epochs = epochs a, f_callbacks = []\<rparr>"
    and "o2 = fit_result K (Suc (Suc (length (trace w)))) c2 ((fo_files o1)(pb \<mapsto> m2))"
    and "fo_history o2 ''r2_score'' = Some h2"
    and "m3 = fst (fit K \<lparr>files = (fo_files o1)(pb \<mapsto> m2),
                             trace = trace w @ [Fit c1, Save pb m2]\<rparr> m2 (x_train a)
      (y_train a) (bs a) None (epochs a) [])"
    and "prune a \<Longrightarrow> prune_rebuild K self pa (geneNames a)
            \<lparr>files = (fo_files o2)(pa \<mapsto> m3),
             trace = trace w @ [Fit c1, Save pb m2, Fit c2, Save pa m3]\<rparr>
            = Inr (ind, mp, w5)"
    and "prune a \<Longrightarrow> take_cols (x_train a) ind = Inr X"
    and "c3 = \<lparr>f_model = mp, f_x = X, f_y = y_train a, f_batch_size = bs a,
                f_validation_data = None, f_epochs = 2 * epochs a, f_callbacks = []\<rparr>"
    and "prune a \<Longrightarrow> fo_history (fit_result K (Suc (length (trace w5))) c3 ((files w5)(pp \<mapsto> mp)))
            ''r2_score'' = Some h3"
  shows "\<exists>res self' w'. FreezeUnfreeze_train_full_dataset K self a w = Inr (res, self', w')"
  using assms
  unfolding FreezeUnfreeze_train_full_dataset_def Let_def
  by (cases "prune a")
     (simp_all add: Let_def fit_def bnd_def history_get_def load_model_def save_def)

lemma first_kernel_rows:
  assumes "list_all (\<lambda>l. shape_ok l (kernel l) (bias l)) (layers mdl)"
    and "map (\<lambda>l. (input_width l, units l)) (layers mdl) = (n, u) # rest"
  shows "length (kernel (hd (layers mdl))) = n"
  using assms by (cases "layers mdl") (auto simp: shape_ok_def)

lemma cols_in_range:
  assumes "list_all (\<lambda>r. n \<le> length r) x" and "set ind \<subseteq> {0..<n}"
  shows "list_all (\<lambda>r. list_all (\<lambda>i. i < length r) ind) x"
  using assms by (fastforce simp: list_all_iff)

lemma SR_prune_total:
  assumes H: "\<And>t c fs. \<exists>h vh. fo_history (fit_result K t c fs) ''r2_score'' = Some h \<and>
                 fo_history (fit_result K t c fs) ''val_r2_score'' = Some vh"
    and F: "\<And>t c fs p. p \<in> set (checkpoint_files (f_callbacks c)) \<Longrightarrow>
                 \<exists>sm. fo_files (fit_result K t c fs) p = Some sm"
    and np: "\<not> pre_trained_weights self"
    and nm: "map name (layers (m self)) = [''W1'', ''W2'', ''bottleneck'', ''W4'', ''W5'', ''W6_regr'']"
    and wd: "map (\<lambda>l. (input_width l, units l)) (layers (m self)) = [(n, 512), (512, 128), (128, 2), (2, 128), (128, 512), (512, output_dim self)]"
    and n: "25 \<le> n" and g: "geneNames a = Some g" "n \<le> length g"
    and x: "list_all (\<lambda>r. n \<le> length r) (x_train a)" "list_all (\<lambda>r. n \<le> length r) (x_test a)"
    and p: "prune a"
  shows "\<exists>res self' w'. StraightRegression_train K self a w = Inr (res, self', w')"
proof -
  define p1 where "p1 = format3 ''KerasSavedModels/StraightRegression_weights_'' (cvfold_id a) (l1_id a) (l2_id a)"
  define lp where "lp = format3 ''KerasSavedModels/Regression_last_weights_'' (cvfold_id a) (l1_id a) (l2_id a)"
  define p2 where "p2 = format3 ''KerasSavedModels/StraightRegression_weights_after_pruning_'' (cvfold_id a) (l1_id a) (l2_id a)"
  define c1 where "c1 = \<lparr>f_model = m self, f_x = x_train a, f_y = y_train a, f_batch_size = bs a,
      f_validation_data = Some (x_test a, y_test a), f_epochs = 2 * epochs a,
      f_callbacks = [EarlyStopping ''val_mean_squared_error'' ''min'' (2 * patience a), ModelCheckpoint p1 ''val_mean_squared_error'' ''min'' True]\<rparr>"
  define o1 where "o1 = fit_result K (length (trace w)) c1 (files w)"
  define m1 where "m1 = fst (fit K w (m self) (x_train a) (y_train a) (bs a)
      (Some (x_test a, y_test a)) (2 * epochs a) (f_callbacks c1))"
  from H[of "length (trace w)" c1 "files w"] obtain h vh where
    h: "fo_history o1 ''r2_score'' = Some h" and vh: "fo_history o1 ''val_r2_score'' = Some vh"
    unfolding o1_def by blast
  from F[of p1 c1 "length (trace w)" "files w"] obtain sm where
    sm: "fo_files o1 p1 = Some sm"
    unfolding o1_def by (auto simp: c1_def)
  let ?W = "\<lparr>files = (fo_files o1)(lp \<mapsto> m1), trace = trace w @ [Fit c1, Load p1 sm, Save lp m1]\<rparr>"
  have sh: "list_all (\<lambda>l. shape_ok l (kernel l) (bias l)) (layers m1)"
    unfolding m1_def by (rule shapes_fit)
  have wd1: "map (\<lambda>l. (input_width l, units l)) (layers m1) = [(n, 512), (512, 128), (128, 2), (2, 128), (128, 512), (512, output_dim self)]"
    unfolding m1_def by (simp add: map_widths_fit wd)
  have nm1: "map name (layers m1) = [''W1'', ''W2'', ''bottleneck'', ''W4'', ''W5'', ''W6_regr'']"
    unfolding m1_def by (simp add: map_name_fit nm)
  have "\<exists>mp. prune_rebuild K self lp (geneNames a) ?W =
      Inr (select_genes (kernel (hd (layers m1))), mp, ?W\<lparr>trace := trace ?W @ [Load lp m1]\<rparr>)"
    by (rule prune_rebuild_total[where n = n and g = g]) (simp_all add: nm1 sh wd1 n g)
  then obtain mp where
    pr: "prune_rebuild K self lp (geneNames a) ?W =
      Inr (select_genes (kernel (hd (layers m1))), mp, ?W\<lparr>trace := trace ?W @ [Load lp m1]\<rparr>)"
    by blast
  have rows: "length (kernel (hd (layers m1))) = n"
    by (rule first_kernel_rows[OF sh wd1])
  have ind: "set (select_genes (kernel (hd (layers m1)))) \<subseteq> {0..<n}"
    using select_genes_props(3)[of "kernel (hd (layers m1))"] n rows by simp
  note X = take_cols_total[OF cols_in_range[OF x(1) ind]]
  note Xt = take_cols_total[OF cols_in_range[OF x(2) ind]]
  define c2 where "c2 = \<lparr>f_model = mp,
      f_x = map (\<lambda>r. map (\<lambda>i. r ! i) (select_genes (kernel (hd (layers m1))))) (x_train a),
      f_y = y_train a, f_batch_size = bs a,
      f_validation_data = Some (map (\<lambda>r. map (\<lambda>i. r ! i) (select_genes (kernel (hd (layers m1)))))
                                  (x_test a), y_test a),
      f_epochs = 2 * epochs a,
      f_callbacks = [EarlyStopping ''val_mean_squared_error'' ''min'' (2 * patience a), ModelCheckpoint p2 ''val_mean_squared_error'' ''min'' True]\<rparr>"
  define o2 where "o2 = fit_result K (length (trace (?W\<lparr>trace := trace ?W @ [Load lp m1]\<rparr>))) c2
      (files (?W\<lparr>trace := trace ?W @ [Load lp m1]\<rparr>))"
  from H[of _ c2] obtain h2 vh2 where
    h2: "fo_history o2 ''r2_score'' = Some h2" and vh2: "fo_history o2 ''val_r2_score'' = Some vh2"
    unfolding o2_def by blast
  from F[of p2 c2] obtain sm2 where
    sm2: "fo_files o2 p2 = Some sm2"
    unfolding o2_def by (auto simp: c2_def)
  show ?thesis
    by (rule SR_train_prune_intro[OF p np p1_def lp_def p2_def c1_def o1_def h vh sm m1_def pr
          X Xt c2_def o2_def h2 vh2 sm2])
qed

lemma FU_prune_total:
  assumes H: "\<And>t c fs. \<exists>h vh. fo_history (fit_result K t c fs) ''r2_score'' = Some h \<and>
                 fo_history (fit_result K t c fs) ''val_r2_score'' = Some vh"
    and F: "\<And>t c fs p. p \<in> set (checkpoint_files (f_callbacks c)) \<Longrightarrow>
                 \<exists>sm. fo_files (fit_result K t c fs) p = Some sm"
    and P: "\<And>t c fs p sm. fs p = Some sm \<Longrightarrow> \<exists>sm'. fo_files (fit_result K t c fs) p = Some sm'"
    and np: "\<not> pre_trained_weights self"
    and nm: "map name (layers (m self)) = [''W1'', ''W2'', ''bottleneck'', ''W4'', ''W5'', ''W6_regr'']"
    and wd: "map (\<lambda>l. (input_width l, units l)) (layers (m self)) = [(n, 512), (512, 128), (128, 2), (2, 128), (128, 512), (512, output_dim self)]"
    and n: "25 \<le> n" and g: "geneNames a = Some g" "n \<le> length g"
    and x: "list_all (\<lambda>r. n \<le> length r) (x_train a)" "list_all (\<lambda>r. n \<le> length r) (x_test a)"
    and p: "prune a"
  shows "\<exists>res self' w'. FreezeUnfreeze_train K self a w = Inr (res, self', w')"
proof -
  define pb where "pb = format3 ''KerasSavedModels/FreezeUnfreeze_weights_before_unfreezing_'' (cvfold_id a) (l1_id a) (l2_id a)"
  define pa where "pa = format3 ''KerasSavedModels/FreezeUnfreeze_weights_after_unfreezing_'' (cvfold_id a) (l1_id a) (l2_id a)"
  define lp where "lp = format3 ''KerasSavedModels/FreezeUnfreeze_last_weights_'' (cvfold_id a) (l1_id a) (l2_id a)"
  define pp where "pp = format3 ''KerasSavedModels/FreezeUnfreeze_weights_after_unfreezing_and_pruning_'' (cvfold_id a) (l1_id a) (l2_id a)"
  define c1 where "c1 = \<lparr>f_model = m self, f_x = x_train a, f_y = y_train a, f_batch_size = bs a,
      f_validation_data = Some (x_test a, y_test a), f_epochs = epochs a,
      f_callbacks = [EarlyStopping ''val_mean_squared_error'' ''min'' (patience a), ModelCheckpoint pb ''val_mean_squared_error'' ''min'' True]\<rparr>"
  define o1 where "o1 = fit_result K (length (trace w)) c1 (files w)"
  define m1 where "m1 = fst (fit K w (m self) (x_train a) (y_train a) (bs a)
      (Some (x_test a, y_test a)) (epochs a) (f_callbacks c1))"
  define m2 where
    "m2 = compile ''mean_squared_error'' (lr self / 2) [''r2_score'', ''mse''] (unfreeze_all m1)"
  define c2 where "c2 = \<lparr>f_model = m2, f_x = x_train a, f_y = y_train a, f_batch_size = bs a,
      f_validation_data = Some (x_test a, y_test a), f_epochs = epochs a,
      f_callbacks = [EarlyStopping ''val_mean_squared_error'' ''min'' (patience a), ModelCheckpoint pa ''val_mean_squared_error'' ''min'' True]\<rparr>"
  define o2 where "o2 = fit_result K (Suc (length (trace w))) c2 (fo_files o1)"
  define m3 where "m3 = fst (fit K \<lparr>files = fo_files o1, trace = trace w @ [Fit c1]\<rparr> m2 (x_train a)
      (y_train a) (bs a) (Some (x_test a, y_test a)) (epochs a) (f_callbacks c2))"
  from H[of "length (trace w)" c1 "files w"] obtain h1 vh1 where
    h1: "fo_history o1 ''r2_score'' = Some h1" and vh1: "fo_history o1 ''val_r2_score'' = Some vh1"
    unfolding o1_def by blast
  from H[of "Suc (length (trace w))" c2 "fo_files o1"] obtain h2 vh2 where
    h2: "fo_history o2 ''r2_score'' = Some h2" and vh2: "fo_history o2 ''val_r2_score'' = Some vh2"
    unfolding o2_def by blast
  from F[of pb c1 "length (trace w)" "files w"] obtain sm0 where
    sm0: "fo_files o1 pb = Some sm0"
    unfolding o1_def by (auto simp: c1_def)
  from P[of "fo_files o1" pb sm0 "Suc (length (trace w))" c2, OF sm0] obtain sm where
    sm: "fo_files o2 pb = Some sm"
    unfolding o2_def by blast
  from F[of pa c2 "Suc (length (trace w))" "fo_files o1"] obtain sm2 where
    sm2: "fo_files o2 pa = Some sm2"
    unfolding o2_def by (auto simp: c2_def)
  let ?W = "\<lparr>files = (fo_files o2)(lp \<mapsto> m3),
             trace = trace w @ [Fit c1, Fit c2, Load pb sm, Load pa sm2, Save lp m3]\<rparr>"
  have sh: "list_all (\<lambda>l. shape_ok l (kernel l) (bias l)) (layers m3)"
    unfolding m3_def by (rule shapes_fit)
  have wd1: "map (\<lambda>l. (input_width l, units l)) (layers m3) = [(n, 512), (512, 128), (128, 2), (2, 128), (128, 512), (512, output_dim self)]"
    unfolding m3_def m2_def m1_def
    by (simp add: map_widths_fit layers_compile map_widths_unfreeze_all wd)
  have nm1: "map name (layers m3) = [''W1'', ''W2'', ''bottleneck'', ''W4'', ''W5'', ''W6_regr'']"
    unfolding m3_def m2_def m1_def
    by (simp add: map_name_fit layers_compile map_name_unfreeze_all nm)
  have "\<exists>mp. prune_rebuild K self lp (geneNames a) ?W =
      Inr (select_genes (kernel (hd (layers m3))), mp, ?W\<lparr>trace := trace ?W @ [Load lp m3]\<rparr>)"
    by (rule prune_rebuild_total[where n = n and g = g]) (simp_all add: nm1 sh wd1 n g)
  then obtain mp where
    pr: "prune_rebuild K self lp (geneNames a) ?W =
      Inr (select_genes (kernel (hd (layers m3))), mp, ?W\<lparr>trace := trace ?W @ [Load lp m3]\<rparr>)"
    by blast
  have rows: "length (kernel (hd (layers m3))) = n"
    by (rule first_kernel_rows[OF sh wd1])
  have ind: "set (select_genes (kernel (hd (layers m3)))) \<subseteq> {0..<n}"
    using select_genes_props(3)[of "kernel (hd (layers m3))"] n rows by simp
  note X = take_cols_total[OF cols_in_range[OF x(1) ind]]
  note Xt = take_cols_total[OF cols_in_range[OF x(2) ind]]
  define c3 where "c3 = \<lparr>f_model = mp,
      f_x = map (\<lambda>r. map (\<lambda>i. r ! i) (select_genes (kernel (hd (layers m3))))) (x_train a),
      f_y = y_train a, f_batch_size = bs a,
      f_validation_data = Some (map (\<lambda>r. map (\<lambda>i. r ! i) (select_genes (kernel (hd (layers m3)))))
                                  (x_test a), y_test a),
      f_epochs = 2 * epochs a,
      f_callbacks = [EarlyStopping ''val_mean_squared_error'' ''min'' (2 * patience a), ModelCheckpoint pp ''val_mean_squared_error'' ''min'' True]\<rparr>"
  define o3 where "o3 = fit_result K (length (trace (?W\<lparr>trace := trace ?W @ [Load lp m3]\<rparr>))) c3
      (files (?W\<lparr>trace := trace ?W @ [Load lp m3]\<rparr>))"
  from H[of _ c3] obtain h3 vh3 where
    h3: "fo_history o3 ''r2_score'' = Some h3" and vh3: "fo_history o3 ''val_r2_score'' = Some vh3"
    unfolding o3_def by blast
  from F[of pp c3] obtain sm3 where
    sm3: "fo_files o3 pp = Some sm3"
    unfolding o3_def by (auto simp: c3_def)
  show ?thesis
    by (rule FU_train_prune_intro[OF p np pb_def pa_def lp_def pp_def c1_def o1_def h1 vh1 m1_def
          m2_def c2_def o2_def h2 vh2 sm sm2 m3_def pr X Xt c3_def o3_def h3 vh3 sm3])
qed

lemma FU_full_prune_total:
  assumes H: "\<And>t c fs. \<exists>h. fo_history (fit_result K t c fs) ''r2_score'' = Some h"
    and nm: "map name (layers (m self)) = [''W1'', ''W2'', ''bottleneck'', ''W4'', ''W5'', ''W6_regr'']"
    and wd: "map (\<lambda>l. (input_width l, units l)) (layers (m self)) = [(n, 512), (512, 128), (128, 2), (2, 128), (128, 512), (512, output_dim self)]"
    and n: "25 \<le> n" and g: "geneNames a = Some g" "n \<le> length g"
    and x: "list_all (\<lambda>r. n \<le> length r) (x_train a)"
    and p: "prune a"
  shows "\<exists>res self' w'. FreezeUnfreeze_train_full_dataset K self a w = Inr (res, self', w')"
proof -
  define pb where "pb = format3 ''KerasSavedModels/FreezeUnfreeze_before_unfreezing_full_dataset_'' (cvfold_id a) (l1_id a) (l2_id a)"
  define pa where "pa = format3 ''KerasSavedModels/FreezeUnfreeze_after_unfreezing_full_dataset_'' (cvfold_id a) (l1_id a) (l2_id a)"
  define pp where "pp = format3 ''KerasSavedModels/FreezeUnfreeze_after_unfreezing_ap_full_dataset_'' (cvfold_id a) (l1_id a) (l2_id a)"
  define c1 where "c1 = \<lparr>f_model = m self, f_x = x_train a, f_y = y_train a, f_batch_size = bs a,
      f_validation_data = None, f_epochs = epochs a, f_callbacks = []\<rparr>"
  define o1 where "o1 = fit_result K (length (trace w)) c1 (files w)"
  define m1 where "m1 = fst (fit K w (m self) (x_train a) (y_train a) (bs a) None (epochs a) [])"
  define m2 where
    "m2 = compile ''mean_squared_error'' (lr self / 2) [''r2_score'', ''mse''] (unfreeze_all m1)"
  define c2 where "c2 = \<lparr>f_model = m2, f_x = x_train a, f_y = y_train a, f_batch_size = bs a,
      f_validation_data = None, f_epochs = epochs a, f_callbacks = []\<rparr>"
  define o2 where "o2 = fit_result K (Suc (Suc (length (trace w)))) c2 ((fo_files o1)(pb \<mapsto> m2))"
  define m3 where "m3 = fst (fit K \<lparr>files = (fo_files o1)(pb \<mapsto> m2),
                             trace = trace w @ [Fit c1, Save pb m2]\<rparr> m2 (x_train a)
      (y_train a) (bs a) None (epochs a) [])"
  from H[of "length (trace w)" c1 "files w"] obtain h1 where
    h1: "fo_history o1 ''r2_score'' = Some h1"
    unfolding o1_def by blast
  from H[of _ c2] obtain h2 where
    h2: "fo_history o2 ''r2_score'' = Some h2"
    unfolding o2_def by blast
  let ?W = "\<lparr>files = (fo_files o2)(pa \<mapsto> m3),
             trace = trace w @ [Fit c1, Save pb m2, Fit c2, Save pa m3]\<rparr>"
  have sh: "list_all (\<lambda>l. shape_ok l (kernel l) (bias l)) (layers m3)"
    unfolding m3_def by (rule shapes_fit)
  have wd1: "map (\<lambda>l. (input_width l, units l)) (layers m3) = [(n, 512), (512, 128), (128, 2), (2, 128), (128, 512), (512, output_dim self)]"
    unfolding m3_def m2_def m1_def
    by (simp add: map_widths_fit layers_compile map_widths_unfreeze_all wd)
  have nm1: "map name (layers m3) = [''W1'', ''W2'', ''bottleneck'', ''W4'', ''W5'', ''W6_regr'']"
    unfolding m3_def m2_def m1_def
    by (simp add: map_name_fit layers_compile map_name_unfreeze_all nm)
  have "\<exists>mp. prune_rebuild K self pa (geneNames a) ?W =
      Inr (select_genes (kernel (hd (layers m3))), mp, ?W\<lparr>trace := trace ?W @ [Load pa m3]\<rparr>)"
    by (rule prune_rebuild_total[where n = n and g = g]) (simp_all add: nm1 sh wd1 n g)
  then obtain mp where
    pr: "prune_rebuild K self pa (geneNames a) ?W =
      Inr (select_genes (kernel (hd (layers m3))), mp, ?W\<lparr>trace := trace ?W @ [Load pa m3]\<rparr>)"
    by blast
  have rows: "length (kernel (hd (layers m3))) = n"
    by (rule first_kernel_rows[OF sh wd1])
  have ind: "set (select_genes (kernel (hd (layers m3)))) \<subseteq> {0..<n}"
    using select_genes_props(3)[of "kernel (hd (layers m3))"] n rows by simp
  note X = take_cols_total[OF cols_in_range[OF x(1) ind]]
  define c3 where "c3 = \<lparr>f_model = mp,
      f_x = map (\<lambda>r. map (\<lambda>i. r ! i) (select_genes (kernel (hd (layers m3))))) (x_train a),
      f_y = y_train a, f_batch_size = bs a,
      f_validation_data = None, f_epochs = 2 * epochs a, f_callbacks = []\<rparr>"
  from H[of _ c3] obtain h3 where
    h3: "fo_history (fit_result K (Suc (length (trace (?W\<lparr>trace := trace ?W @ [Load pa m3]\<rparr>)))) c3
           ((files (?W\<lparr>trace := trace ?W @ [Load pa m3]\<rparr>))(pp \<mapsto> mp))) ''r2_score'' = Some h3"
    by blast
  show ?thesis
    by (rule FU_full_intro[OF pb_def pa_def pp_def c1_def o1_def h1 m1_def m2_def c2_def o2_def h2
          m3_def pr X c3_def h3])
qed

lemma FU_full_plain_total:
  assumes H: "\<And>t c fs. \<exists>h. fo_history (fit_result K t c fs) ''r2_score'' = Some h"
    and p: "\<not> prune a"
  shows "\<exists>res self' w'. FreezeUnfreeze_train_full_dataset K self a w = Inr (res, self', w')"
proof -
  define pb where "pb = format3 ''KerasSavedModels/FreezeUnfreeze_before_unfreezing_full_dataset_'' (cvfold_id a) (l1_id a) (l2_id a)"
  define pa where "pa = format3 ''KerasSavedModels/FreezeUnfreeze_after_unfreezing_full_dataset_'' (cvfold_id a) (l1_id a) (l2_id a)"
  define pp where "pp = format3 ''KerasSavedModels/FreezeUnfreeze_after_unfreezing_ap_full_dataset_'' (cvfold_id a) (l1_id a) (l2_id a)"
  define c1 where "c1 = \<lparr>f_model = m self, f_x = x_train a, f_y = y_train a, f_batch_size = bs a,
      f_validation_data = None, f_epochs = epochs a, f_callbacks = []\<rparr>"
  define o1 where "o1 = fit_result K (length (trace w)) c1 (files w)"
  define m1 where "m1 = fst (fit K w (m self) (x_train a) (y_train a) (bs a) None (epochs a) [])"
  define m2 where
    "m2 = compile ''mean_squared_error'' (lr self / 2) [''r2_score'', ''mse''] (unfreeze_all m1)"
  define c2 where "c2 = \<lparr>f_model = m2, f_x = x_train a, f_y = y_train a, f_batch_size = bs a,
      f_validation_data = None, f_epochs = epochs a, f_callbacks = []\<rparr>"
  define o2 where "o2 = fit_result K (Suc (Suc (length (trace w)))) c2 ((fo_files o1)(pb \<mapsto> m2))"
  define m3 where "m3 = fst (fit K \<lparr>files = (fo_files o1)(pb \<mapsto> m2),
                             trace = trace w @ [Fit c1, Save pb m2]\<rparr> m2 (x_train a)
      (y_train a) (bs a) None (epochs a) [])"
  define c3 where "c3 = \<lparr>f_model = m3, f_x = x_train a, f_y = y_train a, f_batch_size = bs a,
      f_validation_data = None, f_epochs = 2 * epochs a, f_callbacks = []\<rparr>"
  from H[of "length (trace w)" c1 "files w"] obtain h1 where
    h1: "fo_history o1 ''r2_score'' = Some h1"
    unfolding o1_def by blast
  from H[of _ c2] obtain h2 where
    h2: "fo_history o2 ''r2_score'' = Some h2"
    unfolding o2_def by blast
  show ?thesis
    by (rule FU_full_intro[OF pb_def pa_def pp_def c1_def o1_def h1 m1_def m2_def c2_def o2_def h2
          m3_def _ _ c3_def])
       (simp_all add: p)
qed

lemma SR_init_fresh:
  "\<exists>self. StraightRegression_init K w l1' l2' lr' act' i out False h5 = Inr self \<and>
     \<not> pre_trained_weights self \<and> output_dim self = out \<and>
     map name (layers (m self)) = [''W1'', ''W2'', ''bottleneck'', ''W4'', ''W5'', ''W6_regr''] \<and>
     map (\<lambda>l. (input_width l, units l)) (layers (m self)) =
       [(i, 512), (512, 128), (128, 2), (2, 128), (128, 512), (512, out)]"
  by (simp add: StraightRegression_init_def Let_def Dense_def Sequential_def
      ElasticNet_init_def new_layer_fields bnd_def compile_def)

lemma FU_init_fresh:
  assumes "6 \<le> length u"
  shows "\<exists>self. FreezeUnfreeze_init K w l1' l2' lr' act' i out u False h5 = Inr self \<and>
     \<not> pre_trained_weights self \<and> output_dim self = out \<and>
     map name (layers (m self)) = [''W1'', ''W2'', ''bottleneck'', ''W4'', ''W5'', ''W6_regr''] \<and>
     map (\<lambda>l. (input_width l, units l)) (layers (m self)) =
       [(i, 512), (512, 128), (128, 2), (2, 128), (128, 512), (512, out)]"
  using assms
  by (auto simp: FreezeUnfreeze_init_def Let_def Dense_def Sequential_def
      ElasticNet_init_def new_layer_fields bnd_def compile_def py_index_def)

lemma demo_history: "fo_history (fit_result demo_keras t c fs) k = Some [1]"
  by (simp add: demo_keras_def)

lemma demo_files:
  "fo_files (fit_result demo_keras t c fs) p =
     (if p \<in> set (checkpoint_files (f_callbacks c)) then Some (f_model c) else fs p)"
  by (simp add: demo_keras_def)

lemma demo_H:
  "\<exists>h vh. fo_history (fit_result demo_keras t c fs) ''r2_score'' = Some h \<and>
          fo_history (fit_result demo_keras t c fs) ''val_r2_score'' = Some vh"
  by (simp add: demo_history)

lemma demo_H1: "\<exists>h. fo_history (fit_result demo_keras t c fs) ''r2_score'' = Some h"
  by (simp add: demo_history)

lemma demo_F:
  "p \<in> set (checkpoint_files (f_callbacks c)) \<Longrightarrow>
     \<exists>sm. fo_files (fit_result demo_keras t c fs) p = Some sm"
  by (simp add: demo_files)

lemma demo_P:
  "fs p = Some sm \<Longrightarrow> \<exists>sm'. fo_files (fit_result demo_keras t c fs) p = Some sm'"
  by (simp add: demo_files)

lemma load_layers_by_name_total:
  assumes "list_all (\<lambda>l. case find (\<lambda>s. name s = name l) saved of
                            None \<Rightarrow> True
                          | Some s \<Rightarrow> shape_ok l (kernel s) (bias s)) ls"
  shows "\<exists>ls'. load_layers_by_name saved ls = Inr ls'"
  using assms
proof (induction ls)
  case Nil
  show ?case by simp
next
  case (Cons l ls)
  then obtain ls' where "load_layers_by_name saved ls = Inr ls'" by auto
  moreover from Cons.prems have "\<exists>l'. load_layer_by_name saved l = Inr l'"
    by (auto simp: load_layer_by_name_def set_weights_def split: option.splits)
  ultimately show ?case by (auto simp: bnd_def)
qed

lemma load_weights_total:
  assumes "files w p = Some saved"
    and "list_all (\<lambda>l. case find (\<lambda>s. name s = name l) (layers saved) of
                            None \<Rightarrow> True
                          | Some s \<Rightarrow> shape_ok l (kernel s) (bias s)) (layers mdl)"
  shows "\<exists>m'. load_weights (Some p) w mdl = Inr m'"
  using load_layers_by_name_total[OF assms(2)] assms(1)
  by (auto simp: load_weights_def bnd_def)

lemma shape_ok_new_layer:
  "shape_ok (new_layer K t n a wd kr br tr nm)
     (kernel (new_layer K' t' n a' wd kr' br' tr' nm'))
     (bias (new_layer K' t' n a' wd kr' br' tr' nm'))"
  by (simp add: shape_ok_def new_layer_def list_all_iff)

lemma SR_init_pretrained_total:
  assumes "files w p = Some (m (ClassificationPreTrain_init K0 w0 a0 b0 c0 act0 i out0))"
  shows "\<exists>self. StraightRegression_init K w l1' l2' lr' act' i out True (Some p) = Inr self"
proof -
  let ?m6 = "\<lparr>layers =
     [new_layer K (length (trace w)) 512 act' i (Some (Elastic (ElasticNet l1' l2')))
        (Some (L2 l2')) True ''W1'',
      new_layer K (length (trace w)) 128 act' 512 (Some (L2 l2')) (Some (L2 l2')) True ''W2'',
      new_layer K (length (trace w)) 2 ''linear'' 128 (Some (L2 l2')) (Some (L2 l2')) True
        ''bottleneck'',
      new_layer K (length (trace w)) 128 act' 2 (Some (L2 l2')) (Some (L2 l2')) True ''W4'',
      new_layer K (length (trace w)) 512 act' 128 (Some (L2 l2')) (Some (L2 l2')) True ''W5'',
      new_layer K (length (trace w)) out ''linear'' 512 (Some (L2 l2')) None True ''W6_regr''],
     compiled = None\<rparr>"
  have "\<exists>m'. load_weights (Some p) w ?m6 = Inr m'"
    by (rule load_weights_total[OF assms])
       (simp add: CPT_init_layers new_layer_fields shape_ok_new_layer)
  then show ?thesis
    by (auto simp: StraightRegression_init_def Let_def Dense_def Sequential_def
        ElasticNet_init_def new_layer_fields bnd_def)
qed

lemma FU_init_pretrained_total:
  assumes "files w p = Some (m (ClassificationPreTrain_init K0 w0 a0 b0 c0 act0 i out0))"
    and "6 \<le> length u"
  shows "\<exists>self. FreezeUnfreeze_init K w l1' l2' lr' act' i out u True (Some p) = Inr self"
proof -
  let ?m6 = "\<lparr>layers =
     [new_layer K (length (trace w)) 512 act' i (Some (Elastic (ElasticNet l1' l2')))
        (Some (L2 l2')) (u ! 0) ''W1'',
      new_layer K (length (trace w)) 128 act' 512 (Some (L2 l2')) (Some (L2 l2')) (u ! 1) ''W2'',
      new_layer K (length (trace w)) 2 ''linear'' 128 (Some (L2 l2')) (Some (L2 l2')) (u ! 2)
        ''bottleneck'',
      new_layer K (length (trace w)) 128 act' 2 (Some (L2 l2')) (Some (L2 l2')) (u ! 3) ''W4'',
      new_layer K (length (trace w)) 512 act' 128 (Some (L2 l2')) (Some (L2 l2')) (u ! 4) ''W5'',
      new_layer K (length (trace w)) out ''linear'' 512 (Some (L2 l2')) None (u ! 5) ''W6_regr''],
     compiled = None\<rparr>"
  have "\<exists>m'. load_weights (Some p) w ?m6 = Inr m'"
    by (rule load_weights_total[OF assms(1)])
       (simp add: CPT_init_layers new_layer_fields shape_ok_new_layer)
  then show ?thesis
    using assms(2)
    by (auto simp: FreezeUnfreeze_init_def Let_def Dense_def Sequential_def
        ElasticNet_init_def new_layer_fields bnd_def py_index_def)
qed

lemma demo_CPT_run:
  "\<exists>res self' w'. ClassificationPreTrain_train demo_keras self x ct xt ctt n b pat cv i1 i2 w =
     Inr (res, self', w')"
  by (simp add: ClassificationPreTrain_train_def Let_def fit_def bnd_def load_model_def
      history_get_def py_index_def demo_keras_def)

lemma transplant_of_rebuild:
  assumes pr: "prune_rebuild K self lp names W = Inr (ind, mp, W')"
    and f: "files W lp = Some saved"
    and nm: "map name (layers saved) = [''W1'', ''W2'', ''bottleneck'', ''W4'', ''W5'', ''W6_regr'']"
  shows "map name (layers (mp)) = [''W1_25'', ''W2'', ''bottleneck'', ''W4'', ''W5'', ''W6_regr''] \<and>
         kernel (layers (mp) ! 0) =
           map (\<lambda>i. kernel (layers saved ! 0) ! i)
             (select_genes (kernel (layers saved ! 0))) \<and>
         bias (layers (mp) ! 0) = bias (layers saved ! 0) \<and>
         map (\<lambda>l. (name l, kernel l, bias l)) (tl (layers (mp))) =
           map (\<lambda>l. (name l, kernel l, bias l)) (tl (layers saved))"
proof -
  have "\<And>saved'. files W lp = Some saved' \<Longrightarrow> map name (layers saved') = [''W1'', ''W2'', ''bottleneck'', ''W4'', ''W5'', ''W6_regr'']"
    using f nm by simp
  from prune_rebuild_transplant[OF pr this] f show ?thesis by auto
qed

lemma demo_SR_returns:
  "\<exists>self res self' w'.
     StraightRegression_init demo_keras demo_world 0 1 1 ''relu'' 26 1 False None = Inr self \<and>
     map name (layers (m self)) = [''W1'', ''W2'', ''bottleneck'', ''W4'', ''W5'', ''W6_regr''] \<and>
     StraightRegression_train demo_keras self (demo_args True) demo_world = Inr (res, self', w')"
proof -
  from SR_init_fresh[of demo_keras demo_world 0 1 1 "''relu''" 26 1 None] obtain self where
    init: "StraightRegression_init demo_keras demo_world 0 1 1 ''relu'' 26 1 False None = Inr self"
    and np: "\<not> pre_trained_weights self" and od: "output_dim self = 1"
    and nm: "map name (layers (m self)) = [''W1'', ''W2'', ''bottleneck'', ''W4'', ''W5'', ''W6_regr'']"
    and wd: "map (\<lambda>l. (input_width l, units l)) (layers (m self)) =
       [(26, 512), (512, 128), (128, 2), (2, 128), (128, 512), (512, 1)]"
    by (elim exE conjE)
  have "\<exists>res self' w'.
      StraightRegression_train demo_keras self (demo_args True) demo_world = Inr (res, self', w')"
    by (rule SR_prune_total[where n = 26 and g = "map (\<lambda>i. ''gene'') [0..<26::nat]", OF demo_H demo_F np nm])
       (simp_all add: wd od demo_args_def)
  then obtain res self' w' where
    run: "StraightRegression_train demo_keras self (demo_args True) demo_world =
      Inr (res, self', w')"
    by (elim exE)
  show ?thesis
    by (intro exI conjI) (fact init nm run)+
qed

lemma demo_FU_returns:
  "\<exists>self res self' w' r dself dw r0 d0 dw0.
     FreezeUnfreeze_init demo_keras demo_world 0 1 1 ''relu'' 26 1
       [False, False, False, False, False, True] False None = Inr self \<and>
     map name (layers (m self)) = [''W1'', ''W2'', ''bottleneck'', ''W4'', ''W5'', ''W6_regr''] \<and>
     FreezeUnfreeze_train demo_keras self (demo_args True) demo_world = Inr (res, self', w') \<and>
     FreezeUnfreeze_train_full_dataset demo_keras self (demo_full_args True) demo_world =
       Inr (r, dself, dw) \<and>
     FreezeUnfreeze_train_full_dataset demo_keras self (demo_full_args False) demo_world =
       Inr (r0, d0, dw0)"
proof -
  have u: "6 \<le> length [False, False, False, False, False, True]" by simp
  from FU_init_fresh[OF u, of demo_keras demo_world 0 1 1 "''relu''" 26 1 None]
  obtain self where
    init: "FreezeUnfreeze_init demo_keras demo_world 0 1 1 ''relu'' 26 1
       [False, False, False, False, False, True] False None = Inr self"
    and np: "\<not> pre_trained_weights self" and od: "output_dim self = 1"
    and nm: "map name (layers (m self)) = [''W1'', ''W2'', ''bottleneck'', ''W4'', ''W5'', ''W6_regr'']"
    and wd: "map (\<lambda>l. (input_width l, units l)) (layers (m self)) =
       [(26, 512), (512, 128), (128, 2), (2, 128), (128, 512), (512, 1)]"
    by (elim exE conjE)
  have 1: "\<exists>res self' w'.
      FreezeUnfreeze_train demo_keras self (demo_args True) demo_world = Inr (res, self', w')"
    by (rule FU_prune_total[where n = 26 and g = "map (\<lambda>i. ''gene'') [0..<26::nat]", OF demo_H demo_F demo_P np nm])
       (simp_all add: wd od demo_args_def)
  have 2: "\<exists>r dself dw.
      FreezeUnfreeze_train_full_dataset demo_keras self (demo_full_args True) demo_world =
        Inr (r, dself, dw)"
    by (rule FU_full_prune_total[where n = 26 and g = "map (\<lambda>i. ''gene'') [0..<26::nat]", OF demo_H1 nm])
       (simp_all add: wd od demo_full_args_def)
  have 3: "\<exists>r0 d0 dw0.
      FreezeUnfreeze_train_full_dataset demo_keras self (demo_full_args False) demo_world =
        Inr (r0, d0, dw0)"
    by (rule FU_full_plain_total[OF demo_H1]) (simp add: demo_full_args_def)
  from 1 obtain res self' w' where
    r1: "FreezeUnfreeze_train demo_keras self (demo_args True) demo_world = Inr (res, self', w')"
    by (elim exE)
  from 2 obtain r dself dw where
    r2: "FreezeUnfreeze_train_full_dataset demo_keras self (demo_full_args True) demo_world =
        Inr (r, dself, dw)"
    by (elim exE)
  from 3 obtain r0 d0 dw0 where
    r3: "FreezeUnfreeze_train_full_dataset demo_keras self (demo_full_args False) demo_world =
        Inr (r0, d0, dw0)"
    by (elim exE)
  show ?thesis
    by (intro exI conjI) (fact init nm r1 r2 r3)+
qed

lemma demo_rebuild_returns:
  "\<exists>self ind mp w'.
     StraightRegression_init demo_keras demo_world 0 1 1 ''relu'' 26 1 False None = Inr self \<and>
     prune_rebuild demo_keras self ''last.h5'' (geneNames (demo_args True)) (demo_saved (m self)) =
       Inr (ind, mp, w')"
proof -
  from SR_init_fresh[of demo_keras demo_world 0 1 1 "''relu''" 26 1 None] obtain self where
    init: "StraightRegression_init demo_keras demo_world 0 1 1 ''relu'' 26 1 False None = Inr self"
    and od: "output_dim self = 1"
    and nm: "map name (layers (m self)) = [''W1'', ''W2'', ''bottleneck'', ''W4'', ''W5'', ''W6_regr'']"
    and wd: "map (\<lambda>l. (input_width l, units l)) (layers (m self)) =
       [(26, 512), (512, 128), (128, 2), (2, 128), (128, 512), (512, 1)]"
    by (elim exE conjE)
  let ?S = "fst (fit demo_keras demo_world (m self) [] [] 1 None 1 [])"
  have "\<exists>mp. prune_rebuild demo_keras self ''last.h5'' (geneNames (demo_args True))
           (demo_saved (m self)) =
      Inr (select_genes (kernel (hd (layers ?S))), mp,
           (demo_saved (m self))\<lparr>trace := trace (demo_saved (m self)) @ [Load ''last.h5'' ?S]\<rparr>)"
    by (rule prune_rebuild_total[where n = 26 and g = "map (\<lambda>i. ''gene'') [0..<26::nat]"])
       (simp_all add: demo_saved_def map_name_fit shapes_fit map_widths_fit nm wd od
          demo_args_def)
  then obtain mp where
    rb: "prune_rebuild demo_keras self ''last.h5'' (geneNames (demo_args True))
           (demo_saved (m self)) =
      Inr (select_genes (kernel (hd (layers ?S))), mp,
           (demo_saved (m self))\<lparr>trace := trace (demo_saved (m self)) @ [Load ''last.h5'' ?S]\<rparr>)"
    by (elim exE)
  show ?thesis
    by (intro exI conjI) (fact init rb)+
qed

lemma demo_pretrained_returns:
  "\<exists>self fself.
     StraightRegression_init demo_keras demo_pretrained 0 1 1 ''relu'' 26 1 True
       (Some ''pretrained.h5'') = Inr self \<and>
     FreezeUnfreeze_init demo_keras demo_pretrained 0 1 1 ''relu'' 26 1
       [False, False, False, False, False, True] True (Some ''pretrained.h5'') = Inr fself"
proof -
  have f: "files demo_pretrained ''pretrained.h5'' =
      Some (m (ClassificationPreTrain_init demo_keras demo_world 0 1 1 ''relu'' 26 3))"
    by (simp add: demo_pretrained_def)
  from SR_init_pretrained_total[OF f, of demo_keras 0 1 1 "''relu''" 1] obtain self where
    a: "StraightRegression_init demo_keras demo_pretrained 0 1 1 ''relu'' 26 1 True
       (Some ''pretrained.h5'') = Inr self"
    by (elim exE)
  have u: "6 \<le> length [False, False, False, False, False, True]" by simp
  from FU_init_pretrained_total[OF f u, of demo_keras 0 1 1 "''relu''" 1]
  obtain fself where
    b: "FreezeUnfreeze_init demo_keras demo_pretrained 0 1 1 ''relu'' 26 1
       [False, False, False, False, False, True] True (Some ''pretrained.h5'') = Inr fself"
    by (elim exE)
  show ?thesis
    by (intro exI conjI) (fact a b)+
qed

lemma demo_CPT_returns:
  "\<exists>CE_train CE_test ch cvh self' w'.
     ClassificationPreTrain_train demo_keras self x ct xt ctt n b pat cv i1 i2 w =
       Inr ((CE_train, CE_test, ch, cvh), self', w')"
  by (simp add: ClassificationPreTrain_train_def Let_def fit_def bnd_def load_model_def
      history_get_def py_index_def demo_keras_def)

section \<open>The claims\<close>



text \<open>
  C1.  The selection \<open>argsort(norm(weight, axis=1))[-25:]\<close> of a kernel of at least 25 rows
  is a list of 25 distinct row indices, and no row left out has a larger L2 norm than a
  row that is kept.  In every run with pruning that returns (\<open>StraightRegression.train\<close>,
  \<open>FreezeUnfreeze.train\<close> and \<open>FreezeUnfreeze.train_full_dataset\<close> with \<open>prune=True\<close>) the
  selection is made on the first-layer kernel of the model read back from the file that
  was just saved, and the last call of \<open>fit\<close> gets the training matrix restricted to
  exactly the selected columns, and the test matrix restricted to the same columns as its
  validation data where the method validates.
\<close>

theorem pruning_keeps_25_largest_rows:
  "(25 \<le> length weight \<longrightarrow>
      length (select_genes weight) = 25 \<and> distinct (select_genes weight) \<and>
      set (select_genes weight) \<subseteq> {0..<length weight} \<and>
      (\<forall>i\<in>set (select_genes weight). \<forall>j<length weight. j \<notin> set (select_genes weight) \<longrightarrow>
         row_norm (weight ! j) \<le> row_norm (weight ! i))) \<and>
   (StraightRegression_train K self a w = Inr (res, self', w') \<and> prune a \<longrightarrow>
      (\<exists>c1 p1 sm lp saved ind c2 p2 sm2 Xt.
         trace w' = trace w @ [Fit c1, Load p1 sm, Save lp saved, Load lp saved, Fit c2,
                                Load p2 sm2] \<and>
         ind = select_genes (kernel (hd (layers saved))) \<and> length ind = 25 \<and> distinct ind \<and>
         set ind \<subseteq> {0..<length (kernel (hd (layers saved)))} \<and>
         (\<forall>i\<in>set ind. \<forall>j<length (kernel (hd (layers saved))). j \<notin> set ind \<longrightarrow>
            row_norm (kernel (hd (layers saved)) ! j) \<le> row_norm (kernel (hd (layers saved)) ! i)) \<and>
         take_cols (x_train a) ind = Inr (f_x c2) \<and> f_y c2 = y_train a \<and>
         take_cols (x_test a) ind = Inr Xt \<and> f_validation_data c2 = Some (Xt, y_test a))) \<and>
   (FreezeUnfreeze_train K fself a w = Inr (fres, fself', fw') \<and> prune a \<longrightarrow>
      (\<exists>c1 c2 pb sm pa sm2 lp saved ind c3 pp sm3 Xt.
         trace fw' = trace w @ [Fit c1, Fit c2, Load pb sm, Load pa sm2, Save lp saved,
                                 Load lp saved, Fit c3, Load pp sm3] \<and>
         ind = select_genes (kernel (hd (layers saved))) \<and> length ind = 25 \<and> distinct ind \<and>
         set ind \<subseteq> {0..<length (kernel (hd (layers saved)))} \<and>
         (\<forall>i\<in>set ind. \<forall>j<length (kernel (hd (layers saved))). j \<notin> set ind \<longrightarrow>
            row_norm (kernel (hd (layers saved)) ! j) \<le> row_norm (kernel (hd (layers saved)) ! i)) \<and>
         take_cols (x_train a) ind = Inr (f_x c3) \<and> f_y c3 = y_train a \<and>
         take_cols (x_test a) ind = Inr Xt \<and> f_validation_data c3 = Some (Xt, y_test a))) \<and>
   (FreezeUnfreeze_train_full_dataset K fself fa w = Inr (r, dself', dw') \<and> prune fa \<longrightarrow>
      (\<exists>c1 pb m2 c2 lp saved ind pp mp c3.
         trace dw' = trace w @ [Fit c1, Save pb m2, Fit c2, Save lp saved, Load lp saved,
                                 Save pp mp, Fit c3] \<and>
         ind = select_genes (kernel (hd (layers saved))) \<and> length ind = 25 \<and> distinct ind \<and>
         set ind \<subseteq> {0..<length (kernel (hd (layers saved)))} \<and>
         (\<forall>i\<in>set ind. \<forall>j<length (kernel (hd (layers saved))). j \<notin> set ind \<longrightarrow>
            row_norm (kernel (hd (layers saved)) ! j) \<le> row_norm (kernel (hd (layers saved)) ! i)) \<and>
         take_cols (x_train fa) ind = Inr (f_x c3) \<and> f_y c3 = y_train fa \<and>
         f_validation_data c3 = None))"
proof (intro conjI impI)
  assume "25 \<le> length weight"
  from select_genes_props[OF this]
  show "length (select_genes weight) = 25" "distinct (select_genes weight)"
    "set (select_genes weight) \<subseteq> {0..<length weight}"
    "\<forall>i\<in>set (select_genes weight). \<forall>j<length weight. j \<notin> set (select_genes weight) \<longrightarrow>
         row_norm (weight ! j) \<le> row_norm (weight ! i)"
    by auto
next
  assume "StraightRegression_train K self a w = Inr (res, self', w') \<and> prune a"
  then have run: "StraightRegression_train K self a w = Inr (res, self', w')" and p: "prune a"
    by simp_all
  from SR_prune_run[OF run p] obtain c1 p1 sm saved lp ind X Xt c2 p2 sm2 where
    tr: "trace w' = trace w @ [Fit c1, Load p1 sm, Save lp saved, Load lp saved, Fit c2,
                                Load p2 sm2]"
    and ind: "ind = select_genes (kernel (hd (layers saved)))"
    and len: "25 \<le> length (kernel (hd (layers saved)))"
    and X: "take_cols (x_train a) ind = Inr X" "take_cols (x_test a) ind = Inr Xt"
    and c2: "f_x c2 = X" "f_y c2 = y_train a" "f_validation_data c2 = Some (Xt, y_test a)"
    by auto
  show "\<exists>c1 p1 sm lp saved ind c2 p2 sm2 Xt.
         trace w' = trace w @ [Fit c1, Load p1 sm, Save lp saved, Load lp saved, Fit c2,
                                Load p2 sm2] \<and>
         ind = select_genes (kernel (hd (layers saved))) \<and> length ind = 25 \<and> distinct ind \<and>
         set ind \<subseteq> {0..<length (kernel (hd (layers saved)))} \<and>
         (\<forall>i\<in>set ind. \<forall>j<length (kernel (hd (layers saved))). j \<notin> set ind \<longrightarrow>
            row_norm (kernel (hd (layers saved)) ! j) \<le> row_norm (kernel (hd (layers saved)) ! i)) \<and>
         take_cols (x_train a) ind = Inr (f_x c2) \<and> f_y c2 = y_train a \<and>
         take_cols (x_test a) ind = Inr Xt \<and> f_validation_data c2 = Some (Xt, y_test a)"
    apply (rule exI[of _ c1], rule exI[of _ p1], rule exI[of _ sm], rule exI[of _ lp],
        rule exI[of _ saved], rule exI[of _ ind], rule exI[of _ c2], rule exI[of _ p2],
        rule exI[of _ sm2], rule exI[of _ Xt])
    using tr top25[OF ind len] X c2 by (elim conjE, intro conjI) simp_all
next
  assume "FreezeUnfreeze_train K fself a w = Inr (fres, fself', fw') \<and> prune a"
  then have run: "FreezeUnfreeze_train K fself a w = Inr (fres, fself', fw')" and p: "prune a"
    by simp_all
  from FU_prune_run[OF run p] obtain c1 c2 pb sm pa sm2 lp saved ind X Xt c3 pp sm3 where
    tr: "trace fw' = trace w @ [Fit c1, Fit c2, Load pb sm, Load pa sm2, Save lp saved,
                                 Load lp saved, Fit c3, Load pp sm3]"
    and ind: "ind = select_genes (kernel (hd (layers saved)))"
    and len: "25 \<le> length (kernel (hd (layers saved)))"
    and X: "take_cols (x_train a) ind = Inr X" "take_cols (x_test a) ind = Inr Xt"
    and c3: "f_x c3 = X" "f_y c3 = y_train a" "f_validation_data c3 = Some (Xt, y_test a)"
    by auto
  show "\<exists>c1 c2 pb sm pa sm2 lp saved ind c3 pp sm3 Xt.
         trace fw' = trace w @ [Fit c1, Fit c2, Load pb sm, Load pa sm2, Save lp saved,
                                 Load lp saved, Fit c3, Load pp sm3] \<and>
         ind = select_genes (kernel (hd (layers saved))) \<and> length ind = 25 \<and> distinct ind \<and>
         set ind \<subseteq> {0..<length (kernel (hd (layers saved)))} \<and>
         (\<forall>i\<in>set ind. \<forall>j<length (kernel (hd (layers saved))). j \<notin> set ind \<longrightarrow>
            row_norm (kernel (hd (layers saved)) ! j) \<le> row_norm (kernel (hd (layers saved)) ! i)) \<and>
         take_cols (x_train a) ind = Inr (f_x c3) \<and> f_y c3 = y_train a \<and>
         take_cols (x_test a) ind = Inr Xt \<and> f_validation_data c3 = Some (Xt, y_test a)"
    apply (rule exI[of _ c1], rule exI[of _ c2], rule exI[of _ pb], rule exI[of _ sm],
        rule exI[of _ pa], rule exI[of _ sm2], rule exI[of _ lp],
        rule exI[of _ saved], rule exI[of _ ind], rule exI[of _ c3], rule exI[of _ pp],
        rule exI[of _ sm3], rule exI[of _ Xt])
    using tr top25[OF ind len] X c3 by (elim conjE, intro conjI) simp_all
next
  assume "FreezeUnfreeze_train_full_dataset K fself fa w = Inr (r, dself', dw') \<and> prune fa"
  then have run: "FreezeUnfreeze_train_full_dataset K fself fa w = Inr (r, dself', dw')"
    and p: "prune fa" by simp_all
  from FU_full_prune_run[OF run p] obtain c1 pb m2 c2 lp saved ind pp mp X c3 where
    tr: "trace dw' = trace w @ [Fit c1, Save pb m2, Fit c2, Save lp saved, Load lp saved,
                                 Save pp mp, Fit c3]"
    and ind: "ind = select_genes (kernel (hd (layers saved)))"
    and len: "25 \<le> length (kernel (hd (layers saved)))"
    and X: "take_cols (x_train fa) ind = Inr X"
    and c3: "f_x c3 = X" "f_y c3 = y_train fa" "f_validation_data c3 = None"
    by auto
  show "\<exists>c1 pb m2 c2 lp saved ind pp mp c3.
         trace dw' = trace w @ [Fit c1, Save pb m2, Fit c2, Save lp saved, Load lp saved,
                                 Save pp mp, Fit c3] \<and>
         ind = select_genes (kernel (hd (layers saved))) \<and> length ind = 25 \<and> distinct ind \<and>
         set ind \<subseteq> {0..<length (kernel (hd (layers saved)))} \<and>
         (\<forall>i\<in>set ind. \<forall>j<length (kernel (hd (layers saved))). j \<notin> set ind \<longrightarrow>
            row_norm (kernel (hd (layers saved)) ! j) \<le> row_norm (kernel (hd (layers saved)) ! i)) \<and>
         take_cols (x_train fa) ind = Inr (f_x c3) \<and> f_y c3 = y_train fa \<and>
         f_validation_data c3 = None"
    apply (rule exI[of _ c1], rule exI[of _ pb], rule exI[of _ m2], rule exI[of _ c2],
        rule exI[of _ lp], rule exI[of _ saved], rule exI[of _ ind], rule exI[of _ pp],
        rule exI[of _ mp], rule exI[of _ c3])
    using tr top25[OF ind len] X c3 by (elim conjE, intro conjI) simp_all
qed

theorem pruning_keeps_25_largest_rows_witness:
  "\<exists>self res self' w' fself fres fself' fw' r dself' dw'.
     (25 \<le> length (map (\<lambda>i. [real i]) [0..<26])) \<and>
     (length (select_genes (map (\<lambda>i. [real i]) [0..<26])) = 25 \<and> distinct (select_genes (map (\<lambda>i. [real i]) [0..<26])) \<and>
      set (select_genes (map (\<lambda>i. [real i]) [0..<26])) \<subseteq> {0..<length (map (\<lambda>i. [real i]) [0..<26])} \<and>
      (\<forall>i\<in>set (select_genes (map (\<lambda>i. [real i]) [0..<26])). \<forall>j<length (map (\<lambda>i. [real i]) [0..<26]). j \<notin> set (select_genes (map (\<lambda>i. [real i]) [0..<26])) \<longrightarrow>
      row_norm ((map (\<lambda>i. [real i]) [0..<26]) ! j) \<le> row_norm ((map (\<lambda>i. [real i]) [0..<26]) ! i))) \<and>
     (StraightRegression_init demo_keras demo_world 0 1 1 ''relu'' 26 1 False None = Inr self) \<and>
     (StraightRegression_train demo_keras self (demo_args True) demo_world = Inr (res, self', w') \<and> prune (demo_args True)) \<and>
     ((\<exists>c1 p1 sm lp saved ind c2 p2 sm2 Xt.
      trace w' = trace demo_world @ [Fit c1, Load p1 sm, Save lp saved, Load lp saved, Fit c2,
      Load p2 sm2] \<and>
      ind = select_genes (kernel (hd (layers saved))) \<and> length ind = 25 \<and> distinct ind \<and>
      set ind \<subseteq> {0..<length (kernel (hd (layers saved)))} \<and>
      (\<forall>i\<in>set ind. \<forall>j<length (kernel (hd (layers saved))). j \<notin> set ind \<longrightarrow>
      row_norm (kernel (hd (layers saved)) ! j) \<le> row_norm (kernel (hd (layers saved)) ! i)) \<and>
      take_cols (x_train (demo_args True)) ind = Inr (f_x c2) \<and> f_y c2 = y_train (demo_args True) \<and>
      take_cols (x_test (demo_args True)) ind = Inr Xt \<and> f_validation_data c2 = Some (Xt, y_test (demo_args True)))) \<and>
     (FreezeUnfreeze_init demo_keras demo_world 0 1 1 ''relu'' 26 1
      [False, False, False, False, False, True] False None = Inr fself) \<and>
     (FreezeUnfreeze_train demo_keras fself (demo_args True) demo_world = Inr (fres, fself', fw') \<and> prune (demo_args True)) \<and>
     ((\<exists>c1 c2 pb sm pa sm2 lp saved ind c3 pp sm3 Xt.
      trace fw' = trace demo_world @ [Fit c1, Fit c2, Load pb sm, Load pa sm2, Save lp saved,
      Load lp saved, Fit c3, Load pp sm3] \<and>
      ind = select_genes (kernel (hd (layers saved))) \<and> length ind = 25 \<and> distinct ind \<and>
      set ind \<subseteq> {0..<length (kernel (hd (layers saved)))} \<and>
      (\<forall>i\<in>set ind. \<forall>j<length (kernel (hd (layers saved))). j \<notin> set ind \<longrightarrow>
      row_norm (kernel (hd (layers saved)) ! j) \<le> row_norm (kernel (hd (layers saved)) ! i)) \<and>
      take_cols (x_train (demo_args True)) ind = Inr (f_x c3) \<and> f_y c3 = y_train (demo_args True) \<and>
      take_cols (x_test (demo_args True)) ind = Inr Xt \<and> f_validation_data c3 = Some (Xt, y_test (demo_args True)))) \<and>
     (FreezeUnfreeze_train_full_dataset demo_keras fself (demo_full_args True) demo_world = Inr (r, dself', dw') \<and> prune (demo_full_args True)) \<and>
     ((\<exists>c1 pb m2 c2 lp saved ind pp mp c3.
      trace dw' = trace demo_world @ [Fit c1, Save pb m2, Fit c2, Save lp saved, Load lp saved,
      Save pp mp, Fit c3] \<and>
      ind = select_genes (kernel (hd (layers saved))) \<and> length ind = 25 \<and> distinct ind \<and>
      set ind \<subseteq> {0..<length (kernel (hd (layers saved)))} \<and>
      (\<forall>i\<in>set ind. \<forall>j<length (kernel (hd (layers saved))). j \<notin> set ind \<longrightarrow>
      row_norm (kernel (hd (layers saved)) ! j) \<le> row_norm (kernel (hd (layers saved)) ! i)) \<and>
      take_cols (x_train (demo_full_args True)) ind = Inr (f_x c3) \<and> f_y c3 = y_train (demo_full_args True) \<and>
      f_validation_data c3 = None))"
proof -
  from demo_SR_returns obtain self res self' w' where
    init: "StraightRegression_init demo_keras demo_world 0 1 1 ''relu'' 26 1 False None = Inr self"
    and nm: "map name (layers (m self)) = [''W1'', ''W2'', ''bottleneck'', ''W4'', ''W5'', ''W6_regr'']"
    and run: "StraightRegression_train demo_keras self (demo_args True) demo_world =
      Inr (res, self', w')"
    by (elim exE conjE)
  from demo_FU_returns obtain fself fres fself' fw' r dself' dw' r0 d0 dw0 where
    finit: "FreezeUnfreeze_init demo_keras demo_world 0 1 1 ''relu'' 26 1
       [False, False, False, False, False, True] False None = Inr fself"
    and fnm: "map name (layers (m fself)) = [''W1'', ''W2'', ''bottleneck'', ''W4'', ''W5'', ''W6_regr'']"
    and frun: "FreezeUnfreeze_train demo_keras fself (demo_args True) demo_world =
      Inr (fres, fself', fw')"
    and drun: "FreezeUnfreeze_train_full_dataset demo_keras fself (demo_full_args True) demo_world =
      Inr (r, dself', dw')"
    and drun0: "FreezeUnfreeze_train_full_dataset demo_keras fself (demo_full_args False)
      demo_world = Inr (r0, d0, dw0)"
    by (elim exE conjE)
  have pr: "prune (demo_args True)" by (simp add: demo_args_def)
  have fpr: "prune (demo_full_args True)" by (simp add: demo_full_args_def)
  have len: "25 \<le> length (map (\<lambda>i. [real i]) [0..<26])" by simp
  note c0 = pruning_keeps_25_largest_rows[THEN conjunct1, THEN mp, OF len]
  note c1 = pruning_keeps_25_largest_rows[THEN conjunct2, THEN conjunct1, THEN mp,
      OF conjI[OF run pr]]
  note c2 = pruning_keeps_25_largest_rows[THEN conjunct2, THEN conjunct2, THEN conjunct1,
      THEN mp, OF conjI[OF frun pr]]
  note c3 = pruning_keeps_25_largest_rows[THEN conjunct2, THEN conjunct2, THEN conjunct2,
      THEN mp, OF conjI[OF drun fpr]]
  show ?thesis
    apply (rule exI[of _ self], rule exI[of _ res], rule exI[of _ "self'"], rule exI[of _ "w'"], rule exI[of _ fself], rule exI[of _ fres], rule exI[of _ "fself'"], rule exI[of _ "fw'"], rule exI[of _ r], rule exI[of _ "dself'"], rule exI[of _ "dw'"])
    apply (rule conjI[OF len conjI[OF c0 conjI[OF init conjI[OF conjI[OF run pr] conjI[OF c1 conjI[OF finit conjI[OF conjI[OF frun pr] conjI[OF c2 conjI[OF conjI[OF drun fpr] c3]]]]]]]]])
    done
qed

text \<open>
  C3.  When the file of pretrained weights holds the layers \<open>W1\<close>, \<open>W2\<close>, \<open>bottleneck\<close>,
  \<open>W4\<close>, \<open>W5\<close> and \<open>W6_class\<close>, a \<open>StraightRegression\<close> or \<open>FreezeUnfreeze\<close> constructed with
  \<open>pre_trained_weights=True\<close> has the kernels and biases of the file in its first five
  layers, its last layer \<open>W6_regr\<close> is the freshly initialised layer, and the model is
  compiled (mean squared error, the learning rate given, metrics \<open>r2_score\<close> and \<open>mse\<close>)
  after the weights are loaded.
\<close>

theorem pretrained_weights_loaded_by_name:
  assumes saved: "files w p = Some saved"
    and names: "map name (layers saved) =
       [''W1'', ''W2'', ''bottleneck'', ''W4'', ''W5'', ''W6_class'']"
  shows "(StraightRegression_init K w l1' l2' lr' act' i out True (Some p) = Inr self \<longrightarrow>
      map name (layers (m self)) =
        [''W1'', ''W2'', ''bottleneck'', ''W4'', ''W5'', ''W6_regr''] \<and>
      map (\<lambda>l. (kernel l, bias l)) (take 5 (layers (m self))) =
        map (\<lambda>l. (kernel l, bias l)) (take 5 (layers saved)) \<and>
      layers (m self) ! 5 =
        new_layer K (length (trace w)) out ''linear'' 512 (Some (L2 l2')) None True ''W6_regr'' \<and>
      compiled (m self) = Some \<lparr>loss = ''mean_squared_error'', optimizer_lr = lr',
                                 metrics = [''r2_score'', ''mse'']\<rparr>) \<and>
   (FreezeUnfreeze_init K w l1' l2' lr' act' i out u True (Some p) = Inr fself \<longrightarrow>
      map name (layers (m fself)) =
        [''W1'', ''W2'', ''bottleneck'', ''W4'', ''W5'', ''W6_regr''] \<and>
      map (\<lambda>l. (kernel l, bias l)) (take 5 (layers (m fself))) =
        map (\<lambda>l. (kernel l, bias l)) (take 5 (layers saved)) \<and>
      layers (m fself) ! 5 =
        new_layer K (length (trace w)) out ''linear'' 512 (Some (L2 l2')) None (u ! 5)
          ''W6_regr'' \<and>
      compiled (m fself) = Some \<lparr>loss = ''mean_squared_error'', optimizer_lr = lr',
                                  metrics = [''r2_score'', ''mse'']\<rparr>)"
proof (intro conjI impI)
  assume "StraightRegression_init K w l1' l2' lr' act' i out True (Some p) = Inr self"
  from SR_init_unfold[OF this] saved obtain ls where
    lw: "load_layers_by_name (layers saved)
           [new_layer K (length (trace w)) 512 act' i (Some (Elastic (ElasticNet l1' l2')))
              (Some (L2 l2')) True ''W1'',
            new_layer K (length (trace w)) 128 act' 512 (Some (L2 l2')) (Some (L2 l2')) True ''W2'',
            new_layer K (length (trace w)) 2 ''linear'' 128 (Some (L2 l2')) (Some (L2 l2')) True
              ''bottleneck'',
            new_layer K (length (trace w)) 128 act' 2 (Some (L2 l2')) (Some (L2 l2')) True ''W4'',
            new_layer K (length (trace w)) 512 act' 128 (Some (L2 l2')) (Some (L2 l2')) True ''W5'',
            new_layer K (length (trace w)) out ''linear'' 512 (Some (L2 l2')) None True
              ''W6_regr''] = Inr ls"
    and self: "m self = compile ''mean_squared_error'' lr' [''r2_score'', ''mse'']
                 \<lparr>layers = ls, compiled = None\<rparr>"
    by (auto simp: load_weights_Inr_iff)
  have nm: "map name ls = [''W1'', ''W2'', ''bottleneck'', ''W4'', ''W5'', ''W6_regr'']"
    using load_layers_by_name_fields[OF lw] by (auto simp: map_eq_Cons_conv new_layer_fields)
  note pl = pretrained_layers[OF lw names]
  show "map name (layers (m self)) =
        [''W1'', ''W2'', ''bottleneck'', ''W4'', ''W5'', ''W6_regr'']"
    by (simp add: self compile_def nm)
  show "map (\<lambda>l. (kernel l, bias l)) (take 5 (layers (m self))) =
        map (\<lambda>l. (kernel l, bias l)) (take 5 (layers saved))"
    using pl by (simp add: self compile_def new_layer_fields)
  show "layers (m self) ! 5 =
        new_layer K (length (trace w)) out ''linear'' 512 (Some (L2 l2')) None True ''W6_regr''"
    using pl by (simp add: self compile_def new_layer_fields)
  show "compiled (m self) = Some \<lparr>loss = ''mean_squared_error'', optimizer_lr = lr',
                                 metrics = [''r2_score'', ''mse'']\<rparr>"
    by (simp add: self compile_def)
next
  assume "FreezeUnfreeze_init K w l1' l2' lr' act' i out u True (Some p) = Inr fself"
  from FU_init_unfold[OF this] saved obtain ls where
    lw: "load_layers_by_name (layers saved)
           [new_layer K (length (trace w)) 512 act' i (Some (Elastic (ElasticNet l1' l2')))
              (Some (L2 l2')) (u ! 0) ''W1'',
            new_layer K (length (trace w)) 128 act' 512 (Some (L2 l2')) (Some (L2 l2')) (u ! 1)
              ''W2'',
            new_layer K (length (trace w)) 2 ''linear'' 128 (Some (L2 l2')) (Some (L2 l2'))
              (u ! 2) ''bottleneck'',
            new_layer K (length (trace w)) 128 act' 2 (Some (L2 l2')) (Some (L2 l2')) (u ! 3)
              ''W4'',
            new_layer K (length (trace w)) 512 act' 128 (Some (L2 l2')) (Some (L2 l2')) (u ! 4)
              ''W5'',
            new_layer K (length (trace w)) out ''linear'' 512 (Some (L2 l2')) None (u ! 5)
              ''W6_regr''] = Inr ls"
    and self: "m fself = compile ''mean_squared_error'' lr' [''r2_score'', ''mse'']
                 \<lparr>layers = ls, compiled = None\<rparr>"
    by (auto simp: load_weights_Inr_iff)
  have nm: "map name ls = [''W1'', ''W2'', ''bottleneck'', ''W4'', ''W5'', ''W6_regr'']"
    using load_layers_by_name_fields[OF lw] by (auto simp: map_eq_Cons_conv new_layer_fields)
  note pl = pretrained_layers[OF lw names]
  show "map name (layers (m fself)) =
        [''W1'', ''W2'', ''bottleneck'', ''W4'', ''W5'', ''W6_regr'']"
    by (simp add: self compile_def nm)
  show "map (\<lambda>l. (kernel l, bias l)) (take 5 (layers (m fself))) =
        map (\<lambda>l. (kernel l, bias l)) (take 5 (layers saved))"
    using pl by (simp add: self compile_def new_layer_fields)
  show "layers (m fself) ! 5 =
        new_layer K (length (trace w)) out ''linear'' 512 (Some (L2 l2')) None (u ! 5)
          ''W6_regr''"
    using pl by (simp add: self compile_def new_layer_fields)
  show "compiled (m fself) = Some \<lparr>loss = ''mean_squared_error'', optimizer_lr = lr',
                                  metrics = [''r2_score'', ''mse'']\<rparr>"
    by (simp add: self compile_def)
qed

theorem pretrained_weights_loaded_by_name_witness:
  "\<exists>self fself.
     (files demo_pretrained ''pretrained.h5'' = Some (m (ClassificationPreTrain_init demo_keras demo_world 0 1 1 ''relu'' 26 3))) \<and>
     (map name (layers (m (ClassificationPreTrain_init demo_keras demo_world 0 1 1 ''relu'' 26 3))) =
      [''W1'', ''W2'', ''bottleneck'', ''W4'', ''W5'', ''W6_class'']) \<and>
     (StraightRegression_init demo_keras demo_pretrained 0 1 1 ''relu'' 26 1 True (Some ''pretrained.h5'') = Inr self) \<and>
     (map name (layers (m self)) =
      [''W1'', ''W2'', ''bottleneck'', ''W4'', ''W5'', ''W6_regr''] \<and>
      map (\<lambda>l. (kernel l, bias l)) (take 5 (layers (m self))) =
      map (\<lambda>l. (kernel l, bias l)) (take 5 (layers (m (ClassificationPreTrain_init demo_keras demo_world 0 1 1 ''relu'' 26 3)))) \<and>
      layers (m self) ! 5 =
      new_layer demo_keras (length (trace demo_pretrained)) 1 ''linear'' 512 (Some (L2 1)) None True ''W6_regr'' \<and>
      compiled (m self) = Some \<lparr>loss = ''mean_squared_error'', optimizer_lr = 1,
      metrics = [''r2_score'', ''mse'']\<rparr>) \<and>
     (FreezeUnfreeze_init demo_keras demo_pretrained 0 1 1 ''relu'' 26 1 [False, False, False, False, False, True] True (Some ''pretrained.h5'') = Inr fself) \<and>
     (map name (layers (m fself)) =
      [''W1'', ''W2'', ''bottleneck'', ''W4'', ''W5'', ''W6_regr''] \<and>
      map (\<lambda>l. (kernel l, bias l)) (take 5 (layers (m fself))) =
      map (\<lambda>l. (kernel l, bias l)) (take 5 (layers (m (ClassificationPreTrain_init demo_keras demo_world 0 1 1 ''relu'' 26 3)))) \<and>
      layers (m fself) ! 5 =
      new_layer demo_keras (length (trace demo_pretrained)) 1 ''linear'' 512 (Some (L2 1)) None ([False, False, False, False, False, True] ! 5)
      ''W6_regr'' \<and>
      compiled (m fself) = Some \<lparr>loss = ''mean_squared_error'', optimizer_lr = 1,
      metrics = [''r2_score'', ''mse'']\<rparr>)"
proof -
  from demo_pretrained_returns obtain self fself where
    a: "StraightRegression_init demo_keras demo_pretrained 0 1 1 ''relu'' 26 1 True (Some ''pretrained.h5'') = Inr self"
    and b: "FreezeUnfreeze_init demo_keras demo_pretrained 0 1 1 ''relu'' 26 1 [False, False, False, False, False, True] True (Some ''pretrained.h5'') = Inr fself"
    by (elim exE conjE)
  have f: "files demo_pretrained ''pretrained.h5'' = Some (m (ClassificationPreTrain_init demo_keras demo_world 0 1 1 ''relu'' 26 3))"
    by (simp add: demo_pretrained_def)
  have n: "map name (layers (m (ClassificationPreTrain_init demo_keras demo_world 0 1 1 ''relu'' 26 3))) =
      [''W1'', ''W2'', ''bottleneck'', ''W4'', ''W5'', ''W6_class'']"
    by (simp add: CPT_init_layers new_layer_fields)
  note c1 = pretrained_weights_loaded_by_name[OF f n, THEN conjunct1, THEN mp, OF a]
  note c2 = pretrained_weights_loaded_by_name[OF f n, THEN conjunct2, THEN mp, OF b]
  show ?thesis
    apply (rule exI[of _ self], rule exI[of _ fself])
    apply (rule conjI[OF f conjI[OF n conjI[OF a conjI[OF c1 conjI[OF b c2]]]]])
    done
qed

text \<open>
  C5.  For a \<open>FreezeUnfreeze\<close> object as its constructor leaves it, the first call of \<open>fit\<close>
  of \<open>train\<close> and of \<open>train_full_dataset\<close> gets the six layers \<open>W1\<close>, \<open>W2\<close>, \<open>bottleneck\<close>,
  \<open>W4\<close>, \<open>W5\<close>, \<open>W6_regr\<close> with layer \<open>i\<close> trainable exactly when \<open>unfreeze[i]\<close>, compiled
  at the learning rate \<open>lr\<close>; the second call gets the same six layers, all trainable,
  compiled at the learning rate \<open>lr / 2\<close>.
\<close>

theorem freeze_then_unfreeze:
  assumes init: "FreezeUnfreeze_init K w0 l1' l2' lr' act' i out u ptw h5 = Inr self"
  shows "(FreezeUnfreeze_train K self a w = Inr (res, self', w') \<longrightarrow>
      (\<exists>c1 c2 evs. trace w' = trace w @ Fit c1 # Fit c2 # evs \<and>
         map name (layers (f_model c1)) = [''W1'', ''W2'', ''bottleneck'', ''W4'', ''W5'', ''W6_regr''] \<and>
         map trainable (layers (f_model c1)) = [u ! 0, u ! 1, u ! 2, u ! 3, u ! 4, u ! 5] \<and>
         compiled (f_model c1) = Some \<lparr>loss = ''mean_squared_error'', optimizer_lr = lr',
             metrics = [''r2_score'', ''mse'']\<rparr> \<and>
         map name (layers (f_model c2)) = [''W1'', ''W2'', ''bottleneck'', ''W4'', ''W5'', ''W6_regr''] \<and>
         map trainable (layers (f_model c2)) = [True, True, True, True, True, True] \<and>
         compiled (f_model c2) = Some \<lparr>loss = ''mean_squared_error'', optimizer_lr = lr' / 2,
             metrics = [''r2_score'', ''mse'']\<rparr>)) \<and>
   (FreezeUnfreeze_train_full_dataset K self fa w = Inr (r, fself', fw') \<longrightarrow>
      (\<exists>c1 p mdl c2 evs. trace fw' = trace w @ Fit c1 # Save p mdl # Fit c2 # evs \<and>
         map name (layers (f_model c1)) = [''W1'', ''W2'', ''bottleneck'', ''W4'', ''W5'', ''W6_regr''] \<and>
         map trainable (layers (f_model c1)) = [u ! 0, u ! 1, u ! 2, u ! 3, u ! 4, u ! 5] \<and>
         compiled (f_model c1) = Some \<lparr>loss = ''mean_squared_error'', optimizer_lr = lr',
             metrics = [''r2_score'', ''mse'']\<rparr> \<and>
         map name (layers (f_model c2)) = [''W1'', ''W2'', ''bottleneck'', ''W4'', ''W5'', ''W6_regr''] \<and>
         map trainable (layers (f_model c2)) = [True, True, True, True, True, True] \<and>
         compiled (f_model c2) = Some \<lparr>loss = ''mean_squared_error'', optimizer_lr = lr' / 2,
             metrics = [''r2_score'', ''mse'']\<rparr>))"
proof (intro conjI impI)
  note f = FU_init_fields[OF init]
  have len: "length (layers (m self)) = 6"
    using arg_cong[OF f(1), of length] by simp
  have m2: "\<And>m1::model. map name (layers m1) = map name (layers (m self)) \<Longrightarrow>
      map name (layers (compile ''mean_squared_error'' (lr self / 2) [''r2_score'', ''mse'']
         (unfreeze_all m1))) = [''W1'', ''W2'', ''bottleneck'', ''W4'', ''W5'', ''W6_regr''] \<and>
      map trainable (layers (compile ''mean_squared_error'' (lr self / 2) [''r2_score'', ''mse'']
         (unfreeze_all m1))) = [True, True, True, True, True, True] \<and>
      compiled (compile ''mean_squared_error'' (lr self / 2) [''r2_score'', ''mse'']
         (unfreeze_all m1)) = Some \<lparr>loss = ''mean_squared_error'', optimizer_lr = lr' / 2,
             metrics = [''r2_score'', ''mse'']\<rparr>"
  proof -
    fix m1 :: model assume a: "map name (layers m1) = map name (layers (m self))"
    have "length (layers m1) = 6" using arg_cong[OF a, of length] len by simp
    then show "map name (layers (compile ''mean_squared_error'' (lr self / 2) [''r2_score'', ''mse'']
         (unfreeze_all m1))) = [''W1'', ''W2'', ''bottleneck'', ''W4'', ''W5'', ''W6_regr''] \<and>
      map trainable (layers (compile ''mean_squared_error'' (lr self / 2) [''r2_score'', ''mse'']
         (unfreeze_all m1))) = [True, True, True, True, True, True] \<and>
      compiled (compile ''mean_squared_error'' (lr self / 2) [''r2_score'', ''mse'']
         (unfreeze_all m1)) = Some \<lparr>loss = ''mean_squared_error'', optimizer_lr = lr' / 2,
             metrics = [''r2_score'', ''mse'']\<rparr>"
      using a f(1) f(4)
      by (simp add: layers_compile compiled_compile map_name_unfreeze_all
          map_trainable_unfreeze_all numeral_eq_Suc)
  qed
  {
    assume run: "FreezeUnfreeze_train K self a w = Inr (res, self', w')"
    from FU_train_unfold[OF run] obtain c1 c2 evs m1 where
      tr: "trace w' = trace w @ Fit c1 # Fit c2 # evs"
      and c1: "f_model c1 = m self"
      and c2: "f_model c2 = compile ''mean_squared_error'' (lr self / 2) [''r2_score'', ''mse'']
                  (unfreeze_all m1)"
      and m1: "map name (layers m1) = map name (layers (m self))"
      apply (cases "prune a")
       apply (simp_all only: if_True if_False)
       apply (elim exE conjE)
       apply (drule prune_rebuild_world(1), simp)
       apply (simp add: map_name_fit)
      apply (elim exE conjE)
      apply (simp add: map_name_fit)
      done
    show "\<exists>c1 c2 evs. trace w' = trace w @ Fit c1 # Fit c2 # evs \<and>
         map name (layers (f_model c1)) = [''W1'', ''W2'', ''bottleneck'', ''W4'', ''W5'', ''W6_regr''] \<and>
         map trainable (layers (f_model c1)) = [u ! 0, u ! 1, u ! 2, u ! 3, u ! 4, u ! 5] \<and>
         compiled (f_model c1) = Some \<lparr>loss = ''mean_squared_error'', optimizer_lr = lr',
             metrics = [''r2_score'', ''mse'']\<rparr> \<and>
         map name (layers (f_model c2)) = [''W1'', ''W2'', ''bottleneck'', ''W4'', ''W5'', ''W6_regr''] \<and>
         map trainable (layers (f_model c2)) = [True, True, True, True, True, True] \<and>
         compiled (f_model c2) = Some \<lparr>loss = ''mean_squared_error'', optimizer_lr = lr' / 2,
             metrics = [''r2_score'', ''mse'']\<rparr>"
      using tr m2[OF m1] f(1,2,3) unfolding c1[symmetric] c2[symmetric]
      by (intro exI[of _ c1] exI[of _ c2] exI[of _ evs]) simp
  }
  {
    assume run: "FreezeUnfreeze_train_full_dataset K self fa w = Inr (r, fself', fw')"
    from FU_full_unfold[OF run] obtain c1 c2 evs m1 p mdl where
      tr: "trace fw' = trace w @ Fit c1 # Save p mdl # Fit c2 # evs"
      and c1: "f_model c1 = m self"
      and c2: "f_model c2 = compile ''mean_squared_error'' (lr self / 2) [''r2_score'', ''mse'']
                  (unfreeze_all m1)"
      and m1: "map name (layers m1) = map name (layers (m self))"
      apply (cases "prune fa")
       apply (simp_all only: if_True if_False)
       apply (elim exE conjE)
       apply (drule prune_rebuild_world(1), simp)
       apply (simp add: map_name_fit)
      apply (elim exE conjE)
      apply (simp add: map_name_fit)
      done
    show "\<exists>c1 p mdl c2 evs. trace fw' = trace w @ Fit c1 # Save p mdl # Fit c2 # evs \<and>
         map name (layers (f_model c1)) = [''W1'', ''W2'', ''bottleneck'', ''W4'', ''W5'', ''W6_regr''] \<and>
         map trainable (layers (f_model c1)) = [u ! 0, u ! 1, u ! 2, u ! 3, u ! 4, u ! 5] \<and>
         compiled (f_model c1) = Some \<lparr>loss = ''mean_squared_error'', optimizer_lr = lr',
             metrics = [''r2_score'', ''mse'']\<rparr> \<and>
         map name (layers (f_model c2)) = [''W1'', ''W2'', ''bottleneck'', ''W4'', ''W5'', ''W6_regr''] \<and>
         map trainable (layers (f_model c2)) = [True, True, True, True, True, True] \<and>
         compiled (f_model c2) = Some \<lparr>loss = ''mean_squared_error'', optimizer_lr = lr' / 2,
             metrics = [''r2_score'', ''mse'']\<rparr>"
      using tr m2[OF m1] f(1,2,3) unfolding c1[symmetric] c2[symmetric]
      by (intro exI[of _ c1] exI[of _ p] exI[of _ mdl] exI[of _ c2] exI[of _ evs]) simp
  }
qed

theorem freeze_then_unfreeze_witness:
  "\<exists>fself fres fself' fw' r dself' dw'.
     (FreezeUnfreeze_init demo_keras demo_world 0 1 1 ''relu'' 26 1
      [False, False, False, False, False, True] False None = Inr fself) \<and>
     (FreezeUnfreeze_train demo_keras fself (demo_args True) demo_world = Inr (fres, fself', fw')) \<and>
     ((\<exists>c1 c2 evs. trace fw' = trace demo_world @ Fit c1 # Fit c2 # evs \<and>
      map name (layers (f_model c1)) = [''W1'', ''W2'', ''bottleneck'', ''W4'', ''W5'', ''W6_regr''] \<and>
      map trainable (layers (f_model c1)) = [[False, False, False, False, False, True] ! 0, [False, False, False, False, False, True] ! 1, [False, False, False, False, False, True] ! 2, [False, False, False, False, False, True] ! 3, [False, False, False, False, False, True] ! 4, [False, False, False, False, False, True] ! 5] \<and>
      compiled (f_model c1) = Some \<lparr>loss = ''mean_squared_error'', optimizer_lr = 1,
      metrics = [''r2_score'', ''mse'']\<rparr> \<and>
      map name (layers (f_model c2)) = [''W1'', ''W2'', ''bottleneck'', ''W4'', ''W5'', ''W6_regr''] \<and>
      map trainable (layers (f_model c2)) = [True, True, True, True, True, True] \<and>
      compiled (f_model c2) = Some \<lparr>loss = ''mean_squared_error'', optimizer_lr = 1 / 2,
      metrics = [''r2_score'', ''mse'']\<rparr>)) \<and>
     (FreezeUnfreeze_train_full_dataset demo_keras fself (demo_full_args True) demo_world = Inr (r, dself', dw')) \<and>
     ((\<exists>c1 p mdl c2 evs. trace dw' = trace demo_world @ Fit c1 # Save p mdl # Fit c2 # evs \<and>
      map name (layers (f_model c1)) = [''W1'', ''W2'', ''bottleneck'', ''W4'', ''W5'', ''W6_regr''] \<and>
      map trainable (layers (f_model c1)) = [[False, False, False, False, False, True] ! 0, [False, False, False, False, False, True] ! 1, [False, False, False, False, False, True] ! 2, [False, False, False, False, False, True] ! 3, [False, False, False, False, False, True] ! 4, [False, False, False, False, False, True] ! 5] \<and>
      compiled (f_model c1) = Some \<lparr>loss = ''mean_squared_error'', optimizer_lr = 1,
      metrics = [''r2_score'', ''mse'']\<rparr> \<and>
      map name (layers (f_model c2)) = [''W1'', ''W2'', ''bottleneck'', ''W4'', ''W5'', ''W6_regr''] \<and>
      map trainable (layers (f_model c2)) = [True, True, True, True, True, True] \<and>
      compiled (f_model c2) = Some \<lparr>loss = ''mean_squared_error'', optimizer_lr = 1 / 2,
      metrics = [''r2_score'', ''mse'']\<rparr>))"
proof -
  from demo_FU_returns obtain fself fres fself' fw' r dself' dw' r0 d0 dw0 where
    finit: "FreezeUnfreeze_init demo_keras demo_world 0 1 1 ''relu'' 26 1
       [False, False, False, False, False, True] False None = Inr fself"
    and fnm: "map name (layers (m fself)) = [''W1'', ''W2'', ''bottleneck'', ''W4'', ''W5'', ''W6_regr'']"
    and frun: "FreezeUnfreeze_train demo_keras fself (demo_args True) demo_world =
      Inr (fres, fself', fw')"
    and drun: "FreezeUnfreeze_train_full_dataset demo_keras fself (demo_full_args True) demo_world =
      Inr (r, dself', dw')"
    and drun0: "FreezeUnfreeze_train_full_dataset demo_keras fself (demo_full_args False)
      demo_world = Inr (r0, d0, dw0)"
    by (elim exE conjE)
  note c1 = freeze_then_unfreeze[OF finit, THEN conjunct1, THEN mp, OF frun]
  note c2 = freeze_then_unfreeze[OF finit, THEN conjunct2, THEN mp, OF drun]
  show ?thesis
    apply (rule exI[of _ fself], rule exI[of _ fres], rule exI[of _ "fself'"], rule exI[of _ "fw'"], rule exI[of _ r], rule exI[of _ "dself'"], rule exI[of _ "dw'"])
    apply (rule conjI[OF finit conjI[OF frun conjI[OF c1 conjI[OF drun c2]]]])
    done
qed

text \<open>
  C6.  The calls of \<open>fit\<close> of a run that returns, with their numbers of epochs and the
  patience of their early stopping: \<open>StraightRegression.train\<close> makes one call with
  \<open>epochs\<close> and \<open>patience\<close> when \<open>prune=False\<close>, and two calls with \<open>2 * epochs\<close> and
  \<open>2 * patience\<close> each when \<open>prune=True\<close>; \<open>FreezeUnfreeze.train\<close> makes two calls with
  \<open>epochs\<close> and \<open>patience\<close>, and when \<open>prune=True\<close> a third with \<open>2 * epochs\<close> and
  \<open>2 * patience\<close>.
\<close>

theorem epochs_per_fit:
  "(StraightRegression_train K self a w = Inr (res, self', w') \<longrightarrow>
      (\<exists>evs. trace w' = trace w @ evs \<and>
         map (\<lambda>c. (f_epochs c, early_stopping_patience (f_callbacks c))) (fit_calls evs) =
           (if prune a
            then [(2 * epochs a, [2 * patience a]), (2 * epochs a, [2 * patience a])]
            else [(epochs a, [patience a])]))) \<and>
   (FreezeUnfreeze_train K fself a w = Inr (fres, fself', fw') \<longrightarrow>
      (\<exists>evs. trace fw' = trace w @ evs \<and>
         map (\<lambda>c. (f_epochs c, early_stopping_patience (f_callbacks c))) (fit_calls evs) =
           [(epochs a, [patience a]), (epochs a, [patience a])] @
           (if prune a then [(2 * epochs a, [2 * patience a])] else [])))"
proof (intro conjI impI)
  assume run: "StraightRegression_train K self a w = Inr (res, self', w')"
  show "\<exists>evs. trace w' = trace w @ evs \<and>
         map (\<lambda>c. (f_epochs c, early_stopping_patience (f_callbacks c))) (fit_calls evs) =
           (if prune a
            then [(2 * epochs a, [2 * patience a]), (2 * epochs a, [2 * patience a])]
            else [(epochs a, [patience a])])"
  proof (cases "prune a")
    case False
    with SR_train_unfold[OF run] show ?thesis by auto
  next
    case True
    with SR_train_unfold[OF run] obtain sm ind mp w4 c2 sm2 p1 c1 lp m1 fs p2 where
      pr: "prune_rebuild K self lp (geneNames a)
            \<lparr>files = fs(lp \<mapsto> m1), trace = trace w @ [Fit c1, Load p1 sm, Save lp m1]\<rparr>
            = Inr (ind, mp, w4)"
      and c1: "f_epochs c1 = 2 * epochs a"
         "early_stopping_patience (f_callbacks c1) = [2 * patience a]"
      and c2: "f_epochs c2 = 2 * epochs a"
         "early_stopping_patience (f_callbacks c2) = [2 * patience a]"
      and w': "trace w' = trace w4 @ [Fit c2, Load p2 sm2]"
      by auto
    have "w4 = \<lparr>files = fs(lp \<mapsto> m1), trace = trace w @ [Fit c1, Load p1 sm, Save lp m1]\<rparr>
            \<lparr>trace := trace \<lparr>files = fs(lp \<mapsto> m1), trace = trace w @ [Fit c1, Load p1 sm, Save lp m1]\<rparr>
                 @ [Load lp m1]\<rparr>"
      by (rule prune_rebuild_world(1)[OF pr]) simp
    then have "trace w' = trace w @ [Fit c1, Load p1 sm, Save lp m1, Load lp m1, Fit c2, Load p2 sm2]"
      using w' by simp
    then show ?thesis using True c1 c2 by simp
  qed
next
  assume run: "FreezeUnfreeze_train K fself a w = Inr (fres, fself', fw')"
  show "\<exists>evs. trace fw' = trace w @ evs \<and>
         map (\<lambda>c. (f_epochs c, early_stopping_patience (f_callbacks c))) (fit_calls evs) =
           [(epochs a, [patience a]), (epochs a, [patience a])] @
           (if prune a then [(2 * epochs a, [2 * patience a])] else [])"
  proof (cases "prune a")
    case False
    with FU_train_unfold[OF run] show ?thesis by auto
  next
    case True
    with FU_train_unfold[OF run] obtain sm sm2 ind mp w6 c3 sm3 pb pa c1 c2 lp m3 fs pp where
      pr: "prune_rebuild K fself lp (geneNames a)
            \<lparr>files = fs(lp \<mapsto> m3),
             trace = trace w @ [Fit c1, Fit c2, Load pb sm, Load pa sm2, Save lp m3]\<rparr>
            = Inr (ind, mp, w6)"
      and c1: "f_epochs c1 = epochs a"
         "early_stopping_patience (f_callbacks c1) = [patience a]"
      and c2: "f_epochs c2 = epochs a"
         "early_stopping_patience (f_callbacks c2) = [patience a]"
      and c3: "f_epochs c3 = 2 * epochs a"
         "early_stopping_patience (f_callbacks c3) = [2 * patience a]"
      and w': "trace fw' = trace w6 @ [Fit c3, Load pp sm3]"
      by auto
    have "trace w6 = trace w @ [Fit c1, Fit c2, Load pb sm, Load pa sm2, Save lp m3, Load lp m3]"
      using prune_rebuild_world(1)[OF pr, of m3] by simp
    then show ?thesis using True c1 c2 c3 w' by simp
  qed
qed

theorem epochs_per_fit_witness:
  "\<exists>self res self' w' fself fres fself' fw'.
     (StraightRegression_init demo_keras demo_world 0 1 1 ''relu'' 26 1 False None = Inr self) \<and>
     (StraightRegression_train demo_keras self (demo_args True) demo_world = Inr (res, self', w')) \<and>
     ((\<exists>evs. trace w' = trace demo_world @ evs \<and>
      map (\<lambda>c. (f_epochs c, early_stopping_patience (f_callbacks c))) (fit_calls evs) =
      (if prune (demo_args True)
      then [(2 * epochs (demo_args True), [2 * patience (demo_args True)]), (2 * epochs (demo_args True), [2 * patience (demo_args True)])]
      else [(epochs (demo_args True), [patience (demo_args True)])]))) \<and>
     (FreezeUnfreeze_init demo_keras demo_world 0 1 1 ''relu'' 26 1
      [False, False, False, False, False, True] False None = Inr fself) \<and>
     (FreezeUnfreeze_train demo_keras fself (demo_args True) demo_world = Inr (fres, fself', fw')) \<and>
     ((\<exists>evs. trace fw' = trace demo_world @ evs \<and>
      map (\<lambda>c. (f_epochs c, early_stopping_patience (f_callbacks c))) (fit_calls evs) =
      [(epochs (demo_args True), [patience (demo_args True)]), (epochs (demo_args True), [patience (demo_args True)])] @
      (if prune (demo_args True) then [(2 * epochs (demo_args True), [2 * patience (demo_args True)])] else [])))"
proof -
  from demo_SR_returns obtain self res self' w' where
    init: "StraightRegression_init demo_keras demo_world 0 1 1 ''relu'' 26 1 False None = Inr self"
    and nm: "map name (layers (m self)) = [''W1'', ''W2'', ''bottleneck'', ''W4'', ''W5'', ''W6_regr'']"
    and run: "StraightRegression_train demo_keras self (demo_args True) demo_world =
      Inr (res, self', w')"
    by (elim exE conjE)
  from demo_FU_returns obtain fself fres fself' fw' r dself' dw' r0 d0 dw0 where
    finit: "FreezeUnfreeze_init demo_keras demo_world 0 1 1 ''relu'' 26 1
       [False, False, False, False, False, True] False None = Inr fself"
    and fnm: "map name (layers (m fself)) = [''W1'', ''W2'', ''bottleneck'', ''W4'', ''W5'', ''W6_regr'']"
    and frun: "FreezeUnfreeze_train demo_keras fself (demo_args True) demo_world =
      Inr (fres, fself', fw')"
    and drun: "FreezeUnfreeze_train_full_dataset demo_keras fself (demo_full_args True) demo_world =
      Inr (r, dself', dw')"
    and drun0: "FreezeUnfreeze_train_full_dataset demo_keras fself (demo_full_args False)
      demo_world = Inr (r0, d0, dw0)"
    by (elim exE conjE)
  note c1 = epochs_per_fit[THEN conjunct1, THEN mp, OF run]
  note c2 = epochs_per_fit[THEN conjunct2, THEN mp, OF frun]
  show ?thesis
    apply (rule exI[of _ self], rule exI[of _ res], rule exI[of _ "self'"], rule exI[of _ "w'"], rule exI[of _ fself], rule exI[of _ fres], rule exI[of _ "fself'"], rule exI[of _ "fw'"])
    apply (rule conjI[OF init conjI[OF run conjI[OF c1 conjI[OF finit conjI[OF frun c2]]]]])
    done
qed

text \<open>
  C7.  The layers of every architecture the program builds, with their names, input
  widths, units and activations: the third of the six layers is always named
  \<open>bottleneck\<close>, has 2 units and linear activation, and stands between the encoder
  (512, 128) and the decoder (128, 512).  This holds for the three constructors and for
  the model every pruning step rebuilds.
\<close>

theorem bottleneck_in_every_architecture:
  "map (\<lambda>l. (name l, input_width l, units l, activation l))
      (layers (m (ClassificationPreTrain_init K w l1' l2' lr' act' i out))) =
     [(''W1'', i, 512, act'), (''W2'', 512, 128, act'), (''bottleneck'', 128, 2, ''linear''),
      (''W4'', 2, 128, act'), (''W5'', 128, 512, act'), (''W6_class'', 512, out, ''softmax'')] \<and>
   (StraightRegression_init K w l1' l2' lr' act' i out ptw h5 = Inr self \<longrightarrow>
      map (\<lambda>l. (name l, input_width l, units l, activation l)) (layers (m self)) =
        [(''W1'', i, 512, act'), (''W2'', 512, 128, act'), (''bottleneck'', 128, 2, ''linear''),
         (''W4'', 2, 128, act'), (''W5'', 128, 512, act'), (''W6_regr'', 512, out, ''linear'')]) \<and>
   (FreezeUnfreeze_init K w l1' l2' lr' act' i out u ptw h5 = Inr fself \<longrightarrow>
      map (\<lambda>l. (name l, input_width l, units l, activation l)) (layers (m fself)) =
        [(''W1'', i, 512, act'), (''W2'', 512, 128, act'), (''bottleneck'', 128, 2, ''linear''),
         (''W4'', 2, 128, act'), (''W5'', 128, 512, act'), (''W6_regr'', 512, out, ''linear'')]) \<and>
   (prune_rebuild K pself path names pw = Inr (ind_genes, mp, pw') \<longrightarrow>
      map (\<lambda>l. (name l, input_width l, units l, activation l)) (layers mp) =
        [(''W1_25'', 25, 512, act pself), (''W2'', 512, 128, act pself),
         (''bottleneck'', 128, 2, ''linear''), (''W4'', 2, 128, act pself),
         (''W5'', 128, 512, act pself), (''W6_regr'', 512, output_dim pself, ''linear'')])"
proof (intro conjI impI)
  show "map (\<lambda>l. (name l, input_width l, units l, activation l))
      (layers (m (ClassificationPreTrain_init K w l1' l2' lr' act' i out))) =
     [(''W1'', i, 512, act'), (''W2'', 512, 128, act'), (''bottleneck'', 128, 2, ''linear''),
      (''W4'', 2, 128, act'), (''W5'', 128, 512, act'), (''W6_class'', 512, out, ''softmax'')]"
    by (simp add: CPT_init_layers new_layer_fields)
next
  assume "StraightRegression_init K w l1' l2' lr' act' i out ptw h5 = Inr self"
  from SR_init_unfold[OF this] obtain m7 where
    m7: "if ptw then load_weights h5 w
        \<lparr>layers =
           [new_layer K (length (trace w)) 512 act' i (Some (Elastic (ElasticNet l1' l2')))
              (Some (L2 l2')) True ''W1'',
            new_layer K (length (trace w)) 128 act' 512 (Some (L2 l2')) (Some (L2 l2')) True ''W2'',
            new_layer K (length (trace w)) 2 ''linear'' 128 (Some (L2 l2')) (Some (L2 l2')) True
              ''bottleneck'',
            new_layer K (length (trace w)) 128 act' 2 (Some (L2 l2')) (Some (L2 l2')) True ''W4'',
            new_layer K (length (trace w)) 512 act' 128 (Some (L2 l2')) (Some (L2 l2')) True ''W5'',
            new_layer K (length (trace w)) out ''linear'' 512 (Some (L2 l2')) None True
              ''W6_regr''],
         compiled = None\<rparr> = Inr m7
      else m7 =
        \<lparr>layers =
           [new_layer K (length (trace w)) 512 act' i (Some (Elastic (ElasticNet l1' l2')))
              (Some (L2 l2')) True ''W1'',
            new_layer K (length (trace w)) 128 act' 512 (Some (L2 l2')) (Some (L2 l2')) True ''W2'',
            new_layer K (length (trace w)) 2 ''linear'' 128 (Some (L2 l2')) (Some (L2 l2')) True
              ''bottleneck'',
            new_layer K (length (trace w)) 128 act' 2 (Some (L2 l2')) (Some (L2 l2')) True ''W4'',
            new_layer K (length (trace w)) 512 act' 128 (Some (L2 l2')) (Some (L2 l2')) True ''W5'',
            new_layer K (length (trace w)) out ''linear'' 512 (Some (L2 l2')) None True
              ''W6_regr''],
         compiled = None\<rparr>"
    and self: "m self = compile ''mean_squared_error'' lr' [''r2_score'', ''mse''] m7"
    by auto
  have "map (\<lambda>l. (name l, input_width l, units l, activation l, trainable l,
             kernel_regularizer l, bias_regularizer l)) (layers m7) =
     [(''W1'', i, 512, act', True, Some (Elastic (ElasticNet l1' l2')), Some (L2 l2')),
      (''W2'', 512, 128, act', True, Some (L2 l2'), Some (L2 l2')),
      (''bottleneck'', 128, 2, ''linear'', True, Some (L2 l2'), Some (L2 l2')),
      (''W4'', 2, 128, act', True, Some (L2 l2'), Some (L2 l2')),
      (''W5'', 128, 512, act', True, Some (L2 l2'), Some (L2 l2')),
      (''W6_regr'', 512, out, ''linear'', True, Some (L2 l2'), None)]"
  proof (cases ptw)
    case True
    with m7 show ?thesis by (simp add: load_weights_fields(1) new_layer_fields)
  next
    case False
    with m7 show ?thesis by (simp add: new_layer_fields)
  qed
  then have "map (\<lambda>l. (name l, input_width l, units l, activation l)) (layers m7) =
        [(''W1'', i, 512, act'), (''W2'', 512, 128, act'), (''bottleneck'', 128, 2, ''linear''),
         (''W4'', 2, 128, act'), (''W5'', 128, 512, act'), (''W6_regr'', 512, out, ''linear'')]"
    by (auto simp: map_eq_Cons_conv)
  then show "map (\<lambda>l. (name l, input_width l, units l, activation l)) (layers (m self)) =
        [(''W1'', i, 512, act'), (''W2'', 512, 128, act'), (''bottleneck'', 128, 2, ''linear''),
         (''W4'', 2, 128, act'), (''W5'', 128, 512, act'), (''W6_regr'', 512, out, ''linear'')]"
    by (simp add: self layers_compile)
next
  assume "FreezeUnfreeze_init K w l1' l2' lr' act' i out u ptw h5 = Inr fself"
  from FU_init_unfold[OF this] obtain m7 where
    m7: "if ptw then load_weights h5 w
        \<lparr>layers =
           [new_layer K (length (trace w)) 512 act' i (Some (Elastic (ElasticNet l1' l2')))
              (Some (L2 l2')) (u ! 0) ''W1'',
            new_layer K (length (trace w)) 128 act' 512 (Some (L2 l2')) (Some (L2 l2')) (u ! 1)
              ''W2'',
            new_layer K (length (trace w)) 2 ''linear'' 128 (Some (L2 l2')) (Some (L2 l2'))
              (u ! 2) ''bottleneck'',
            new_layer K (length (trace w)) 128 act' 2 (Some (L2 l2')) (Some (L2 l2')) (u ! 3)
              ''W4'',
            new_layer K (length (trace w)) 512 act' 128 (Some (L2 l2')) (Some (L2 l2')) (u ! 4)
              ''W5'',
            new_layer K (length (trace w)) out ''linear'' 512 (Some (L2 l2')) None (u ! 5)
              ''W6_regr''],
         compiled = None\<rparr> = Inr m7
      else m7 =
        \<lparr>layers =
           [new_layer K (length (trace w)) 512 act' i (Some (Elastic (ElasticNet l1' l2')))
              (Some (L2 l2')) (u ! 0) ''W1'',
            new_layer K (length (trace w)) 128 act' 512 (Some (L2 l2')) (Some (L2 l2')) (u ! 1)
              ''W2'',
            new_layer K (length (trace w)) 2 ''linear'' 128 (Some (L2 l2')) (Some (L2 l2'))
              (u ! 2) ''bottleneck'',
            new_layer K (length (trace w)) 128 act' 2 (Some (L2 l2')) (Some (L2 l2')) (u ! 3)
              ''W4'',
            new_layer K (length (trace w)) 512 act' 128 (Some (L2 l2')) (Some (L2 l2')) (u ! 4)
              ''W5'',
            new_layer K (length (trace w)) out ''linear'' 512 (Some (L2 l2')) None (u ! 5)
              ''W6_regr''],
         compiled = None\<rparr>"
    and self: "m fself = compile ''mean_squared_error'' lr' [''r2_score'', ''mse''] m7"
    by auto
  have "map (\<lambda>l. (name l, input_width l, units l, activation l, trainable l,
             kernel_regularizer l, bias_regularizer l)) (layers m7) =
     [(''W1'', i, 512, act', u ! 0, Some (Elastic (ElasticNet l1' l2')), Some (L2 l2')),
      (''W2'', 512, 128, act', u ! 1, Some (L2 l2'), Some (L2 l2')),
      (''bottleneck'', 128, 2, ''linear'', u ! 2, Some (L2 l2'), Some (L2 l2')),
      (''W4'', 2, 128, act', u ! 3, Some (L2 l2'), Some (L2 l2')),
      (''W5'', 128, 512, act', u ! 4, Some (L2 l2'), Some (L2 l2')),
      (''W6_regr'', 512, out, ''linear'', u ! 5, Some (L2 l2'), None)]"
  proof (cases ptw)
    case True
    with m7 show ?thesis by (simp add: load_weights_fields(1) new_layer_fields)
  next
    case False
    with m7 show ?thesis by (simp add: new_layer_fields)
  qed
  then have "map (\<lambda>l. (name l, input_width l, units l, activation l)) (layers m7) =
        [(''W1'', i, 512, act'), (''W2'', 512, 128, act'), (''bottleneck'', 128, 2, ''linear''),
         (''W4'', 2, 128, act'), (''W5'', 128, 512, act'), (''W6_regr'', 512, out, ''linear'')]"
    by (auto simp: map_eq_Cons_conv)
  then show "map (\<lambda>l. (name l, input_width l, units l, activation l)) (layers (m fself)) =
        [(''W1'', i, 512, act'), (''W2'', 512, 128, act'), (''bottleneck'', 128, 2, ''linear''),
         (''W4'', 2, 128, act'), (''W5'', 128, 512, act'), (''W6_regr'', 512, out, ''linear'')]"
    by (simp add: self layers_compile)
next
  assume "prune_rebuild K pself path names pw = Inr (ind_genes, mp, pw')"
  then show "map (\<lambda>l. (name l, input_width l, units l, activation l)) (layers mp) =
        [(''W1_25'', 25, 512, act pself), (''W2'', 512, 128, act pself),
         (''bottleneck'', 128, 2, ''linear''), (''W4'', 2, 128, act pself),
         (''W5'', 128, 512, act pself), (''W6_regr'', 512, output_dim pself, ''linear'')]"
    by (rule prune_rebuild_arch(1))
qed

theorem bottleneck_in_every_architecture_witness:
  "\<exists>self fself pself ind_genes mp pw'.
     (map (\<lambda>l. (name l, input_width l, units l, activation l))
      (layers (m (ClassificationPreTrain_init demo_keras demo_world 0 1 1 ''relu'' 26 3))) =
      [(''W1'', 26, 512, ''relu''), (''W2'', 512, 128, ''relu''), (''bottleneck'', 128, 2, ''linear''),
      (''W4'', 2, 128, ''relu''), (''W5'', 128, 512, ''relu''), (''W6_class'', 512, 3, ''softmax'')]) \<and>
     (StraightRegression_init demo_keras demo_world 0 1 1 ''relu'' 26 1 False None = Inr self) \<and>
     (map (\<lambda>l. (name l, input_width l, units l, activation l)) (layers (m self)) =
      [(''W1'', 26, 512, ''relu''), (''W2'', 512, 128, ''relu''), (''bottleneck'', 128, 2, ''linear''),
      (''W4'', 2, 128, ''relu''), (''W5'', 128, 512, ''relu''), (''W6_regr'', 512, 1, ''linear'')]) \<and>
     (FreezeUnfreeze_init demo_keras demo_world 0 1 1 ''relu'' 26 1 [False, False, False, False, False, True] False None = Inr fself) \<and>
     (map (\<lambda>l. (name l, input_width l, units l, activation l)) (layers (m fself)) =
      [(''W1'', 26, 512, ''relu''), (''W2'', 512, 128, ''relu''), (''bottleneck'', 128, 2, ''linear''),
      (''W4'', 2, 128, ''relu''), (''W5'', 128, 512, ''relu''), (''W6_regr'', 512, 1, ''linear'')]) \<and>
     (StraightRegression_init demo_keras demo_world 0 1 1 ''relu'' 26 1 False None = Inr pself) \<and>
     (prune_rebuild demo_keras pself ''last.h5'' (geneNames (demo_args True)) (demo_saved (m pself)) = Inr (ind_genes, mp, pw')) \<and>
     (map (\<lambda>l. (name l, input_width l, units l, activation l)) (layers mp) =
      [(''W1_25'', 25, 512, act pself), (''W2'', 512, 128, act pself),
      (''bottleneck'', 128, 2, ''linear''), (''W4'', 2, 128, act pself),
      (''W5'', 128, 512, act pself), (''W6_regr'', 512, output_dim pself, ''linear'')])"
proof -
  from demo_SR_returns obtain self res self' w' where
    init: "StraightRegression_init demo_keras demo_world 0 1 1 ''relu'' 26 1 False None = Inr self"
    and nm: "map name (layers (m self)) = [''W1'', ''W2'', ''bottleneck'', ''W4'', ''W5'', ''W6_regr'']"
    and run: "StraightRegression_train demo_keras self (demo_args True) demo_world =
      Inr (res, self', w')"
    by (elim exE conjE)
  from demo_FU_returns obtain fself fres fself' fw' r dself' dw' r0 d0 dw0 where
    finit: "FreezeUnfreeze_init demo_keras demo_world 0 1 1 ''relu'' 26 1
       [False, False, False, False, False, True] False None = Inr fself"
    and fnm: "map name (layers (m fself)) = [''W1'', ''W2'', ''bottleneck'', ''W4'', ''W5'', ''W6_regr'']"
    and frun: "FreezeUnfreeze_train demo_keras fself (demo_args True) demo_world =
      Inr (fres, fself', fw')"
    and drun: "FreezeUnfreeze_train_full_dataset demo_keras fself (demo_full_args True) demo_world =
      Inr (r, dself', dw')"
    and drun0: "FreezeUnfreeze_train_full_dataset demo_keras fself (demo_full_args False)
      demo_world = Inr (r0, d0, dw0)"
    by (elim exE conjE)
  from demo_rebuild_returns obtain pself ind_genes mp pw' where
    pinit: "StraightRegression_init demo_keras demo_world 0 1 1 ''relu'' 26 1 False None = Inr pself"
    and rb: "prune_rebuild demo_keras pself ''last.h5'' (geneNames (demo_args True))
      (demo_saved (m pself)) = Inr (ind_genes, mp, pw')"
    by (elim exE conjE)
  note c0 = bottleneck_in_every_architecture[THEN conjunct1]
  note c1 = bottleneck_in_every_architecture[THEN conjunct2, THEN conjunct1, THEN mp, OF init]
  note c2 = bottleneck_in_every_architecture[THEN conjunct2, THEN conjunct2, THEN conjunct1,
      THEN mp, OF finit]
  note c3 = bottleneck_in_every_architecture[THEN conjunct2, THEN conjunct2, THEN conjunct2,
      THEN mp, OF rb]
  show ?thesis
    apply (rule exI[of _ self], rule exI[of _ fself], rule exI[of _ pself], rule exI[of _ ind_genes], rule exI[of _ mp], rule exI[of _ "pw'"])
    apply (rule conjI[OF c0 conjI[OF init conjI[OF c1 conjI[OF finit conjI[OF c2 conjI[OF pinit conjI[OF rb c3]]]]]]])
    done
qed

text \<open>
  C10.  \<open>ElasticNet(l1, l2)(x)\<close> is \<open>l2\<close> times the sum of the squares of all entries of
  \<open>x\<close> plus \<open>l1\<close> times the sum over the rows of \<open>x\<close> of the L2 norm of the row;
  \<open>get_config\<close> returns the two parameters under the keys \<open>l1\<close> and \<open>l2\<close>, and the
  regularizer made from that configuration computes the same penalty on every \<open>x\<close>.  The
  first layer of every pruned rebuild has the regularizer \<open>ElasticNet(l1=0, l2=self.l2)\<close>,
  whose penalty is the ridge term alone.
\<close>

theorem elastic_net_penalty:
  "ElasticNet_call (ElasticNet a b) x =
     b * sum_list (map (\<lambda>r. sum_list (map (\<lambda>v. v * v) r)) x) +
     a * sum_list (map (\<lambda>r. sqrt (sum_list (map (\<lambda>v. v * v) r))) x) \<and>
   ElasticNet_get_config (ElasticNet a b) = [(''l1'', a), (''l2'', b)] \<and>
   ElasticNet_call (ElasticNet_from_config (ElasticNet_get_config reg)) x =
     ElasticNet_call reg x \<and>
   (prune_rebuild K self path names w = Inr (ind_genes, mp, w') \<longrightarrow>
      kernel_regularizer (hd (layers mp)) = Some (Elastic (ElasticNet 0 (l2 self))) \<and>
      ElasticNet_call (ElasticNet 0 (l2 self)) x =
        l2 self * sum_list (map (\<lambda>r. sum_list (map (\<lambda>v. v * v) r)) x))"
proof (intro conjI impI)
  show f: "\<And>a b. ElasticNet_call (ElasticNet a b) x =
     b * sum_list (map (\<lambda>r. sum_list (map (\<lambda>v. v * v) r)) x) +
     a * sum_list (map (\<lambda>r. sqrt (sum_list (map (\<lambda>v. v * v) r))) x)"
    by (simp add: ElasticNet_call_def reduce_sum_def square_def norm_axis1_def
        row_norm_def [abs_def] comp_def)
  show "ElasticNet_get_config (ElasticNet a b) = [(''l1'', a), (''l2'', b)]"
    by (simp add: ElasticNet_get_config_def)
  show "ElasticNet_call (ElasticNet_from_config (ElasticNet_get_config reg)) x =
     ElasticNet_call reg x"
    by (simp add: ElasticNet_roundtrip)
  show "ElasticNet_call (ElasticNet 0 (l2 self)) x =
        l2 self * sum_list (map (\<lambda>r. sum_list (map (\<lambda>v. v * v) r)) x)"
    by (simp add: f)
  assume pr: "prune_rebuild K self path names w = Inr (ind_genes, mp, w')"
  from prune_rebuild_arch(1)[OF pr] have "layers mp \<noteq> []" by auto
  then have "hd (layers mp) = layers mp ! 0" by (simp add: hd_conv_nth)
  then show "kernel_regularizer (hd (layers mp)) = Some (Elastic (ElasticNet 0 (l2 self)))"
    using prune_rebuild_arch(2)[OF pr] by simp
qed

theorem elastic_net_penalty_witness:
  "\<exists>pself ind_genes mp pw'.
     (ElasticNet_call (ElasticNet 2 3) [[1, 0]] =
      3 * sum_list (map (\<lambda>r. sum_list (map (\<lambda>v. v * v) r)) [[1, 0]]) +
      2 * sum_list (map (\<lambda>r. sqrt (sum_list (map (\<lambda>v. v * v) r))) [[1, 0]])) \<and>
     (ElasticNet_get_config (ElasticNet 2 3) = [(''l1'', 2), (''l2'', 3)]) \<and>
     (ElasticNet_call (ElasticNet_from_config (ElasticNet_get_config (ElasticNet 2 3))) [[1, 0]] =
      ElasticNet_call (ElasticNet 2 3) [[1, 0]]) \<and>
     (StraightRegression_init demo_keras demo_world 0 1 1 ''relu'' 26 1 False None = Inr pself) \<and>
     (prune_rebuild demo_keras pself ''last.h5'' (geneNames (demo_args True)) (demo_saved (m pself)) = Inr (ind_genes, mp, pw')) \<and>
     (kernel_regularizer (hd (layers mp)) = Some (Elastic (ElasticNet 0 (l2 pself))) \<and>
      ElasticNet_call (ElasticNet 0 (l2 pself)) [[1, 0]] =
      l2 pself * sum_list (map (\<lambda>r. sum_list (map (\<lambda>v. v * v) r)) [[1, 0]]))"
proof -
  from demo_rebuild_returns obtain pself ind_genes mp pw' where
    pinit: "StraightRegression_init demo_keras demo_world 0 1 1 ''relu'' 26 1 False None = Inr pself"
    and rb: "prune_rebuild demo_keras pself ''last.h5'' (geneNames (demo_args True))
      (demo_saved (m pself)) = Inr (ind_genes, mp, pw')"
    by (elim exE conjE)
  note c0 = elastic_net_penalty[THEN conjunct1]
  note c1 = elastic_net_penalty[THEN conjunct2, THEN conjunct1]
  note c2 = elastic_net_penalty[THEN conjunct2, THEN conjunct2, THEN conjunct1]
  note c3 = elastic_net_penalty[THEN conjunct2, THEN conjunct2, THEN conjunct2, THEN mp, OF rb]
  show ?thesis
    apply (rule exI[of _ pself], rule exI[of _ ind_genes], rule exI[of _ mp], rule exI[of _ "pw'"])
    apply (rule conjI[OF c0 conjI[OF c1 conjI[OF c2 conjI[OF pinit conjI[OF rb c3]]]]])
    done
qed

lemma FU_full_Inl:
  assumes "FreezeUnfreeze_train_full_dataset K self a w = Inl e" and "\<not> prune a"
  shows "e = KeyError ''r2_score''"
  using assms
  unfolding FreezeUnfreeze_train_full_dataset_def Let_def
  by (simp add: Let_def fit_def bnd_def history_get_def split: option.splits sum.splits)

text \<open>
  C8.  With \<open>prune=False\<close>, \<open>FreezeUnfreeze.train_full_dataset\<close> fits twice with \<open>epochs\<close>
  epochs, saves the model twice and returns \<open>None\<close>, unless the history of a fit lacks the
  key \<open>r2_score\<close> (then it raises \<open>KeyError\<close>).  With \<open>prune=True\<close> a run that returns
  returns the history.
\<close>

theorem train_full_dataset_returns_None:
  "(\<not> prune a \<longrightarrow>
      FreezeUnfreeze_train_full_dataset K self a w = Inl (KeyError ''r2_score'') \<or>
      (\<exists>self' w' c1 p1 m2 c2 p2.
          FreezeUnfreeze_train_full_dataset K self a w = Inr (None, self', w') \<and>
          trace w' = trace w @ [Fit c1, Save p1 m2, Fit c2, Save p2 (m self')] \<and>
          f_epochs c1 = epochs a \<and> f_epochs c2 = epochs a)) \<and>
   (FreezeUnfreeze_train_full_dataset K self a w = Inr (r, self1, w1) \<and> prune a \<longrightarrow>
      (\<exists>h. r = Some h))"
proof (intro conjI impI)
  assume np: "\<not> prune a"
  show "FreezeUnfreeze_train_full_dataset K self a w = Inl (KeyError ''r2_score'') \<or>
      (\<exists>self' w' c1 p1 m2 c2 p2.
          FreezeUnfreeze_train_full_dataset K self a w = Inr (None, self', w') \<and>
          trace w' = trace w @ [Fit c1, Save p1 m2, Fit c2, Save p2 (m self')] \<and>
          f_epochs c1 = epochs a \<and> f_epochs c2 = epochs a)"
  proof (cases "FreezeUnfreeze_train_full_dataset K self a w")
    case (Inl e)
    with FU_full_Inl[OF Inl np] show ?thesis by simp
  next
    case (Inr v)
    obtain r self' w' where v: "v = (r, self', w')" by (cases v)
    from FU_full_unfold[OF Inr[unfolded v]] np show ?thesis
      unfolding Inr v by auto
  qed
next
  assume "FreezeUnfreeze_train_full_dataset K self a w = Inr (r, self1, w1) \<and> prune a"
  then have run: "FreezeUnfreeze_train_full_dataset K self a w = Inr (r, self1, w1)"
    and p: "prune a" by simp_all
  from FU_full_unfold[OF run] p show "\<exists>h. r = Some h" by auto
qed

theorem train_full_dataset_returns_None_witness:
  "\<exists>fself r dself' dw'.
     (FreezeUnfreeze_init demo_keras demo_world 0 1 1 ''relu'' 26 1
      [False, False, False, False, False, True] False None = Inr fself) \<and>
     (\<not> prune (demo_full_args False)) \<and>
     ((\<exists>self' w' c1 p1 m2 c2 p2.
      FreezeUnfreeze_train_full_dataset demo_keras fself (demo_full_args False) demo_world = Inr (None, self', w') \<and>
      trace w' = trace demo_world @ [Fit c1, Save p1 m2, Fit c2, Save p2 (m self')] \<and>
      f_epochs c1 = epochs (demo_full_args False) \<and> f_epochs c2 = epochs (demo_full_args False))) \<and>
     (FreezeUnfreeze_train_full_dataset demo_keras fself (demo_full_args True) demo_world = Inr (r, dself', dw') \<and> prune (demo_full_args True)) \<and>
     ((\<exists>h. r = Some h))"
proof -
  from demo_FU_returns obtain fself fres fself' fw' r dself' dw' r0 d0 dw0 where
    finit: "FreezeUnfreeze_init demo_keras demo_world 0 1 1 ''relu'' 26 1
       [False, False, False, False, False, True] False None = Inr fself"
    and fnm: "map name (layers (m fself)) = [''W1'', ''W2'', ''bottleneck'', ''W4'', ''W5'', ''W6_regr'']"
    and frun: "FreezeUnfreeze_train demo_keras fself (demo_args True) demo_world =
      Inr (fres, fself', fw')"
    and drun: "FreezeUnfreeze_train_full_dataset demo_keras fself (demo_full_args True) demo_world =
      Inr (r, dself', dw')"
    and drun0: "FreezeUnfreeze_train_full_dataset demo_keras fself (demo_full_args False)
      demo_world = Inr (r0, d0, dw0)"
    by (elim exE conjE)
  have pr: "prune (demo_args True)" by (simp add: demo_args_def)
  have fpr: "prune (demo_full_args True)" by (simp add: demo_full_args_def)
  have np: "\<not> prune (demo_full_args False)"
    by (simp add: demo_full_args_def)
  from train_full_dataset_returns_None[THEN conjunct1, THEN mp, OF np]
  have c1: "(\<exists>self' w' c1 p1 m2 c2 p2.
      FreezeUnfreeze_train_full_dataset demo_keras fself (demo_full_args False) demo_world = Inr (None, self', w') \<and>
      trace w' = trace demo_world @ [Fit c1, Save p1 m2, Fit c2, Save p2 (m self')] \<and>
      f_epochs c1 = epochs (demo_full_args False) \<and> f_epochs c2 = epochs (demo_full_args False))"
  proof
    assume "FreezeUnfreeze_train_full_dataset demo_keras fself (demo_full_args False) demo_world = Inl (KeyError ''r2_score'')"
    with drun0 show ?thesis by simp
  next
    assume "(\<exists>self' w' c1 p1 m2 c2 p2.
      FreezeUnfreeze_train_full_dataset demo_keras fself (demo_full_args False) demo_world = Inr (None, self', w') \<and>
      trace w' = trace demo_world @ [Fit c1, Save p1 m2, Fit c2, Save p2 (m self')] \<and>
      f_epochs c1 = epochs (demo_full_args False) \<and> f_epochs c2 = epochs (demo_full_args False))"
    then show ?thesis .
  qed
  note c2 = train_full_dataset_returns_None[THEN conjunct2, THEN mp, OF conjI[OF drun fpr]]
  show ?thesis
    apply (rule exI[of _ fself], rule exI[of _ r], rule exI[of _ "dself'"], rule exI[of _ "dw'"])
    apply (rule conjI[OF finit conjI[OF np conjI[OF c1 conjI[OF conjI[OF drun fpr] c2]]]])
    done
qed

text \<open>
  C2.  In every run with pruning that returns, the model handed to the last call of
  \<open>fit\<close> has the layers \<open>W1_25\<close>, \<open>W2\<close>, \<open>bottleneck\<close>, \<open>W4\<close>, \<open>W5\<close>, \<open>W6_regr\<close>; the
  kernel of \<open>W1_25\<close> is the selected rows of the first-layer kernel of the saved model, in
  the order of the selection, its bias is the saved first-layer bias, and every other
  layer has the kernel and the bias of the saved layer of its name.
\<close>

theorem weight_transplant:
  "(map name (layers (m self)) = [''W1'', ''W2'', ''bottleneck'', ''W4'', ''W5'', ''W6_regr''] \<and>
    StraightRegression_train K self a w = Inr (res, self', w') \<and> prune a \<longrightarrow>
      (\<exists>c1 p1 sm lp saved c2 p2 sm2.
         trace w' = trace w @ [Fit c1, Load p1 sm, Save lp saved, Load lp saved, Fit c2,
                                Load p2 sm2] \<and>
         map name (layers (f_model c2)) = [''W1_25'', ''W2'', ''bottleneck'', ''W4'', ''W5'', ''W6_regr''] \<and>
         kernel (layers (f_model c2) ! 0) =
           map (\<lambda>i. kernel (layers saved ! 0) ! i)
             (select_genes (kernel (layers saved ! 0))) \<and>
         bias (layers (f_model c2) ! 0) = bias (layers saved ! 0) \<and>
         map (\<lambda>l. (name l, kernel l, bias l)) (tl (layers (f_model c2))) =
           map (\<lambda>l. (name l, kernel l, bias l)) (tl (layers saved)))) \<and>
   (map name (layers (m fself)) = [''W1'', ''W2'', ''bottleneck'', ''W4'', ''W5'', ''W6_regr''] \<and>
    FreezeUnfreeze_train K fself a w = Inr (fres, fself', fw') \<and> prune a \<longrightarrow>
      (\<exists>c1 c2 pb sm pa sm2 lp saved c3 pp sm3.
         trace fw' = trace w @ [Fit c1, Fit c2, Load pb sm, Load pa sm2, Save lp saved,
                                 Load lp saved, Fit c3, Load pp sm3] \<and>
         map name (layers (f_model c3)) = [''W1_25'', ''W2'', ''bottleneck'', ''W4'', ''W5'', ''W6_regr''] \<and>
         kernel (layers (f_model c3) ! 0) =
           map (\<lambda>i. kernel (layers saved ! 0) ! i)
             (select_genes (kernel (layers saved ! 0))) \<and>
         bias (layers (f_model c3) ! 0) = bias (layers saved ! 0) \<and>
         map (\<lambda>l. (name l, kernel l, bias l)) (tl (layers (f_model c3))) =
           map (\<lambda>l. (name l, kernel l, bias l)) (tl (layers saved)))) \<and>
   (map name (layers (m fself)) = [''W1'', ''W2'', ''bottleneck'', ''W4'', ''W5'', ''W6_regr''] \<and>
    FreezeUnfreeze_train_full_dataset K fself fa w = Inr (r, dself', dw') \<and> prune fa \<longrightarrow>
      (\<exists>c1 pb m2 c2 lp saved pp mp c3.
         trace dw' = trace w @ [Fit c1, Save pb m2, Fit c2, Save lp saved, Load lp saved,
                                 Save pp mp, Fit c3] \<and>
         f_model c3 = mp \<and>
         map name (layers (f_model c3)) = [''W1_25'', ''W2'', ''bottleneck'', ''W4'', ''W5'', ''W6_regr''] \<and>
         kernel (layers (f_model c3) ! 0) =
           map (\<lambda>i. kernel (layers saved ! 0) ! i)
             (select_genes (kernel (layers saved ! 0))) \<and>
         bias (layers (f_model c3) ! 0) = bias (layers saved ! 0) \<and>
         map (\<lambda>l. (name l, kernel l, bias l)) (tl (layers (f_model c3))) =
           map (\<lambda>l. (name l, kernel l, bias l)) (tl (layers saved))))"
proof (intro conjI impI)
  assume "map name (layers (m self)) = [''W1'', ''W2'', ''bottleneck'', ''W4'', ''W5'', ''W6_regr''] \<and>
    StraightRegression_train K self a w = Inr (res, self', w') \<and> prune a"
  then have nm: "map name (layers (m self)) = [''W1'', ''W2'', ''bottleneck'', ''W4'', ''W5'', ''W6_regr'']"
    and run: "StraightRegression_train K self a w = Inr (res, self', w')" and p: "prune a"
    by simp_all
  from SR_prune_run[OF run p] obtain c1 p1 sm saved lp ind mp c2 p2 sm2 W W' where
    tr: "trace w' = trace w @ [Fit c1, Load p1 sm, Save lp saved, Load lp saved, Fit c2,
                                Load p2 sm2]"
    and sn: "map name (layers saved) = map name (layers (m self))"
    and pr: "prune_rebuild K self lp (geneNames a) W = Inr (ind, mp, W')"
    and f: "files W lp = Some saved"
    and c2: "f_model c2 = mp"
    by auto
  show "\<exists>c1 p1 sm lp saved c2 p2 sm2.
         trace w' = trace w @ [Fit c1, Load p1 sm, Save lp saved, Load lp saved, Fit c2,
                                Load p2 sm2] \<and>
         map name (layers (f_model c2)) = [''W1_25'', ''W2'', ''bottleneck'', ''W4'', ''W5'', ''W6_regr''] \<and>
         kernel (layers (f_model c2) ! 0) =
           map (\<lambda>i. kernel (layers saved ! 0) ! i)
             (select_genes (kernel (layers saved ! 0))) \<and>
         bias (layers (f_model c2) ! 0) = bias (layers saved ! 0) \<and>
         map (\<lambda>l. (name l, kernel l, bias l)) (tl (layers (f_model c2))) =
           map (\<lambda>l. (name l, kernel l, bias l)) (tl (layers saved))"
    apply (rule exI[of _ c1], rule exI[of _ p1], rule exI[of _ sm], rule exI[of _ lp],
        rule exI[of _ saved], rule exI[of _ c2], rule exI[of _ p2], rule exI[of _ sm2])
    using tr transplant_of_rebuild[OF pr f] sn nm unfolding c2 by simp
next
  assume "map name (layers (m fself)) = [''W1'', ''W2'', ''bottleneck'', ''W4'', ''W5'', ''W6_regr''] \<and>
    FreezeUnfreeze_train K fself a w = Inr (fres, fself', fw') \<and> prune a"
  then have nm: "map name (layers (m fself)) = [''W1'', ''W2'', ''bottleneck'', ''W4'', ''W5'', ''W6_regr'']"
    and run: "FreezeUnfreeze_train K fself a w = Inr (fres, fself', fw')" and p: "prune a"
    by simp_all
  from FU_prune_run[OF run p] obtain c1 c2 pb sm pa sm2 saved lp ind mp c3 pp sm3 W W' where
    tr: "trace fw' = trace w @ [Fit c1, Fit c2, Load pb sm, Load pa sm2, Save lp saved,
                                 Load lp saved, Fit c3, Load pp sm3]"
    and sn: "map name (layers saved) = map name (layers (m fself))"
    and pr: "prune_rebuild K fself lp (geneNames a) W = Inr (ind, mp, W')"
    and f: "files W lp = Some saved"
    and c3: "f_model c3 = mp"
    by auto
  show "\<exists>c1 c2 pb sm pa sm2 lp saved c3 pp sm3.
         trace fw' = trace w @ [Fit c1, Fit c2, Load pb sm, Load pa sm2, Save lp saved,
                                 Load lp saved, Fit c3, Load pp sm3] \<and>
         map name (layers (f_model c3)) = [''W1_25'', ''W2'', ''bottleneck'', ''W4'', ''W5'', ''W6_regr''] \<and>
         kernel (layers (f_model c3) ! 0) =
           map (\<lambda>i. kernel (layers saved ! 0) ! i)
             (select_genes (kernel (layers saved ! 0))) \<and>
         bias (layers (f_model c3) ! 0) = bias (layers saved ! 0) \<and>
         map (\<lambda>l. (name l, kernel l, bias l)) (tl (layers (f_model c3))) =
           map (\<lambda>l. (name l, kernel l, bias l)) (tl (layers saved))"
    apply (rule exI[of _ c1], rule exI[of _ c2], rule exI[of _ pb], rule exI[of _ sm],
        rule exI[of _ pa], rule exI[of _ sm2], rule exI[of _ lp],
        rule exI[of _ saved], rule exI[of _ c3], rule exI[of _ pp], rule exI[of _ sm3])
    using tr transplant_of_rebuild[OF pr f] sn nm unfolding c3 by simp
next
  assume "map name (layers (m fself)) = [''W1'', ''W2'', ''bottleneck'', ''W4'', ''W5'', ''W6_regr''] \<and>
    FreezeUnfreeze_train_full_dataset K fself fa w = Inr (r, dself', dw') \<and> prune fa"
  then have nm: "map name (layers (m fself)) = [''W1'', ''W2'', ''bottleneck'', ''W4'', ''W5'', ''W6_regr'']"
    and run: "FreezeUnfreeze_train_full_dataset K fself fa w = Inr (r, dself', dw')"
    and p: "prune fa"
    by simp_all
  from FU_full_prune_run[OF run p] obtain c1 pb m2 c2 saved lp ind mp pp c3 W W' where
    tr: "trace dw' = trace w @ [Fit c1, Save pb m2, Fit c2, Save lp saved, Load lp saved,
                                 Save pp mp, Fit c3]"
    and sn: "map name (layers saved) = map name (layers (m fself))"
    and pr: "prune_rebuild K fself lp (geneNames fa) W = Inr (ind, mp, W')"
    and f: "files W lp = Some saved"
    and c3: "f_model c3 = mp"
    by auto
  show "\<exists>c1 pb m2 c2 lp saved pp mp c3.
         trace dw' = trace w @ [Fit c1, Save pb m2, Fit c2, Save lp saved, Load lp saved,
                                 Save pp mp, Fit c3] \<and>
         f_model c3 = mp \<and>
         map name (layers (f_model c3)) = [''W1_25'', ''W2'', ''bottleneck'', ''W4'', ''W5'', ''W6_regr''] \<and>
         kernel (layers (f_model c3) ! 0) =
           map (\<lambda>i. kernel (layers saved ! 0) ! i)
             (select_genes (kernel (layers saved ! 0))) \<and>
         bias (layers (f_model c3) ! 0) = bias (layers saved ! 0) \<and>
         map (\<lambda>l. (name l, kernel l, bias l)) (tl (layers (f_model c3))) =
           map (\<lambda>l. (name l, kernel l, bias l)) (tl (layers saved))"
    apply (rule exI[of _ c1], rule exI[of _ pb], rule exI[of _ m2], rule exI[of _ c2],
        rule exI[of _ lp], rule exI[of _ saved], rule exI[of _ pp], rule exI[of _ mp],
        rule exI[of _ c3])
    using tr transplant_of_rebuild[OF pr f] sn nm unfolding c3 by simp
qed

theorem weight_transplant_witness:
  "\<exists>self res self' w' fself fres fself' fw' r dself' dw'.
     (StraightRegression_init demo_keras demo_world 0 1 1 ''relu'' 26 1 False None = Inr self) \<and>
     (map name (layers (m self)) = [''W1'', ''W2'', ''bottleneck'', ''W4'', ''W5'', ''W6_regr''] \<and>
      StraightRegression_train demo_keras self (demo_args True) demo_world = Inr (res, self', w') \<and> prune (demo_args True)) \<and>
     ((\<exists>c1 p1 sm lp saved c2 p2 sm2.
      trace w' = trace demo_world @ [Fit c1, Load p1 sm, Save lp saved, Load lp saved, Fit c2,
      Load p2 sm2] \<and>
      map name (layers (f_model c2)) = [''W1_25'', ''W2'', ''bottleneck'', ''W4'', ''W5'', ''W6_regr''] \<and>
      kernel (layers (f_model c2) ! 0) =
      map (\<lambda>i. kernel (layers saved ! 0) ! i)
      (select_genes (kernel (layers saved ! 0))) \<and>
      bias (layers (f_model c2) ! 0) = bias (layers saved ! 0) \<and>
      map (\<lambda>l. (name l, kernel l, bias l)) (tl (layers (f_model c2))) =
      map (\<lambda>l. (name l, kernel l, bias l)) (tl (layers saved)))) \<and>
     (FreezeUnfreeze_init demo_keras demo_world 0 1 1 ''relu'' 26 1
      [False, False, False, False, False, True] False None = Inr fself) \<and>
     (map name (layers (m fself)) = [''W1'', ''W2'', ''bottleneck'', ''W4'', ''W5'', ''W6_regr''] \<and>
      FreezeUnfreeze_train demo_keras fself (demo_args True) demo_world = Inr (fres, fself', fw') \<and> prune (demo_args True)) \<and>
     ((\<exists>c1 c2 pb sm pa sm2 lp saved c3 pp sm3.
      trace fw' = trace demo_world @ [Fit c1, Fit c2, Load pb sm, Load pa sm2, Save lp saved,
      Load lp saved, Fit c3, Load pp sm3] \<and>
      map name (layers (f_model c3)) = [''W1_25'', ''W2'', ''bottleneck'', ''W4'', ''W5'', ''W6_regr''] \<and>
      kernel (layers (f_model c3) ! 0) =
      map (\<lambda>i. kernel (layers saved ! 0) ! i)
      (select_genes (kernel (layers saved ! 0))) \<and>
      bias (layers (f_model c3) ! 0) = bias (layers saved ! 0) \<and>
      map (\<lambda>l. (name l, kernel l, bias l)) (tl (layers (f_model c3))) =
      map (\<lambda>l. (name l, kernel l, bias l)) (tl (layers saved)))) \<and>
     (map name (layers (m fself)) = [''W1'', ''W2'', ''bottleneck'', ''W4'', ''W5'', ''W6_regr''] \<and>
      FreezeUnfreeze_train_full_dataset demo_keras fself (demo_full_args True) demo_world = Inr (r, dself', dw') \<and> prune (demo_full_args True)) \<and>
     ((\<exists>c1 pb m2 c2 lp saved pp mp c3.
      trace dw' = trace demo_world @ [Fit c1, Save pb m2, Fit c2, Save lp saved, Load lp saved,
      Save pp mp, Fit c3] \<and>
      f_model c3 = mp \<and>
      map name (layers (f_model c3)) = [''W1_25'', ''W2'', ''bottleneck'', ''W4'', ''W5'', ''W6_regr''] \<and>
      kernel (layers (f_model c3) ! 0) =
      map (\<lambda>i. kernel (layers saved ! 0) ! i)
      (select_genes (kernel (layers saved ! 0))) \<and>
      bias (layers (f_model c3) ! 0) = bias (layers saved ! 0) \<and>
      map (\<lambda>l. (name l, kernel l, bias l)) (tl (layers (f_model c3))) =
      map (\<lambda>l. (name l, kernel l, bias l)) (tl (layers saved))))"
proof -
  from demo_SR_returns obtain self res self' w' where
    init: "StraightRegression_init demo_keras demo_world 0 1 1 ''relu'' 26 1 False None = Inr self"
    and nm: "map name (layers (m self)) = [''W1'', ''W2'', ''bottleneck'', ''W4'', ''W5'', ''W6_regr'']"
    and run: "StraightRegression_train demo_keras self (demo_args True) demo_world =
      Inr (res, self', w')"
    by (elim exE conjE)
  from demo_FU_returns obtain fself fres fself' fw' r dself' dw' r0 d0 dw0 where
    finit: "FreezeUnfreeze_init demo_keras demo_world 0 1 1 ''relu'' 26 1
       [False, False, False, False, False, True] False None = Inr fself"
    and fnm: "map name (layers (m fself)) = [''W1'', ''W2'', ''bottleneck'', ''W4'', ''W5'', ''W6_regr'']"
    and frun: "FreezeUnfreeze_train demo_keras fself (demo_args True) demo_world =
      Inr (fres, fself', fw')"
    and drun: "FreezeUnfreeze_train_full_dataset demo_keras fself (demo_full_args True) demo_world =
      Inr (r, dself', dw')"
    and drun0: "FreezeUnfreeze_train_full_dataset demo_keras fself (demo_full_args False)
      demo_world = Inr (r0, d0, dw0)"
    by (elim exE conjE)
  have pr: "prune (demo_args True)" by (simp add: demo_args_def)
  have fpr: "prune (demo_full_args True)" by (simp add: demo_full_args_def)
  note c1 = weight_transplant[THEN conjunct1, THEN mp, OF conjI[OF nm conjI[OF run pr]]]
  note c2 = weight_transplant[THEN conjunct2, THEN conjunct1, THEN mp,
      OF conjI[OF fnm conjI[OF frun pr]]]
  note c3 = weight_transplant[THEN conjunct2, THEN conjunct2, THEN mp,
      OF conjI[OF fnm conjI[OF drun fpr]]]
  show ?thesis
    apply (rule exI[of _ self], rule exI[of _ res], rule exI[of _ "self'"], rule exI[of _ "w'"], rule exI[of _ fself], rule exI[of _ fres], rule exI[of _ "fself'"], rule exI[of _ "fw'"], rule exI[of _ r], rule exI[of _ "dself'"], rule exI[of _ "dw'"])
    apply (rule conjI[OF init conjI[OF conjI[OF nm conjI[OF run pr]] conjI[OF c1 conjI[OF finit conjI[OF conjI[OF fnm conjI[OF frun pr]] conjI[OF c2 conjI[OF conjI[OF fnm conjI[OF drun fpr]] c3]]]]]]])
    done
qed

text \<open>
  C4.  Every call of \<open>fit\<close> that validates carries a \<open>ModelCheckpoint\<close> with
  \<open>save_best_only=True\<close> that monitors \<open>val_categorical_crossentropy\<close> (classification) or
  \<open>val_mean_squared_error\<close> (regression), next to the \<open>EarlyStopping\<close> callback.  The values
  a train method returns are computed from the models read back with \<open>load_model\<close> from
  the checkpoint files (the file as the library left it after the call of \<open>fit\<close>), not
  from the model in memory: \<open>CE_train\<close> and \<open>CE_test\<close> are the first entries of \<open>evaluate\<close>
  on the loaded model, and every \<open>r2_*\<close> value is computed from \<open>predict\<close> of a loaded
  model.
\<close>

theorem metrics_from_reloaded_checkpoint:
  "(ClassificationPreTrain_train K cself x ct xt ctt n b pat cv i1 i2 w =
      Inr ((CE_train, CE_test, ch, cvh), cself', cw') \<longrightarrow>
      (\<exists>c p sm. trace cw' = trace w @ [Fit c, Load p sm, Load p sm] \<and>
         f_validation_data c = Some (xt, to_categorical K ctt) \<and>
         f_callbacks c =
           [EarlyStopping ''val_loss'' ''min'' pat,
            ModelCheckpoint p ''val_categorical_crossentropy'' ''min'' True] \<and>
         fo_files (fit_result K (length (trace w)) c (files w)) p = Some sm \<and>
         py_index (evaluate K sm x (to_categorical K ct)) 0 = Inr CE_train \<and>
         py_index (evaluate K sm xt (to_categorical K ctt)) 0 = Inr CE_test)) \<and>
   (StraightRegression_train K self a w = Inr (res, self', w') \<longrightarrow>
      (\<exists>c1 p1 sm evs. trace w' = trace w @ Fit c1 # Load p1 sm # evs \<and>
         f_validation_data c1 = Some (x_test a, y_test a) \<and>
         f_callbacks c1 =
           [EarlyStopping ''val_mean_squared_error'' ''min'' (if prune a then 2 * patience a else patience a),
            ModelCheckpoint p1 ''val_mean_squared_error'' ''min'' True] \<and>
         fo_files (fit_result K (length (trace w)) c1 (files w)) p1 = Some sm \<and>
         (if prune a
          then (\<exists>lp saved c2 p2 sm2 Xt h vh.
                 evs = [Save lp saved, Load lp saved, Fit c2, Load p2 sm2] \<and>
                 f_validation_data c2 = Some (Xt, y_test a) \<and>
                 f_callbacks c2 =
                   [EarlyStopping ''val_mean_squared_error'' ''min'' (2 * patience a), ModelCheckpoint p2 ''val_mean_squared_error'' ''min'' True] \<and>
                 res = SR_pruned (np_r2 (y_train a) (predict K sm (x_train a))) (np_r2 (y_test a) (predict K sm (x_test a)))
                         (np_r2 (y_train a) (predict K sm2 (f_x c2)))
                         (np_r2 (y_test a) (predict K sm2 Xt)) h vh)
          else (\<exists>lp h vh. evs = [Save lp (m self')] \<and>
                 res = SR_plain (np_r2 (y_train a) (predict K sm (x_train a))) (np_r2 (y_test a) (predict K sm (x_test a))) h vh)))) \<and>
   (FreezeUnfreeze_train K fself a w = Inr (fres, fself', fw') \<longrightarrow>
      (\<exists>c1 pb c2 pa sm sm2 evs.
         trace fw' = trace w @ Fit c1 # Fit c2 # Load pb sm # Load pa sm2 # evs \<and>
         f_validation_data c1 = Some (x_test a, y_test a) \<and>
         f_callbacks c1 = [EarlyStopping ''val_mean_squared_error'' ''min'' (patience a), ModelCheckpoint pb ''val_mean_squared_error'' ''min'' True] \<and>
         f_validation_data c2 = Some (x_test a, y_test a) \<and>
         f_callbacks c2 = [EarlyStopping ''val_mean_squared_error'' ''min'' (patience a), ModelCheckpoint pa ''val_mean_squared_error'' ''min'' True] \<and>
         (if prune a
          then (\<exists>lp saved c3 pp sm3 Xt h vh.
                 evs = [Save lp saved, Load lp saved, Fit c3, Load pp sm3] \<and>
                 f_validation_data c3 = Some (Xt, y_test a) \<and>
                 f_callbacks c3 =
                   [EarlyStopping ''val_mean_squared_error'' ''min'' (2 * patience a), ModelCheckpoint pp ''val_mean_squared_error'' ''min'' True] \<and>
                 fres = FU_pruned (np_r2 (y_train a) (predict K sm (x_train a))) (np_r2 (y_test a) (predict K sm (x_test a))) (np_r2 (y_train a) (predict K sm2 (x_train a))) (np_r2 (y_test a) (predict K sm2 (x_test a)))
                          (np_r2 (y_train a) (predict K sm3 (f_x c3)))
                          (np_r2 (y_test a) (predict K sm3 Xt)) h vh)
          else (\<exists>lp h vh. evs = [Save lp (m fself')] \<and>
                 fres = FU_plain (np_r2 (y_train a) (predict K sm (x_train a))) (np_r2 (y_test a) (predict K sm (x_test a))) (np_r2 (y_train a) (predict K sm2 (x_train a))) (np_r2 (y_test a) (predict K sm2 (x_test a))) h vh))))"
proof (intro conjI impI)
  assume run: "ClassificationPreTrain_train K cself x ct xt ctt n b pat cv i1 i2 w =
      Inr ((CE_train, CE_test, ch, cvh), cself', cw')"
  from CPT_train_unfold[OF run] show "(\<exists>c p sm. trace cw' = trace w @ [Fit c, Load p sm, Load p sm] \<and>
         f_validation_data c = Some (xt, to_categorical K ctt) \<and>
         f_callbacks c =
           [EarlyStopping ''val_loss'' ''min'' pat,
            ModelCheckpoint p ''val_categorical_crossentropy'' ''min'' True] \<and>
         fo_files (fit_result K (length (trace w)) c (files w)) p = Some sm \<and>
         py_index (evaluate K sm x (to_categorical K ct)) 0 = Inr CE_train \<and>
         py_index (evaluate K sm xt (to_categorical K ctt)) 0 = Inr CE_test)"
    by auto
next
  assume run: "StraightRegression_train K self a w = Inr (res, self', w')"
  show "(\<exists>c1 p1 sm evs. trace w' = trace w @ Fit c1 # Load p1 sm # evs \<and>
         f_validation_data c1 = Some (x_test a, y_test a) \<and>
         f_callbacks c1 =
           [EarlyStopping ''val_mean_squared_error'' ''min'' (if prune a then 2 * patience a else patience a),
            ModelCheckpoint p1 ''val_mean_squared_error'' ''min'' True] \<and>
         fo_files (fit_result K (length (trace w)) c1 (files w)) p1 = Some sm \<and>
         (if prune a
          then (\<exists>lp saved c2 p2 sm2 Xt h vh.
                 evs = [Save lp saved, Load lp saved, Fit c2, Load p2 sm2] \<and>
                 f_validation_data c2 = Some (Xt, y_test a) \<and>
                 f_callbacks c2 =
                   [EarlyStopping ''val_mean_squared_error'' ''min'' (2 * patience a), ModelCheckpoint p2 ''val_mean_squared_error'' ''min'' True] \<and>
                 res = SR_pruned (np_r2 (y_train a) (predict K sm (x_train a))) (np_r2 (y_test a) (predict K sm (x_test a)))
                         (np_r2 (y_train a) (predict K sm2 (f_x c2)))
                         (np_r2 (y_test a) (predict K sm2 Xt)) h vh)
          else (\<exists>lp h vh. evs = [Save lp (m self')] \<and>
                 res = SR_plain (np_r2 (y_train a) (predict K sm (x_train a))) (np_r2 (y_test a) (predict K sm (x_test a))) h vh)))"
  proof (cases "prune a")
    case False
    with SR_train_unfold[OF run] show ?thesis by auto
  next
    case True
    from SR_prune_run[OF run True] obtain c1 p1 sm saved lp Xt c2 p2 sm2 h vh where
      tr: "trace w' = trace w @ [Fit c1, Load p1 sm, Save lp saved, Load lp saved, Fit c2,
                                  Load p2 sm2]"
      and c1: "f_validation_data c1 = Some (x_test a, y_test a)"
        "f_callbacks c1 = [EarlyStopping ''val_mean_squared_error'' ''min'' (2 * patience a), ModelCheckpoint p1 ''val_mean_squared_error'' ''min'' True]"
        "fo_files (fit_result K (length (trace w)) c1 (files w)) p1 = Some sm"
      and c2: "f_validation_data c2 = Some (Xt, y_test a)"
        "f_callbacks c2 = [EarlyStopping ''val_mean_squared_error'' ''min'' (2 * patience a), ModelCheckpoint p2 ''val_mean_squared_error'' ''min'' True]"
      and res: "res = SR_pruned (np_r2 (y_train a) (predict K sm (x_train a))) (np_r2 (y_test a) (predict K sm (x_test a)))
                         (np_r2 (y_train a) (predict K sm2 (f_x c2)))
                         (np_r2 (y_test a) (predict K sm2 Xt)) h vh"
      by auto
    show ?thesis
      apply (rule exI[of _ c1], rule exI[of _ p1], rule exI[of _ sm],
          rule exI[of _ "[Save lp saved, Load lp saved, Fit c2, Load p2 sm2]"])
      apply (simp only: True if_True)
      apply (intro conjI)
          apply (simp add: tr)
         apply (rule c1(1))
        apply (rule c1(2))
       apply (rule c1(3))
      apply (rule exI[of _ lp], rule exI[of _ saved], rule exI[of _ c2], rule exI[of _ p2],
          rule exI[of _ sm2], rule exI[of _ Xt], rule exI[of _ h], rule exI[of _ vh])
      using c2 res by simp
  qed
next
  assume run: "FreezeUnfreeze_train K fself a w = Inr (fres, fself', fw')"
  show "(\<exists>c1 pb c2 pa sm sm2 evs.
         trace fw' = trace w @ Fit c1 # Fit c2 # Load pb sm # Load pa sm2 # evs \<and>
         f_validation_data c1 = Some (x_test a, y_test a) \<and>
         f_callbacks c1 = [EarlyStopping ''val_mean_squared_error'' ''min'' (patience a), ModelCheckpoint pb ''val_mean_squared_error'' ''min'' True] \<and>
         f_validation_data c2 = Some (x_test a, y_test a) \<and>
         f_callbacks c2 = [EarlyStopping ''val_mean_squared_error'' ''min'' (patience a), ModelCheckpoint pa ''val_mean_squared_error'' ''min'' True] \<and>
         (if prune a
          then (\<exists>lp saved c3 pp sm3 Xt h vh.
                 evs = [Save lp saved, Load lp saved, Fit c3, Load pp sm3] \<and>
                 f_validation_data c3 = Some (Xt, y_test a) \<and>
                 f_callbacks c3 =
                   [EarlyStopping ''val_mean_squared_error'' ''min'' (2 * patience a), ModelCheckpoint pp ''val_mean_squared_error'' ''min'' True] \<and>
                 fres = FU_pruned (np_r2 (y_train a) (predict K sm (x_train a))) (np_r2 (y_test a) (predict K sm (x_test a))) (np_r2 (y_train a) (predict K sm2 (x_train a))) (np_r2 (y_test a) (predict K sm2 (x_test a)))
                          (np_r2 (y_train a) (predict K sm3 (f_x c3)))
                          (np_r2 (y_test a) (predict K sm3 Xt)) h vh)
          else (\<exists>lp h vh. evs = [Save lp (m fself')] \<and>
                 fres = FU_plain (np_r2 (y_train a) (predict K sm (x_train a))) (np_r2 (y_test a) (predict K sm (x_test a))) (np_r2 (y_train a) (predict K sm2 (x_train a))) (np_r2 (y_test a) (predict K sm2 (x_test a))) h vh)))"
  proof (cases "prune a")
    case False
    with FU_train_unfold[OF run] show ?thesis by auto
  next
    case True
    from FU_prune_run[OF run True] obtain c1 pb c2 pa sm sm2 saved lp Xt c3 pp sm3 h vh where
      tr: "trace fw' = trace w @ [Fit c1, Fit c2, Load pb sm, Load pa sm2, Save lp saved,
                                   Load lp saved, Fit c3, Load pp sm3]"
      and c1: "f_validation_data c1 = Some (x_test a, y_test a)"
        "f_callbacks c1 = [EarlyStopping ''val_mean_squared_error'' ''min'' (patience a), ModelCheckpoint pb ''val_mean_squared_error'' ''min'' True]"
      and c2: "f_validation_data c2 = Some (x_test a, y_test a)"
        "f_callbacks c2 = [EarlyStopping ''val_mean_squared_error'' ''min'' (patience a), ModelCheckpoint pa ''val_mean_squared_error'' ''min'' True]"
      and c3: "f_validation_data c3 = Some (Xt, y_test a)"
        "f_callbacks c3 = [EarlyStopping ''val_mean_squared_error'' ''min'' (2 * patience a), ModelCheckpoint pp ''val_mean_squared_error'' ''min'' True]"
      and res: "fres = FU_pruned (np_r2 (y_train a) (predict K sm (x_train a))) (np_r2 (y_test a) (predict K sm (x_test a))) (np_r2 (y_train a) (predict K sm2 (x_train a))) (np_r2 (y_test a) (predict K sm2 (x_test a)))
                          (np_r2 (y_train a) (predict K sm3 (f_x c3)))
                          (np_r2 (y_test a) (predict K sm3 Xt)) h vh"
      by auto
    show ?thesis
      apply (rule exI[of _ c1], rule exI[of _ pb], rule exI[of _ c2], rule exI[of _ pa],
          rule exI[of _ sm], rule exI[of _ sm2],
          rule exI[of _ "[Save lp saved, Load lp saved, Fit c3, Load pp sm3]"])
      apply (simp only: True if_True)
      apply (intro conjI)
           apply (simp add: tr)
          apply (rule c1(1))
         apply (rule c1(2))
        apply (rule c2(1))
       apply (rule c2(2))
      apply (rule exI[of _ lp], rule exI[of _ saved], rule exI[of _ c3], rule exI[of _ pp],
          rule exI[of _ sm3], rule exI[of _ Xt], rule exI[of _ h], rule exI[of _ vh])
      using c3 res by simp
  qed
qed

theorem metrics_from_reloaded_checkpoint_witness:
  "\<exists>CE_train CE_test ch cvh cself' cw' self res self' w' fself fres fself' fw'.
     (ClassificationPreTrain_train demo_keras (ClassificationPreTrain_init demo_keras demo_world 0 1 1 ''relu'' 26 3) [map real [0..<26]] [0] [map real [0..<26]] [1] 10 1 3 0 0 0 demo_world =
      Inr ((CE_train, CE_test, ch, cvh), cself', cw')) \<and>
     ((\<exists>c p sm. trace cw' = trace demo_world @ [Fit c, Load p sm, Load p sm] \<and>
      f_validation_data c = Some ([map real [0..<26]], to_categorical demo_keras [1]) \<and>
      f_callbacks c =
      [EarlyStopping ''val_loss'' ''min'' 3,
      ModelCheckpoint p ''val_categorical_crossentropy'' ''min'' True] \<and>
      fo_files (fit_result demo_keras (length (trace demo_world)) c (files demo_world)) p = Some sm \<and>
      py_index (evaluate demo_keras sm [map real [0..<26]] (to_categorical demo_keras [0])) 0 = Inr CE_train \<and>
      py_index (evaluate demo_keras sm [map real [0..<26]] (to_categorical demo_keras [1])) 0 = Inr CE_test)) \<and>
     (StraightRegression_init demo_keras demo_world 0 1 1 ''relu'' 26 1 False None = Inr self) \<and>
     (StraightRegression_train demo_keras self (demo_args True) demo_world = Inr (res, self', w')) \<and>
     ((\<exists>c1 p1 sm evs. trace w' = trace demo_world @ Fit c1 # Load p1 sm # evs \<and>
      f_validation_data c1 = Some (x_test (demo_args True), y_test (demo_args True)) \<and>
      f_callbacks c1 =
      [EarlyStopping ''val_mean_squared_error'' ''min'' (if prune (demo_args True) then 2 * patience (demo_args True) else patience (demo_args True)),
      ModelCheckpoint p1 ''val_mean_squared_error'' ''min'' True] \<and>
      fo_files (fit_result demo_keras (length (trace demo_world)) c1 (files demo_world)) p1 = Some sm \<and>
      (if prune (demo_args True)
      then (\<exists>lp saved c2 p2 sm2 Xt h vh.
      evs = [Save lp saved, Load lp saved, Fit c2, Load p2 sm2] \<and>
      f_validation_data c2 = Some (Xt, y_test (demo_args True)) \<and>
      f_callbacks c2 =
      [EarlyStopping ''val_mean_squared_error'' ''min'' (2 * patience (demo_args True)), ModelCheckpoint p2 ''val_mean_squared_error'' ''min'' True] \<and>
      res = SR_pruned (np_r2 (y_train (demo_args True)) (predict demo_keras sm (x_train (demo_args True)))) (np_r2 (y_test (demo_args True)) (predict demo_keras sm (x_test (demo_args True))))
      (np_r2 (y_train (demo_args True)) (predict demo_keras sm2 (f_x c2)))
      (np_r2 (y_test (demo_args True)) (predict demo_keras sm2 Xt)) h vh)
      else (\<exists>lp h vh. evs = [Save lp (m self')] \<and>
      res = SR_plain (np_r2 (y_train (demo_args True)) (predict demo_keras sm (x_train (demo_args True)))) (np_r2 (y_test (demo_args True)) (predict demo_keras sm (x_test (demo_args True)))) h vh)))) \<and>
     (FreezeUnfreeze_init demo_keras demo_world 0 1 1 ''relu'' 26 1
      [False, False, False, False, False, True] False None = Inr fself) \<and>
     (FreezeUnfreeze_train demo_keras fself (demo_args True) demo_world = Inr (fres, fself', fw')) \<and>
     ((\<exists>c1 pb c2 pa sm sm2 evs.
      trace fw' = trace demo_world @ Fit c1 # Fit c2 # Load pb sm # Load pa sm2 # evs \<and>
      f_validation_data c1 = Some (x_test (demo_args True), y_test (demo_args True)) \<and>
      f_callbacks c1 = [EarlyStopping ''val_mean_squared_error'' ''min'' (patience (demo_args True)), ModelCheckpoint pb ''val_mean_squared_error'' ''min'' True] \<and>
      f_validation_data c2 = Some (x_test (demo_args True), y_test (demo_args True)) \<and>
      f_callbacks c2 = [EarlyStopping ''val_mean_squared_error'' ''min'' (patience (demo_args True)), ModelCheckpoint pa ''val_mean_squared_error'' ''min'' True] \<and>
      (if prune (demo_args True)
      then (\<exists>lp saved c3 pp sm3 Xt h vh.
      evs = [Save lp saved, Load lp saved, Fit c3, Load pp sm3] \<and>
      f_validation_data c3 = Some (Xt, y_test (demo_args True)) \<and>
      f_callbacks c3 =
      [EarlyStopping ''val_mean_squared_error'' ''min'' (2 * patience (demo_args True)), ModelCheckpoint pp ''val_mean_squared_error'' ''min'' True] \<and>
      fres = FU_pruned (np_r2 (y_train (demo_args True)) (predict demo_keras sm (x_train (demo_args True)))) (np_r2 (y_test (demo_args True)) (predict demo_keras sm (x_test (demo_args True)))) (np_r2 (y_train (demo_args True)) (predict demo_keras sm2 (x_train (demo_args True)))) (np_r2 (y_test (demo_args True)) (predict demo_keras sm2 (x_test (demo_args True))))
      (np_r2 (y_train (demo_args True)) (predict demo_keras sm3 (f_x c3)))
      (np_r2 (y_test (demo_args True)) (predict demo_keras sm3 Xt)) h vh)
      else (\<exists>lp h vh. evs = [Save lp (m fself')] \<and>
      fres = FU_plain (np_r2 (y_train (demo_args True)) (predict demo_keras sm (x_train (demo_args True)))) (np_r2 (y_test (demo_args True)) (predict demo_keras sm (x_test (demo_args True)))) (np_r2 (y_train (demo_args True)) (predict demo_keras sm2 (x_train (demo_args True)))) (np_r2 (y_test (demo_args True)) (predict demo_keras sm2 (x_test (demo_args True)))) h vh))))"
proof -
  from demo_SR_returns obtain self res self' w' where
    init: "StraightRegression_init demo_keras demo_world 0 1 1 ''relu'' 26 1 False None = Inr self"
    and nm: "map name (layers (m self)) = [''W1'', ''W2'', ''bottleneck'', ''W4'', ''W5'', ''W6_regr'']"
    and run: "StraightRegression_train demo_keras self (demo_args True) demo_world =
      Inr (res, self', w')"
    by (elim exE conjE)
  from demo_FU_returns obtain fself fres fself' fw' r dself' dw' r0 d0 dw0 where
    finit: "FreezeUnfreeze_init demo_keras demo_world 0 1 1 ''relu'' 26 1
       [False, False, False, False, False, True] False None = Inr fself"
    and fnm: "map name (layers (m fself)) = [''W1'', ''W2'', ''bottleneck'', ''W4'', ''W5'', ''W6_regr'']"
    and frun: "FreezeUnfreeze_train demo_keras fself (demo_args True) demo_world =
      Inr (fres, fself', fw')"
    and drun: "FreezeUnfreeze_train_full_dataset demo_keras fself (demo_full_args True) demo_world =
      Inr (r, dself', dw')"
    and drun0: "FreezeUnfreeze_train_full_dataset demo_keras fself (demo_full_args False)
      demo_world = Inr (r0, d0, dw0)"
    by (elim exE conjE)
  from demo_CPT_returns[of "ClassificationPreTrain_init demo_keras demo_world 0 1 1 ''relu'' 26 3" "[map real [0..<26]]" "[0]" "[map real [0..<26]]" "[1]" 10 1 3 0 0 0 demo_world]
  obtain CE_train CE_test ch cvh cself' cw' where
    crun: "ClassificationPreTrain_train demo_keras (ClassificationPreTrain_init demo_keras demo_world 0 1 1 ''relu'' 26 3) [map real [0..<26]] [0] [map real [0..<26]] [1] 10 1 3 0 0 0 demo_world =
      Inr ((CE_train, CE_test, ch, cvh), cself', cw')"
    by (elim exE)
  note c1 = metrics_from_reloaded_checkpoint[THEN conjunct1, THEN mp, OF crun]
  note c2 = metrics_from_reloaded_checkpoint[THEN conjunct2, THEN conjunct1, THEN mp, OF run]
  note c3 = metrics_from_reloaded_checkpoint[THEN conjunct2, THEN conjunct2, THEN mp, OF frun]
  show ?thesis
    apply (rule exI[of _ CE_train], rule exI[of _ CE_test], rule exI[of _ ch], rule exI[of _ cvh], rule exI[of _ "cself'"], rule exI[of _ "cw'"], rule exI[of _ self], rule exI[of _ res], rule exI[of _ "self'"], rule exI[of _ "w'"], rule exI[of _ fself], rule exI[of _ fres], rule exI[of _ "fself'"], rule exI[of _ "fw'"])
    apply (rule conjI[OF crun conjI[OF c1 conjI[OF init conjI[OF run conjI[OF c2 conjI[OF finit conjI[OF frun c3]]]]]]])
    done
qed

end
